theory Spec2Isabelle
  imports Main "HOL-Library.Word" "HOL-Library.AList"
begin

unbundle bit_operations_syntax

section \<open>Machine integers of the probes\<close>

type_synonym u8 = "8 word"
type_synonym u16 = "16 word"
type_synonym u32 = "32 word"
type_synonym u64 = "64 word"

section \<open>Histogram bucketer (iolatency.c)\<close>

text \<open>
  \<^verbatim>\<open>log2_slot\<close> of iolatency.c: the loop body runs \<^verbatim>\<open>HIST_SLOTS - 1\<close> times; each
  pass shifts \<^verbatim>\<open>v\<close> right by one and increments \<^verbatim>\<open>slot\<close> when \<^verbatim>\<open>v > 1\<close>, and does
  nothing otherwise. The first argument counts the passes that remain.
\<close>

definition HIST_SLOTS :: nat where
  "HIST_SLOTS = 16"

fun log2_slot_loop :: "nat \<Rightarrow> u64 \<Rightarrow> u32 \<Rightarrow> u32" where
  "log2_slot_loop 0 v slot = slot"
| "log2_slot_loop (Suc n) v slot =
     (if v > 1 then log2_slot_loop n (drop_bit 1 v) (slot + 1)
      else log2_slot_loop n v slot)"

definition log2_slot :: "u64 \<Rightarrow> u32" where
  "log2_slot us =
     (let slot = log2_slot_loop (HIST_SLOTS - 1) us 0
      in if slot \<ge> of_nat HIST_SLOTS then of_nat (HIST_SLOTS - 1) else slot)"

text \<open>
  The bucketer as section 4.3 of the specification words it: starting from bucket 0, halve
  the value while it remains greater than 1, counting the halvings, for at most 15
  iterations, and clamp the result to 15.
\<close>

fun halvings :: "nat \<Rightarrow> nat \<Rightarrow> nat" where
  "halvings 0 v = 0"
| "halvings (Suc n) v = (if v > 1 then Suc (halvings n (v div 2)) else 0)"

definition histogram_bucket :: "nat \<Rightarrow> nat" where
  "histogram_bucket v = min 15 (halvings 15 v)"

section \<open>BPF hash maps\<close>

text \<open>
  Every table of the probes is a \<^verbatim>\<open>BPF_MAP_TYPE_HASH\<close> map declared with a fixed
  \<^verbatim>\<open>max_entries\<close>. The map is kept as its capacity and the list of its (key, value)
  pairs; the order of the list has no meaning for the probes, which reach the map through
  the three helpers below only. A handler invocation is one step on the tables: the
  interleavings of invocations that run at the same time on several processors are not
  part of this development.
\<close>

record ('k, 'v) bpf_map =
  max_entries :: nat
  entries :: "('k \<times> 'v) list"

datatype update_flag = BPF_ANY | BPF_NOEXIST

definition ENOENT :: int where
  "ENOENT = 2"

definition E2BIG :: int where
  "E2BIG = 7"

definition EEXIST :: int where
  "EEXIST = 17"

text \<open>
  Modelled from the spec: the helper \<^verbatim>\<open>bpf_map_lookup_elem\<close> is declared in
  \<^verbatim>\<open>bpf/bpf_helpers.h\<close> and implemented by the kernel, neither of which is among the
  sources. Section 4.1 and 4.4: a lookup yields the record stored for the key, or nothing.
\<close>

definition bpf_map_lookup_elem :: "('k, 'v) bpf_map \<Rightarrow> 'k \<Rightarrow> 'v option" where
  "bpf_map_lookup_elem m k = map_of (entries m) k"

text \<open>
  Modelled from the spec: the helper \<^verbatim>\<open>bpf_map_update_elem\<close> is declared in
  \<^verbatim>\<open>bpf/bpf_helpers.h\<close> and implemented by the kernel, neither of which is among the
  sources. Section 4.1 and 4.4: the capacity is fixed at construction and never resized;
  a key that is present is overwritten under \<^verbatim>\<open>BPF_ANY\<close> and left alone under
  \<^verbatim>\<open>BPF_NOEXIST\<close> (insert if absent); a key that is absent is inserted when the table
  is not at capacity and rejected when it is. The helper reports the rejection in its
  return value (a negative errno), which every probe discards.
\<close>

definition bpf_map_update_elem ::
  "('k, 'v) bpf_map \<Rightarrow> 'k \<Rightarrow> 'v \<Rightarrow> update_flag \<Rightarrow> int \<times> ('k, 'v) bpf_map" where
  "bpf_map_update_elem m k v flag =
     (case map_of (entries m) k of
        Some old \<Rightarrow>
          (case flag of
             BPF_NOEXIST \<Rightarrow> (- EEXIST, m)
           | BPF_ANY \<Rightarrow> (0, m\<lparr>entries := AList.update k v (entries m)\<rparr>))
      | None \<Rightarrow>
          if length (entries m) < max_entries m
          then (0, m\<lparr>entries := entries m @ [(k, v)]\<rparr>)
          else (- E2BIG, m))"

text \<open>
  Modelled from the spec: the helper \<^verbatim>\<open>bpf_map_delete_elem\<close> is declared in
  \<^verbatim>\<open>bpf/bpf_helpers.h\<close> and implemented by the kernel, neither of which is among the
  sources. Section 4.4: the entry of the key is removed; removing an absent key changes
  nothing.
\<close>

definition bpf_map_delete_elem :: "('k, 'v) bpf_map \<Rightarrow> 'k \<Rightarrow> int \<times> ('k, 'v) bpf_map" where
  "bpf_map_delete_elem m k =
     (case map_of (entries m) k of
        Some old \<Rightarrow> (0, m\<lparr>entries := AList.delete k (entries m)\<rparr>)
      | None \<Rightarrow> (- ENOENT, m))"

text \<open>
  A probe that found a record with \<^verbatim>\<open>bpf_map_lookup_elem\<close> holds a pointer into the
  map and changes the record's fields through it. \<open>store_elem\<close> writes the record so
  changed back under its key; the probes call it for a key that is present only.
\<close>

definition store_elem :: "('k, 'v) bpf_map \<Rightarrow> 'k \<Rightarrow> 'v \<Rightarrow> ('k, 'v) bpf_map" where
  "store_elem m k v = m\<lparr>entries := AList.update k v (entries m)\<rparr>"

text \<open>
  A table holds \<open>N\<close> distinct keys when its list has \<open>N\<close> pairs with pairwise different
  keys; it has room for a key that is present or when it is below its capacity.
\<close>

definition map_wf :: "('k, 'v) bpf_map \<Rightarrow> bool" where
  "map_wf m = (distinct (map fst (entries m)) \<and> length (entries m) \<le> max_entries m)"

definition at_capacity :: "('k, 'v) bpf_map \<Rightarrow> bool" where
  "at_capacity m = (length (entries m) = max_entries m)"

definition has_room :: "('k, 'v) bpf_map \<Rightarrow> 'k \<Rightarrow> bool" where
  "has_room m k = (map_of (entries m) k \<noteq> None \<or> length (entries m) < max_entries m)"

definition empty_map :: "nat \<Rightarrow> ('k, 'v) bpf_map" where
  "empty_map n = \<lparr>max_entries = n, entries = []\<rparr>"

section \<open>What a probe reads from its context\<close>

text \<open>
  \<^verbatim>\<open>bpf_get_current_pid_tgid() >> 32\<close>, assigned to a \<^verbatim>\<open>__u32\<close>: the thread group id
  of the current task. The value of \<^verbatim>\<open>bpf_ktime_get_ns()\<close> is an argument of each
  handler that calls it.
\<close>

definition current_pid :: "u64 \<Rightarrow> u32" where
  "current_pid pid_tgid = ucast (drop_bit 32 pid_tgid)"

text \<open>
  The expression \<^verbatim>\<open>delta > 0xFFFFFFFF ? 0xFFFFFFFF : (__u32)delta\<close> that runqlat.c,
  syscalldissect.c, tcpconnlat.c and sockio.c evaluate before they touch a 32-bit maximum.
\<close>

definition delta32 :: "u64 \<Rightarrow> u32" where
  "delta32 delta = (if delta > 0xFFFFFFFF then 0xFFFFFFFF else ucast delta)"

section \<open>runqlat.c\<close>

record rqlat_val =
  rqlat_total_ns :: u64
  rqlat_count :: u32
  rqlat_max_ns :: u32

record rqlat_state =
  rq_start :: "(u32, u64) bpf_map"
  rqlat_accum :: "(u32, rqlat_val) bpf_map"

definition rqlat_init :: rqlat_state where
  "rqlat_init = \<lparr>rq_start = empty_map 10240, rqlat_accum = empty_map 10240\<rparr>"

text \<open>\<open>pid\<close> is \<^verbatim>\<open>(__u32)ctx->pid\<close>, \<open>ts\<close> the clock.\<close>

definition handle_sched_wakeup :: "u32 \<Rightarrow> u64 \<Rightarrow> rqlat_state \<Rightarrow> int \<times> rqlat_state" where
  "handle_sched_wakeup pid ts st =
     (if pid = 0 then (0, st)
      else (0, st\<lparr>rq_start := snd (bpf_map_update_elem (rq_start st) pid ts BPF_ANY)\<rparr>))"

text \<open>\<open>pid\<close> is \<^verbatim>\<open>BPF_CORE_READ(next, tgid)\<close>, \<open>now\<close> the clock.\<close>

definition handle_sched_switch_rqlat :: "u32 \<Rightarrow> u64 \<Rightarrow> rqlat_state \<Rightarrow> int \<times> rqlat_state" where
  "handle_sched_switch_rqlat pid now st =
     (if pid = 0 then (0, st)
      else
       (case bpf_map_lookup_elem (rq_start st) pid of
          None \<Rightarrow> (0, st)
        | Some tsp \<Rightarrow>
           (let delta = now - tsp;
                st1 = st\<lparr>rq_start := snd (bpf_map_delete_elem (rq_start st) pid)\<rparr>
            in if delta > 10000000000 then (0, st1)
               else
                (case bpf_map_lookup_elem (rqlat_accum st1) pid of
                   Some val \<Rightarrow>
                    (let val1 = val\<lparr>rqlat_total_ns := rqlat_total_ns val + delta\<rparr>;
                         val2 = val1\<lparr>rqlat_count := rqlat_count val1 + 1\<rparr>;
                         val3 = (if delta32 delta > rqlat_max_ns val2
                                 then val2\<lparr>rqlat_max_ns := delta32 delta\<rparr> else val2)
                     in (0, st1\<lparr>rqlat_accum := store_elem (rqlat_accum st1) pid val3\<rparr>))
                 | None \<Rightarrow>
                    (let new_val = \<lparr>rqlat_total_ns = delta, rqlat_count = 1,
                                    rqlat_max_ns = delta32 delta\<rparr>
                     in (0, st1\<lparr>rqlat_accum :=
                          snd (bpf_map_update_elem (rqlat_accum st1) pid new_val
                                 BPF_NOEXIST)\<rparr>))))))"

section \<open>lockwait.c\<close>

record lock_val =
  lock_total_wait_ns :: u64
  lock_count :: u32

record lockwait_state =
  futex_start :: "(u32, u64) bpf_map"
  futex_accum :: "(u32, lock_val) bpf_map"

definition lockwait_init :: lockwait_state where
  "lockwait_init = \<lparr>futex_start = empty_map 10240, futex_accum = empty_map 10240\<rparr>"

definition FUTEX_WAIT :: u32 where
  "FUTEX_WAIT = 0"

definition FUTEX_WAIT_BITSET :: u32 where
  "FUTEX_WAIT_BITSET = 9"

definition FUTEX_LOCK_PI :: u32 where
  "FUTEX_LOCK_PI = 6"

text \<open>\<open>ctx_op\<close> is the 64-bit \<^verbatim>\<open>ctx->op\<close>; the handler keeps its low seven bits.\<close>

definition futex_wait_op :: "u64 \<Rightarrow> bool" where
  "futex_wait_op ctx_op =
     ((ucast (ctx_op AND 0x7F) :: u32) \<in> {FUTEX_WAIT, FUTEX_WAIT_BITSET, FUTEX_LOCK_PI})"

definition handle_futex_enter :: "u64 \<Rightarrow> u64 \<Rightarrow> u64 \<Rightarrow> lockwait_state \<Rightarrow> int \<times> lockwait_state" where
  "handle_futex_enter ctx_op pid_tgid ts st =
     (let op = (ucast (ctx_op AND 0x7F) :: u32)
      in if op \<noteq> FUTEX_WAIT \<and> op \<noteq> FUTEX_WAIT_BITSET \<and> op \<noteq> FUTEX_LOCK_PI then (0, st)
         else
          (let pid = current_pid pid_tgid
           in if pid = 0 then (0, st)
              else (0, st\<lparr>futex_start :=
                     snd (bpf_map_update_elem (futex_start st) pid ts BPF_ANY)\<rparr>)))"

definition handle_futex_exit :: "u64 \<Rightarrow> u64 \<Rightarrow> lockwait_state \<Rightarrow> int \<times> lockwait_state" where
  "handle_futex_exit pid_tgid now st =
     (let pid = current_pid pid_tgid
      in if pid = 0 then (0, st)
         else
          (case bpf_map_lookup_elem (futex_start st) pid of
             None \<Rightarrow> (0, st)
           | Some tsp \<Rightarrow>
              (let delta = now - tsp;
                   st1 = st\<lparr>futex_start := snd (bpf_map_delete_elem (futex_start st) pid)\<rparr>
               in if delta = 0 \<or> delta > 30000000000 then (0, st1)
                  else
                   (case bpf_map_lookup_elem (futex_accum st1) pid of
                      Some val \<Rightarrow>
                       (let val1 = val\<lparr>lock_total_wait_ns := lock_total_wait_ns val + delta\<rparr>;
                            val2 = val1\<lparr>lock_count := lock_count val1 + 1\<rparr>
                        in (0, st1\<lparr>futex_accum := store_elem (futex_accum st1) pid val2\<rparr>))
                    | None \<Rightarrow>
                       (let new_val = \<lparr>lock_total_wait_ns = delta, lock_count = 1\<rparr>
                        in (0, st1\<lparr>futex_accum :=
                             snd (bpf_map_update_elem (futex_accum st1) pid new_val
                                    BPF_NOEXIST)\<rparr>))))))"

section \<open>pgfault.c\<close>

record pgfault_val =
  pgfault_total_ns :: u64
  pgfault_count :: u32
  pgfault_major_count :: u32

record pgfault_state =
  pgfault_start :: "(u32, u64) bpf_map"
  pgfault_accum :: "(u32, pgfault_val) bpf_map"

definition pgfault_init :: pgfault_state where
  "pgfault_init = \<lparr>pgfault_start = empty_map 10240, pgfault_accum = empty_map 10240\<rparr>"

definition VM_FAULT_MAJOR :: u64 where
  "VM_FAULT_MAJOR = 0x0004"

definition handle_fault_enter :: "u64 \<Rightarrow> u64 \<Rightarrow> pgfault_state \<Rightarrow> int \<times> pgfault_state" where
  "handle_fault_enter pid_tgid ts st =
     (let pid = current_pid pid_tgid
      in if pid = 0 then (0, st)
         else (0, st\<lparr>pgfault_start :=
                snd (bpf_map_update_elem (pgfault_start st) pid ts BPF_ANY)\<rparr>))"

text \<open>\<open>ret\<close> is the 64-bit return value of \<^verbatim>\<open>handle_mm_fault\<close>.\<close>

definition handle_fault_exit :: "u64 \<Rightarrow> u64 \<Rightarrow> u64 \<Rightarrow> pgfault_state \<Rightarrow> int \<times> pgfault_state" where
  "handle_fault_exit ret pid_tgid now st =
     (let pid = current_pid pid_tgid
      in if pid = 0 then (0, st)
         else
          (case bpf_map_lookup_elem (pgfault_start st) pid of
             None \<Rightarrow> (0, st)
           | Some tsp \<Rightarrow>
              (let delta = now - tsp;
                   st1 = st\<lparr>pgfault_start :=
                           snd (bpf_map_delete_elem (pgfault_start st) pid)\<rparr>
               in if delta > 5000000000 then (0, st1)
                  else
                   (let is_major = (ret AND VM_FAULT_MAJOR \<noteq> 0)
                    in case bpf_map_lookup_elem (pgfault_accum st1) pid of
                         Some val \<Rightarrow>
                          (let val1 = val\<lparr>pgfault_total_ns := pgfault_total_ns val + delta\<rparr>;
                               val2 = val1\<lparr>pgfault_count := pgfault_count val1 + 1\<rparr>;
                               val3 = (if is_major
                                       then val2\<lparr>pgfault_major_count :=
                                              pgfault_major_count val2 + 1\<rparr>
                                       else val2)
                           in (0, st1\<lparr>pgfault_accum :=
                                store_elem (pgfault_accum st1) pid val3\<rparr>))
                       | None \<Rightarrow>
                          (let new_val = \<lparr>pgfault_total_ns = delta, pgfault_count = 1,
                                          pgfault_major_count = (if is_major then 1 else 0)\<rparr>
                           in (0, st1\<lparr>pgfault_accum :=
                                snd (bpf_map_update_elem (pgfault_accum st1) pid new_val
                                       BPF_NOEXIST)\<rparr>))))))"

section \<open>syscalldissect.c\<close>

record sc_key =
  sc_pid :: u32
  sc_syscall_nr :: u32

record sc_val =
  sc_total_ns :: u64
  sc_count :: u32
  sc_max_ns :: u32

record syscall_state =
  sc_start :: "(u32, u64) bpf_map"
  sc_accum :: "(sc_key, sc_val) bpf_map"

definition syscall_init :: syscall_state where
  "syscall_init = \<lparr>sc_start = empty_map 10240, sc_accum = empty_map 32768\<rparr>"

definition handle_sys_enter :: "u64 \<Rightarrow> u64 \<Rightarrow> syscall_state \<Rightarrow> int \<times> syscall_state" where
  "handle_sys_enter pid_tgid ts st =
     (let pid = current_pid pid_tgid
      in if pid = 0 then (0, st)
         else (0, st\<lparr>sc_start := snd (bpf_map_update_elem (sc_start st) pid ts BPF_ANY)\<rparr>))"

text \<open>\<open>ctx_id\<close> is the 64-bit \<^verbatim>\<open>ctx->id\<close>, cut to 32 bits for the key.\<close>

definition handle_sys_exit :: "u64 \<Rightarrow> u64 \<Rightarrow> u64 \<Rightarrow> syscall_state \<Rightarrow> int \<times> syscall_state" where
  "handle_sys_exit ctx_id pid_tgid now st =
     (let pid = current_pid pid_tgid
      in if pid = 0 then (0, st)
         else
          (case bpf_map_lookup_elem (sc_start st) pid of
             None \<Rightarrow> (0, st)
           | Some tsp \<Rightarrow>
              (let delta = now - tsp;
                   st1 = st\<lparr>sc_start := snd (bpf_map_delete_elem (sc_start st) pid)\<rparr>
               in if delta > 30000000000 then (0, st1)
                  else
                   (let nr = (ucast ctx_id :: u32);
                        key = \<lparr>sc_pid = pid, sc_syscall_nr = nr\<rparr>
                    in case bpf_map_lookup_elem (sc_accum st1) key of
                         Some val \<Rightarrow>
                          (let val1 = val\<lparr>sc_total_ns := sc_total_ns val + delta\<rparr>;
                               val2 = val1\<lparr>sc_count := sc_count val1 + 1\<rparr>;
                               val3 = (if delta32 delta > sc_max_ns val2
                                       then val2\<lparr>sc_max_ns := delta32 delta\<rparr> else val2)
                           in (0, st1\<lparr>sc_accum := store_elem (sc_accum st1) key val3\<rparr>))
                       | None \<Rightarrow>
                          (let new_val = \<lparr>sc_total_ns = delta, sc_count = 1,
                                          sc_max_ns = delta32 delta\<rparr>
                           in (0, st1\<lparr>sc_accum :=
                                snd (bpf_map_update_elem (sc_accum st1) key new_val
                                       BPF_NOEXIST)\<rparr>))))))"

section \<open>directreclaim.c\<close>

record reclaim_val =
  reclaim_stall_ns :: u64
  reclaim_count :: u32

record reclaim_state =
  reclaim_start :: "(u32, u64) bpf_map"
  reclaim_accum :: "(u32, reclaim_val) bpf_map"

definition reclaim_init :: reclaim_state where
  "reclaim_init = \<lparr>reclaim_start = empty_map 10240, reclaim_accum = empty_map 10240\<rparr>"

definition handle_reclaim_begin :: "u64 \<Rightarrow> u64 \<Rightarrow> reclaim_state \<Rightarrow> int \<times> reclaim_state" where
  "handle_reclaim_begin pid_tgid ts st =
     (let pid = current_pid pid_tgid
      in if pid = 0 then (0, st)
         else (0, st\<lparr>reclaim_start :=
                snd (bpf_map_update_elem (reclaim_start st) pid ts BPF_ANY)\<rparr>))"

definition handle_reclaim_end :: "u64 \<Rightarrow> u64 \<Rightarrow> reclaim_state \<Rightarrow> int \<times> reclaim_state" where
  "handle_reclaim_end pid_tgid now st =
     (let pid = current_pid pid_tgid
      in if pid = 0 then (0, st)
         else
          (case bpf_map_lookup_elem (reclaim_start st) pid of
             None \<Rightarrow> (0, st)
           | Some tsp \<Rightarrow>
              (let delta = now - tsp;
                   st1 = st\<lparr>reclaim_start :=
                           snd (bpf_map_delete_elem (reclaim_start st) pid)\<rparr>
               in if delta > 30000000000 then (0, st1)
                  else
                   (case bpf_map_lookup_elem (reclaim_accum st1) pid of
                      Some val \<Rightarrow>
                       (let val1 = val\<lparr>reclaim_stall_ns := reclaim_stall_ns val + delta\<rparr>;
                            val2 = val1\<lparr>reclaim_count := reclaim_count val1 + 1\<rparr>
                        in (0, st1\<lparr>reclaim_accum :=
                             store_elem (reclaim_accum st1) pid val2\<rparr>))
                    | None \<Rightarrow>
                       (let new_val = \<lparr>reclaim_stall_ns = delta, reclaim_count = 1\<rparr>
                        in (0, st1\<lparr>reclaim_accum :=
                             snd (bpf_map_update_elem (reclaim_accum st1) pid new_val
                                    BPF_NOEXIST)\<rparr>))))))"

section \<open>offcpu.c\<close>

record offcpu_val =
  offcpu_total_ns :: u64
  offcpu_count :: u32

record offcpu_state =
  offcpu_start :: "(u32, u64) bpf_map"
  offcpu_accum :: "(u32, offcpu_val) bpf_map"

definition offcpu_init :: offcpu_state where
  "offcpu_init = \<lparr>offcpu_start = empty_map 10240, offcpu_accum = empty_map 10240\<rparr>"

definition TASK_INTERRUPTIBLE :: u32 where
  "TASK_INTERRUPTIBLE = 1"

text \<open>
  One \<^verbatim>\<open>sched_switch\<close> event is a begin for the task switched out and an end for the
  task switched in. \<open>prev_pid\<close> and \<open>next_pid\<close> are the \<^verbatim>\<open>tgid\<close> of the two tasks,
  \<open>prev_st\<close> is \<^verbatim>\<open>prev->__state\<close>. The first step is the begin half, the second the end
  half; the pairing entry is deleted after the sample is judged.
\<close>

definition handle_sched_switch ::
  "u32 \<Rightarrow> u32 \<Rightarrow> u32 \<Rightarrow> u64 \<Rightarrow> offcpu_state \<Rightarrow> int \<times> offcpu_state" where
  "handle_sched_switch prev_pid prev_st next_pid now st =
     (let st1 =
            (if prev_pid > 1
             then (let prev_state = prev_st AND 0xff
                   in if prev_state \<noteq> TASK_INTERRUPTIBLE
                      then st\<lparr>offcpu_start :=
                             snd (bpf_map_update_elem (offcpu_start st) prev_pid now BPF_ANY)\<rparr>
                      else st)
             else st);
          st2 =
            (if next_pid > 1
             then
              (case bpf_map_lookup_elem (offcpu_start st1) next_pid of
                 None \<Rightarrow> st1
               | Some tsp \<Rightarrow>
                  if tsp > 0
                  then
                   (let delta = now - tsp;
                        st3 =
                          (if delta < 30000000000
                           then
                            (case bpf_map_lookup_elem (offcpu_accum st1) next_pid of
                               Some val \<Rightarrow>
                                (let val1 = val\<lparr>offcpu_total_ns :=
                                                 offcpu_total_ns val + delta\<rparr>;
                                     val2 = val1\<lparr>offcpu_count := offcpu_count val1 + 1\<rparr>
                                 in st1\<lparr>offcpu_accum :=
                                      store_elem (offcpu_accum st1) next_pid val2\<rparr>)
                             | None \<Rightarrow>
                                (let new_val = \<lparr>offcpu_total_ns = delta, offcpu_count = 1\<rparr>
                                 in st1\<lparr>offcpu_accum :=
                                      snd (bpf_map_update_elem (offcpu_accum st1) next_pid
                                             new_val BPF_NOEXIST)\<rparr>))
                           else st1)
                    in st3\<lparr>offcpu_start :=
                         snd (bpf_map_delete_elem (offcpu_start st3) next_pid)\<rparr>)
                  else st1)
             else st1)
      in (0, st2))"

section \<open>tcpconnlat.c\<close>

text \<open>
  The payload of \<^verbatim>\<open>tracepoint/sock/inet_sock_set_state\<close>, which tcpconnlat.c and
  sockstate.c both declare. \<open>ctx_daddr\<close> is the four bytes of \<^verbatim>\<open>ctx->daddr\<close> as
  \<^verbatim>\<open>bpf_probe_read_kernel\<close> copies them into a \<^verbatim>\<open>__u32\<close>; the address arrays that no
  handler reads are left out.
\<close>

record inet_sock_set_state_args =
  ctx_skaddr :: u64
  ctx_oldstate :: u32
  ctx_newstate :: u32
  ctx_sport :: u16
  ctx_dport :: u16
  ctx_family :: u16
  ctx_daddr :: u32

definition TCP_SYN_SENT :: u32 where
  "TCP_SYN_SENT = 2"

definition TCP_ESTABLISHED :: u32 where
  "TCP_ESTABLISHED = 1"

record conn_start =
  conn_ts :: u64
  conn_pid :: u32

record connlat_val =
  connlat_total_ns :: u64
  connlat_count :: u32
  connlat_max_ns :: u32
  connlat_last_pid :: u32
  connlat_daddr :: u32

record tcpconnlat_state =
  conn_inflight :: "(u64, conn_start) bpf_map"
  connlat_accum :: "(u32, connlat_val) bpf_map"

definition tcpconnlat_init :: tcpconnlat_state where
  "tcpconnlat_init = \<lparr>conn_inflight = empty_map 10240, connlat_accum = empty_map 10240\<rparr>"

text \<open>\<open>sk\<close> is the socket pointer, the key of the pairing table.\<close>

definition handle_tcp_v4_connect ::
  "u64 \<Rightarrow> u64 \<Rightarrow> u64 \<Rightarrow> tcpconnlat_state \<Rightarrow> int \<times> tcpconnlat_state" where
  "handle_tcp_v4_connect sk pid_tgid ts st =
     (let pid = current_pid pid_tgid
      in if pid = 0 then (0, st)
         else
          (let start = \<lparr>conn_ts = ts, conn_pid = pid\<rparr>;
               sk_key = sk
           in (0, st\<lparr>conn_inflight :=
                snd (bpf_map_update_elem (conn_inflight st) sk_key start BPF_ANY)\<rparr>)))"

definition handle_set_state ::
  "inet_sock_set_state_args \<Rightarrow> u64 \<Rightarrow> tcpconnlat_state \<Rightarrow> int \<times> tcpconnlat_state" where
  "handle_set_state ctx now st =
     (if ctx_oldstate ctx \<noteq> TCP_SYN_SENT \<or> ctx_newstate ctx \<noteq> TCP_ESTABLISHED then (0, st)
      else
       (let sk_key = ctx_skaddr ctx
        in case bpf_map_lookup_elem (conn_inflight st) sk_key of
             None \<Rightarrow> (0, st)
           | Some start \<Rightarrow>
              (let delta = now - conn_ts start;
                   pid = conn_pid start;
                   daddr = ctx_daddr ctx;
                   st1 = st\<lparr>conn_inflight :=
                           snd (bpf_map_delete_elem (conn_inflight st) sk_key)\<rparr>
               in case bpf_map_lookup_elem (connlat_accum st1) pid of
                    Some val \<Rightarrow>
                     (let val1 = val\<lparr>connlat_total_ns := connlat_total_ns val + delta\<rparr>;
                          val2 = val1\<lparr>connlat_count := connlat_count val1 + 1\<rparr>;
                          val3 = (if delta32 delta > connlat_max_ns val2
                                  then val2\<lparr>connlat_max_ns := delta32 delta\<rparr> else val2);
                          val4 = val3\<lparr>connlat_last_pid := pid, connlat_daddr := daddr\<rparr>
                      in (0, st1\<lparr>connlat_accum :=
                           store_elem (connlat_accum st1) pid val4\<rparr>))
                  | None \<Rightarrow>
                     (let new_val = \<lparr>connlat_total_ns = delta, connlat_count = 1,
                                     connlat_max_ns = delta32 delta, connlat_last_pid = pid,
                                     connlat_daddr = daddr\<rparr>
                      in (0, st1\<lparr>connlat_accum :=
                           snd (bpf_map_update_elem (connlat_accum st1) pid new_val
                                  BPF_NOEXIST)\<rparr>)))))"

section \<open>iolatency.c\<close>

text \<open>
  \<^verbatim>\<open>struct rq_key { __u32 dev; __u64 sector; }\<close> is 16 bytes, all of which the map
  hashes and compares: \<open>rq_pad\<close> is the 4 bytes between the two members. The
  initialiser \<^verbatim>\<open>{ .dev = dev, .sector = sector }\<close> does not write them, so each handler
  takes what its stack slot holds there as the argument \<open>pad\<close>.
\<close>

record rq_key =
  rq_dev :: u32
  rq_pad :: u32
  rq_sector :: u64

text \<open>\<^verbatim>\<open>struct rq_start\<close> of iolatency.c (runqlat.c has a map of that name).\<close>

record rq_start_rec =
  rq_pid :: u32
  rq_start_ns :: u64

record iolat_val =
  iolat_total_ns :: u64
  iolat_max_ns :: u64
  iolat_count :: u32
  iolat_slots :: "u32 list"
  iolat_dev :: u32

text \<open>The fields of \<^verbatim>\<open>struct block_rq_args\<close> that the handlers read.\<close>

record block_rq_args =
  ctx_dev :: u32
  ctx_sector :: u64

record iolat_state =
  inflight :: "(rq_key, rq_start_rec) bpf_map"
  iolat_hist :: "(u32, iolat_val) bpf_map"

definition iolat_init :: iolat_state where
  "iolat_init = \<lparr>inflight = empty_map 10240, iolat_hist = empty_map 10240\<rparr>"

definition handle_block_rq_issue ::
  "block_rq_args \<Rightarrow> u32 \<Rightarrow> u64 \<Rightarrow> u64 \<Rightarrow> iolat_state \<Rightarrow> int \<times> iolat_state" where
  "handle_block_rq_issue ctx pad pid_tgid now st =
     (let dev = ctx_dev ctx;
          sector = ctx_sector ctx;
          pid = current_pid pid_tgid;
          key = \<lparr>rq_dev = dev, rq_pad = pad, rq_sector = sector\<rparr>;
          val = \<lparr>rq_pid = pid, rq_start_ns = now\<rparr>
      in (0, st\<lparr>inflight := snd (bpf_map_update_elem (inflight st) key val BPF_ANY)\<rparr>))"

text \<open>
  \<^verbatim>\<open>slots[slot & (HIST_SLOTS - 1)]\<close> is within the 16 counters of the record for every
  \<^verbatim>\<open>slot\<close>.
\<close>

definition handle_block_rq_complete ::
  "block_rq_args \<Rightarrow> u32 \<Rightarrow> u64 \<Rightarrow> iolat_state \<Rightarrow> int \<times> iolat_state" where
  "handle_block_rq_complete ctx pad now st =
     (let dev = ctx_dev ctx;
          sector = ctx_sector ctx;
          key = \<lparr>rq_dev = dev, rq_pad = pad, rq_sector = sector\<rparr>
      in case bpf_map_lookup_elem (inflight st) key of
           None \<Rightarrow> (0, st)
         | Some start \<Rightarrow>
            (let delta = now - rq_start_ns start;
                 pid = rq_pid start;
                 st1 = st\<lparr>inflight := snd (bpf_map_delete_elem (inflight st) key)\<rparr>
             in if delta = 0 \<or> pid = 0 then (0, st1)
                else
                 (let us = delta div 1000;
                      slot = log2_slot us;
                      idx = unat (slot AND of_nat (HIST_SLOTS - 1))
                  in case bpf_map_lookup_elem (iolat_hist st1) pid of
                       Some val \<Rightarrow>
                        (let val1 = val\<lparr>iolat_total_ns := iolat_total_ns val + delta\<rparr>;
                             val2 = val1\<lparr>iolat_count := iolat_count val1 + 1\<rparr>;
                             val3 = val2\<lparr>iolat_slots :=
                                      (iolat_slots val2)[idx := iolat_slots val2 ! idx + 1]\<rparr>;
                             val4 = (if delta > iolat_max_ns val3
                                     then val3\<lparr>iolat_max_ns := delta\<rparr> else val3)
                         in (0, st1\<lparr>iolat_hist := store_elem (iolat_hist st1) pid val4\<rparr>))
                     | None \<Rightarrow>
                        (let new_val = \<lparr>iolat_total_ns = delta, iolat_max_ns = delta,
                                        iolat_count = 1,
                                        iolat_slots = (replicate HIST_SLOTS 0)[idx := 1],
                                        iolat_dev = dev\<rparr>
                         in (0, st1\<lparr>iolat_hist :=
                              snd (bpf_map_update_elem (iolat_hist st1) pid new_val
                                     BPF_NOEXIST)\<rparr>)))))"

section \<open>sockio.c\<close>

record sockio_key =
  sockio_pid :: u32
  sockio_daddr :: u32
  sockio_dport :: u16
  sockio_pad :: u16

record sockio_val =
  sockio_tx_bytes :: u64
  sockio_rx_bytes :: u64
  sockio_recv_wait_ns :: u64
  sockio_recv_count :: u32
  sockio_max_recv_ns :: u32

record recv_start =
  recv_ts :: u64
  recv_daddr :: u32
  recv_dport :: u16
  recv_pad :: u16

text \<open>The two fields of \<^verbatim>\<open>sk->__sk_common\<close> that the handlers read.\<close>

record sock_common =
  skc_daddr :: u32
  skc_dport :: u16

record sockio_state =
  sockio_accum :: "(sockio_key, sockio_val) bpf_map"
  recv_inflight :: "(u32, recv_start) bpf_map"

definition sockio_init :: sockio_state where
  "sockio_init = \<lparr>sockio_accum = empty_map 16384, recv_inflight = empty_map 10240\<rparr>"

definition bswap16 :: "u16 \<Rightarrow> u16" where
  "bswap16 x = push_bit 8 x OR drop_bit 8 x"

text \<open>
  \<^verbatim>\<open>add_tx\<close> and \<^verbatim>\<open>add_rx\<close>; the designated initialisers leave the fields they do
  not name, the padding of the key among them, at zero.
\<close>

definition add_tx :: "sock_common \<Rightarrow> u64 \<Rightarrow> u64 \<Rightarrow> sockio_state \<Rightarrow> sockio_state" where
  "add_tx sk sz pid_tgid st =
     (let pid = current_pid pid_tgid
      in if pid = 0 then st
         else
          (let daddr = skc_daddr sk;
               dport = bswap16 (skc_dport sk);
               key = \<lparr>sockio_pid = pid, sockio_daddr = daddr, sockio_dport = dport,
                       sockio_pad = 0\<rparr>
           in case bpf_map_lookup_elem (sockio_accum st) key of
                Some val \<Rightarrow>
                 (let val1 = val\<lparr>sockio_tx_bytes := sockio_tx_bytes val + sz\<rparr>
                  in st\<lparr>sockio_accum := store_elem (sockio_accum st) key val1\<rparr>)
              | None \<Rightarrow>
                 (let new_val = \<lparr>sockio_tx_bytes = sz, sockio_rx_bytes = 0,
                                 sockio_recv_wait_ns = 0, sockio_recv_count = 0,
                                 sockio_max_recv_ns = 0\<rparr>
                  in st\<lparr>sockio_accum :=
                       snd (bpf_map_update_elem (sockio_accum st) key new_val
                              BPF_NOEXIST)\<rparr>)))"

definition add_rx :: "sock_common \<Rightarrow> u64 \<Rightarrow> u64 \<Rightarrow> sockio_state \<Rightarrow> sockio_state" where
  "add_rx sk sz pid_tgid st =
     (let pid = current_pid pid_tgid
      in if pid = 0 then st
         else
          (let daddr = skc_daddr sk;
               dport = bswap16 (skc_dport sk);
               key = \<lparr>sockio_pid = pid, sockio_daddr = daddr, sockio_dport = dport,
                       sockio_pad = 0\<rparr>
           in case bpf_map_lookup_elem (sockio_accum st) key of
                Some val \<Rightarrow>
                 (let val1 = val\<lparr>sockio_rx_bytes := sockio_rx_bytes val + sz\<rparr>
                  in st\<lparr>sockio_accum := store_elem (sockio_accum st) key val1\<rparr>)
              | None \<Rightarrow>
                 (let new_val = \<lparr>sockio_tx_bytes = 0, sockio_rx_bytes = sz,
                                 sockio_recv_wait_ns = 0, sockio_recv_count = 0,
                                 sockio_max_recv_ns = 0\<rparr>
                  in st\<lparr>sockio_accum :=
                       snd (bpf_map_update_elem (sockio_accum st) key new_val
                              BPF_NOEXIST)\<rparr>)))"

text \<open>\<open>sz\<close> is the \<^verbatim>\<open>size_t size\<close> of the call.\<close>

definition handle_tcp_sendmsg ::
  "sock_common \<Rightarrow> u64 \<Rightarrow> u64 \<Rightarrow> sockio_state \<Rightarrow> int \<times> sockio_state" where
  "handle_tcp_sendmsg sk sz pid_tgid st = (0, add_tx sk sz pid_tgid st)"

text \<open>\<open>copied\<close> is a C \<^verbatim>\<open>int\<close>, read as a signed 32-bit value and widened to 64 bits.\<close>

definition handle_tcp_cleanup_rbuf ::
  "sock_common \<Rightarrow> u32 \<Rightarrow> u64 \<Rightarrow> sockio_state \<Rightarrow> int \<times> sockio_state" where
  "handle_tcp_cleanup_rbuf sk copied pid_tgid st =
     (if sint copied \<le> 0 then (0, st)
      else (0, add_rx sk (scast copied) pid_tgid st))"

definition handle_tcp_recvmsg_enter ::
  "sock_common \<Rightarrow> u64 \<Rightarrow> u64 \<Rightarrow> sockio_state \<Rightarrow> int \<times> sockio_state" where
  "handle_tcp_recvmsg_enter sk pid_tgid now st =
     (let pid = current_pid pid_tgid
      in if pid = 0 then (0, st)
         else
          (let daddr = skc_daddr sk;
               dport = bswap16 (skc_dport sk);
               rs = \<lparr>recv_ts = now, recv_daddr = daddr, recv_dport = dport, recv_pad = 0\<rparr>
           in (0, st\<lparr>recv_inflight :=
                snd (bpf_map_update_elem (recv_inflight st) pid rs BPF_ANY)\<rparr>)))"

definition handle_tcp_recvmsg_exit :: "u64 \<Rightarrow> u64 \<Rightarrow> sockio_state \<Rightarrow> int \<times> sockio_state" where
  "handle_tcp_recvmsg_exit pid_tgid now st =
     (let pid = current_pid pid_tgid
      in if pid = 0 then (0, st)
         else
          (case bpf_map_lookup_elem (recv_inflight st) pid of
             None \<Rightarrow> (0, st)
           | Some rs \<Rightarrow>
              (let delta = now - recv_ts rs;
                   daddr = recv_daddr rs;
                   dport = recv_dport rs;
                   st1 = st\<lparr>recv_inflight :=
                           snd (bpf_map_delete_elem (recv_inflight st) pid)\<rparr>
               in if delta > 30000000000 then (0, st1)
                  else
                   (let key = \<lparr>sockio_pid = pid, sockio_daddr = daddr, sockio_dport = dport,
                                sockio_pad = 0\<rparr>
                    in case bpf_map_lookup_elem (sockio_accum st1) key of
                         Some val \<Rightarrow>
                          (let val1 = val\<lparr>sockio_recv_wait_ns :=
                                           sockio_recv_wait_ns val + delta\<rparr>;
                               val2 = val1\<lparr>sockio_recv_count := sockio_recv_count val1 + 1\<rparr>;
                               val3 = (if delta32 delta > sockio_max_recv_ns val2
                                       then val2\<lparr>sockio_max_recv_ns := delta32 delta\<rparr>
                                       else val2)
                           in (0, st1\<lparr>sockio_accum :=
                                store_elem (sockio_accum st1) key val3\<rparr>))
                       | None \<Rightarrow>
                          (let new_val = \<lparr>sockio_tx_bytes = 0, sockio_rx_bytes = 0,
                                          sockio_recv_wait_ns = delta, sockio_recv_count = 1,
                                          sockio_max_recv_ns = delta32 delta\<rparr>
                           in (0, st1\<lparr>sockio_accum :=
                                snd (bpf_map_update_elem (sockio_accum st1) key new_val
                                       BPF_NOEXIST)\<rparr>))))))"

section \<open>Strings and bytes read from the kernel\<close>

text \<open>
  \<^verbatim>\<open>bpf_probe_read_kernel_str(dst, sz, src)\<close>, which \<^verbatim>\<open>BPF_CORE_READ_STR_INTO\<close> and
  \<^verbatim>\<open>read_filename\<close> call: the bytes of the source up to its first NUL, at most
  \<open>sz - 1\<close> of them, are copied to the front of the buffer and closed by one NUL; the
  bytes of the buffer behind them are left as they were. \<open>src\<close> is the kernel memory at the
  source address.
\<close>

definition probe_read_kernel_str :: "u8 list \<Rightarrow> nat \<Rightarrow> u8 list \<Rightarrow> u8 list" where
  "probe_read_kernel_str dst sz src =
     (let body = take (sz - 1) (takeWhile (\<lambda>c. c \<noteq> 0) src)
      in body @ [0] @ drop (length body + 1) dst)"

text \<open>
  \<^verbatim>\<open>__builtin_memcpy(&key, name, 8)\<close> into a \<^verbatim>\<open>__u64\<close> on a little-endian target:
  the first byte is the least significant one.
\<close>

fun le_u64 :: "u8 list \<Rightarrow> u64" where
  "le_u64 [] = 0"
| "le_u64 (b # bs) = ucast b + 256 * le_u64 bs"

section \<open>modload.c\<close>

record mod_val =
  mod_count :: u64
  mod_ts :: u64
  mod_name :: "u8 list"

definition mod_init :: "(u64, mod_val) bpf_map" where
  "mod_init = empty_map 256"

text \<open>
  \<^verbatim>\<open>char name[56] = {}; BPF_CORE_READ_STR_INTO(&name, mod, name);\<close> where \<open>modname\<close> is the
  memory at \<^verbatim>\<open>mod->name\<close>.
\<close>

definition mod_name_buf :: "u8 list \<Rightarrow> u8 list" where
  "mod_name_buf modname = probe_read_kernel_str (replicate 56 0) 56 modname"

text \<open>\<^verbatim>\<open>// Use first 8 bytes of name as key\<close>\<close>

definition mod_key :: "u8 list \<Rightarrow> u64" where
  "mod_key name = le_u64 (take 8 name)"

definition handle_do_init_module ::
  "u8 list \<Rightarrow> u64 \<Rightarrow> (u64, mod_val) bpf_map \<Rightarrow> int \<times> (u64, mod_val) bpf_map" where
  "handle_do_init_module modname now mod_accum =
     (let name = mod_name_buf modname;
          key = mod_key name
      in case bpf_map_lookup_elem mod_accum key of
           Some val \<Rightarrow>
            (let val1 = val\<lparr>mod_count := mod_count val + 1\<rparr>;
                 val2 = val1\<lparr>mod_ts := now\<rparr>
             in (0, store_elem mod_accum key val2))
         | None \<Rightarrow>
            (let new_val = \<lparr>mod_count = 1, mod_ts = now, mod_name = name\<rparr>
             in (0, snd (bpf_map_update_elem mod_accum key new_val BPF_NOEXIST))))"

section \<open>ptracedetect.c\<close>

definition PTRACE_POKETEXT :: u64 where
  "PTRACE_POKETEXT = 4"

definition PTRACE_POKEDATA :: u64 where
  "PTRACE_POKEDATA = 5"

definition PTRACE_SETREGS :: u64 where
  "PTRACE_SETREGS = 13"

definition PTRACE_ATTACH :: u64 where
  "PTRACE_ATTACH = 16"

definition PTRACE_SEIZE :: u64 where
  "PTRACE_SEIZE = 0x4206"

record ptrace_key =
  tracer_pid :: u32
  target_pid :: u32

record ptrace_val =
  ptrace_count :: u64
  ptrace_ts :: u64
  ptrace_request :: u64
  ptrace_tracer_comm :: "u8 list"

text \<open>The two arguments of the system call that the handler reads, 64 bits each.\<close>

record sys_enter_ptrace_args =
  ctx_request :: u64
  ctx_pid :: u64

definition ptrace_init :: "(ptrace_key, ptrace_val) bpf_map" where
  "ptrace_init = empty_map 256"

text \<open>\<open>comm\<close> is the 16 bytes that \<^verbatim>\<open>bpf_get_current_comm\<close> writes.\<close>

definition handle_sys_enter_ptrace ::
  "sys_enter_ptrace_args \<Rightarrow> u64 \<Rightarrow> u8 list \<Rightarrow> u64 \<Rightarrow> (ptrace_key, ptrace_val) bpf_map
     \<Rightarrow> int \<times> (ptrace_key, ptrace_val) bpf_map" where
  "handle_sys_enter_ptrace ctx pid_tgid comm now ptrace_accum =
     (let req = ctx_request ctx
      in if req \<noteq> PTRACE_ATTACH \<and> req \<noteq> PTRACE_SEIZE \<and> req \<noteq> PTRACE_POKETEXT
              \<and> req \<noteq> PTRACE_POKEDATA \<and> req \<noteq> PTRACE_SETREGS
         then (0, ptrace_accum)
         else
          (let tracer = current_pid pid_tgid
           in if tracer = 0 then (0, ptrace_accum)
              else
               (let target = (ucast (ctx_pid ctx) :: u32);
                    key = \<lparr>tracer_pid = tracer, target_pid = target\<rparr>
                in case bpf_map_lookup_elem ptrace_accum key of
                     Some val \<Rightarrow>
                      (let val1 = val\<lparr>ptrace_count := ptrace_count val + 1\<rparr>;
                           val2 = val1\<lparr>ptrace_ts := now, ptrace_request := req,
                                         ptrace_tracer_comm := comm\<rparr>
                       in (0, store_elem ptrace_accum key val2))
                   | None \<Rightarrow>
                      (let new_val = \<lparr>ptrace_count = 1, ptrace_ts = now,
                                      ptrace_request = req, ptrace_tracer_comm = comm\<rparr>
                       in (0, snd (bpf_map_update_elem ptrace_accum key new_val
                                     BPF_NOEXIST))))))"

section \<open>execsnoop.c\<close>

record exec_val =
  exec_count :: u64
  exec_ts :: u64
  exec_ppid :: u32
  exec_uid :: u32
  exec_comm :: "u8 list"
  exec_filename :: "u8 list"

definition exec_init :: "(u32, exec_val) bpf_map" where
  "exec_init = empty_map 10240"

text \<open>
  \<^verbatim>\<open>read_filename(ctx, buf, buf_sz)\<close>: \<open>fname\<close> is the memory at the offset that the
  \<^verbatim>\<open>__data_loc\<close> word of the context names.
\<close>

definition read_filename :: "u8 list \<Rightarrow> u8 list \<Rightarrow> nat \<Rightarrow> u8 list" where
  "read_filename fname buf buf_sz = probe_read_kernel_str buf buf_sz fname"

text \<open>
  \<open>uid_gid\<close> is \<^verbatim>\<open>bpf_get_current_uid_gid()\<close>, \<open>ppid\<close> the \<^verbatim>\<open>tgid\<close> of the parent,
  \<open>comm\<close> the 16 bytes of \<^verbatim>\<open>bpf_get_current_comm\<close>.
\<close>

definition handle_sched_process_exec ::
  "u64 \<Rightarrow> u64 \<Rightarrow> u32 \<Rightarrow> u8 list \<Rightarrow> u8 list \<Rightarrow> u64 \<Rightarrow> (u32, exec_val) bpf_map
     \<Rightarrow> int \<times> (u32, exec_val) bpf_map" where
  "handle_sched_process_exec pid_tgid uid_gid ppid comm fname now exec_accum =
     (let pid = current_pid pid_tgid
      in if pid = 0 then (0, exec_accum)
         else
          (let uid = (ucast (uid_gid AND 0xFFFFFFFF) :: u32)
           in case bpf_map_lookup_elem exec_accum pid of
                Some val \<Rightarrow>
                 (let val1 = val\<lparr>exec_count := exec_count val + 1\<rparr>;
                      val2 = val1\<lparr>exec_ts := now, exec_ppid := ppid, exec_uid := uid,
                                    exec_comm := comm\<rparr>;
                      val3 = val2\<lparr>exec_filename :=
                               read_filename fname (exec_filename val2) 128\<rparr>
                  in (0, store_elem exec_accum pid val3))
              | None \<Rightarrow>
                 (let new_val = \<lparr>exec_count = 1, exec_ts = now, exec_ppid = ppid,
                                 exec_uid = uid, exec_comm = comm,
                                 exec_filename = read_filename fname (replicate 128 0) 128\<rparr>
                  in (0, snd (bpf_map_update_elem exec_accum pid new_val BPF_NOEXIST)))))"

section \<open>sockstate.c\<close>

record state_key =
  key_oldstate :: u16
  key_newstate :: u16

record state_val =
  state_count :: u64

definition state_init :: "(state_key, state_val) bpf_map" where
  "state_init = empty_map 256"

definition handle_sock_set_state ::
  "inet_sock_set_state_args \<Rightarrow> (state_key, state_val) bpf_map
     \<Rightarrow> int \<times> (state_key, state_val) bpf_map" where
  "handle_sock_set_state ctx state_accum =
     (let key = \<lparr>key_oldstate = ucast (ctx_oldstate ctx),
                  key_newstate = ucast (ctx_newstate ctx)\<rparr>
      in case bpf_map_lookup_elem state_accum key of
           Some val \<Rightarrow>
            (let val1 = val\<lparr>state_count := state_count val + 1\<rparr>
             in (0, store_elem state_accum key val1))
         | None \<Rightarrow>
            (let new_val = \<lparr>state_count = 1\<rparr>
             in (0, snd (bpf_map_update_elem state_accum key new_val BPF_NOEXIST))))"

section \<open>cgthrottle.c\<close>

record throttle_val =
  throttle_count :: u64

definition throttle_init :: "(u64, throttle_val) bpf_map" where
  "throttle_init = empty_map 1024"

text \<open>\<open>cgid\<close> is \<^verbatim>\<open>bpf_get_current_cgroup_id()\<close>.\<close>

definition handle_throttle_cfs_rq ::
  "u64 \<Rightarrow> (u64, throttle_val) bpf_map \<Rightarrow> int \<times> (u64, throttle_val) bpf_map" where
  "handle_throttle_cfs_rq cgid throttle_accum =
     (case bpf_map_lookup_elem throttle_accum cgid of
        Some val \<Rightarrow>
         (let val1 = val\<lparr>throttle_count := throttle_count val + 1\<rparr>
          in (0, store_elem throttle_accum cgid val1))
      | None \<Rightarrow>
         (let new_val = \<lparr>throttle_count = 1\<rparr>
          in (0, snd (bpf_map_update_elem throttle_accum cgid new_val BPF_NOEXIST))))"

section \<open>kfreeskb.c\<close>

record drop_val =
  drop_count :: u64

definition drop_init :: "(u32, drop_val) bpf_map" where
  "drop_init = empty_map 256"

text \<open>\<open>reason\<close> is \<^verbatim>\<open>ctx->reason\<close>.\<close>

definition handle_kfree_skb ::
  "u32 \<Rightarrow> (u32, drop_val) bpf_map \<Rightarrow> int \<times> (u32, drop_val) bpf_map" where
  "handle_kfree_skb reason drop_accum =
     (if reason = 0 then (0, drop_accum)
      else
       (case bpf_map_lookup_elem drop_accum reason of
          Some val \<Rightarrow>
           (let val1 = val\<lparr>drop_count := drop_count val + 1\<rparr>
            in (0, store_elem drop_accum reason val1))
        | None \<Rightarrow>
           (let new_val = \<lparr>drop_count = 1\<rparr>
            in (0, snd (bpf_map_update_elem drop_accum reason new_val BPF_NOEXIST)))))"

section \<open>netthroughput.c\<close>

record net_val =
  net_tx_bytes :: u64
  net_rx_bytes :: u64

definition net_init :: "(u32, net_val) bpf_map" where
  "net_init = empty_map 10240"

definition add_bytes ::
  "u32 \<Rightarrow> u64 \<Rightarrow> u64 \<Rightarrow> (u32, net_val) bpf_map \<Rightarrow> (u32, net_val) bpf_map" where
  "add_bytes pid tx rx net_accum =
     (case bpf_map_lookup_elem net_accum pid of
        Some val \<Rightarrow>
         (let val1 = val\<lparr>net_tx_bytes := net_tx_bytes val + tx\<rparr>;
              val2 = val1\<lparr>net_rx_bytes := net_rx_bytes val1 + rx\<rparr>
          in store_elem net_accum pid val2)
      | None \<Rightarrow>
         (let new_val = \<lparr>net_tx_bytes = tx, net_rx_bytes = rx\<rparr>
          in snd (bpf_map_update_elem net_accum pid new_val BPF_NOEXIST)))"

text \<open>
  \<^verbatim>\<open>handle_tcp_sendmsg\<close> and \<^verbatim>\<open>handle_tcp_cleanup_rbuf\<close> of netthroughput.c; sockio.c
  has handlers of the same two names, so these carry the prefix \<open>net\<close>. \<open>sz\<close> is the
  \<^verbatim>\<open>size_t size\<close> of the call, \<open>copied\<close> a C \<^verbatim>\<open>int\<close>.
\<close>

definition net_handle_tcp_sendmsg ::
  "u64 \<Rightarrow> u64 \<Rightarrow> (u32, net_val) bpf_map \<Rightarrow> int \<times> (u32, net_val) bpf_map" where
  "net_handle_tcp_sendmsg sz pid_tgid net_accum =
     (let pid = current_pid pid_tgid
      in if pid = 0 then (0, net_accum)
         else (0, add_bytes pid sz 0 net_accum))"

definition net_handle_tcp_cleanup_rbuf ::
  "u32 \<Rightarrow> u64 \<Rightarrow> (u32, net_val) bpf_map \<Rightarrow> int \<times> (u32, net_val) bpf_map" where
  "net_handle_tcp_cleanup_rbuf copied pid_tgid net_accum =
     (let pid = current_pid pid_tgid
      in if pid = 0 \<or> sint copied \<le> 0 then (0, net_accum)
         else (0, add_bytes pid 0 (scast copied) net_accum))"

section \<open>oomkill.c\<close>

record oom_val =
  oom_ts :: u64
  oom_total_vm :: u64
  oom_anon_rss :: u64

definition oom_init :: "(u32, oom_val) bpf_map" where
  "oom_init = empty_map 1024"

text \<open>\<open>pid\<close> is \<^verbatim>\<open>(__u32)ctx->pid\<close>.\<close>

definition handle_mark_victim ::
  "u32 \<Rightarrow> u64 \<Rightarrow> (u32, oom_val) bpf_map \<Rightarrow> int \<times> (u32, oom_val) bpf_map" where
  "handle_mark_victim pid now oom_accum =
     (let val = \<lparr>oom_ts = now, oom_total_vm = 0, oom_anon_rss = 0\<rparr>
      in (0, snd (bpf_map_update_elem oom_accum pid val BPF_ANY)))"

section \<open>swapevict.c\<close>

record swap_val =
  swap_read_pages :: u64
  swap_write_pages :: u64

definition swap_init :: "(u32, swap_val) bpf_map" where
  "swap_init = empty_map 10240"

definition handle_swap_readpage ::
  "u64 \<Rightarrow> (u32, swap_val) bpf_map \<Rightarrow> int \<times> (u32, swap_val) bpf_map" where
  "handle_swap_readpage pid_tgid swap_accum =
     (let pid = current_pid pid_tgid
      in if pid = 0 then (0, swap_accum)
         else
          (case bpf_map_lookup_elem swap_accum pid of
             Some val \<Rightarrow>
              (let val1 = val\<lparr>swap_read_pages := swap_read_pages val + 1\<rparr>
               in (0, store_elem swap_accum pid val1))
           | None \<Rightarrow>
              (let new_val = \<lparr>swap_read_pages = 1, swap_write_pages = 0\<rparr>
               in (0, snd (bpf_map_update_elem swap_accum pid new_val BPF_NOEXIST)))))"

definition handle_swap_writepage ::
  "u64 \<Rightarrow> (u32, swap_val) bpf_map \<Rightarrow> int \<times> (u32, swap_val) bpf_map" where
  "handle_swap_writepage pid_tgid swap_accum =
     (let pid = current_pid pid_tgid
      in if pid = 0 then (0, swap_accum)
         else
          (case bpf_map_lookup_elem swap_accum pid of
             Some val \<Rightarrow>
              (let val1 = val\<lparr>swap_write_pages := swap_write_pages val + 1\<rparr>
               in (0, store_elem swap_accum pid val1))
           | None \<Rightarrow>
              (let new_val = \<lparr>swap_read_pages = 0, swap_write_pages = 1\<rparr>
               in (0, snd (bpf_map_update_elem swap_accum pid new_val BPF_NOEXIST)))))"

section \<open>tcpreset.c\<close>

record reset_val =
  reset_count :: u64
  reset_last_daddr :: u32
  reset_last_dport :: u16

definition reset_init :: "(u32, reset_val) bpf_map" where
  "reset_init = empty_map 10240"

text \<open>The handler has no filter on the process and stores the port as it reads it.\<close>

definition handle_tcp_send_reset ::
  "sock_common \<Rightarrow> u64 \<Rightarrow> (u32, reset_val) bpf_map \<Rightarrow> int \<times> (u32, reset_val) bpf_map" where
  "handle_tcp_send_reset sk pid_tgid reset_accum =
     (let pid = current_pid pid_tgid;
          daddr = skc_daddr sk;
          dport = skc_dport sk
      in case bpf_map_lookup_elem reset_accum pid of
           Some val \<Rightarrow>
            (let val1 = val\<lparr>reset_count := reset_count val + 1\<rparr>;
                 val2 = val1\<lparr>reset_last_daddr := daddr, reset_last_dport := dport\<rparr>
             in (0, store_elem reset_accum pid val2))
         | None \<Rightarrow>
            (let new_val = \<lparr>reset_count = 1, reset_last_daddr = daddr,
                            reset_last_dport = dport\<rparr>
             in (0, snd (bpf_map_update_elem reset_accum pid new_val BPF_NOEXIST))))"

section \<open>tcpretrans.c\<close>

record retrans_val =
  retrans_count :: u32
  retrans_last_sport :: u16
  retrans_last_dport :: u16
  retrans_last_daddr :: u32

text \<open>
  The fields of \<^verbatim>\<open>struct tcp_retransmit_skb_args\<close> that the handler reads; \<open>rctx_daddr\<close>
  is the four bytes of \<^verbatim>\<open>ctx->daddr\<close> as \<^verbatim>\<open>bpf_probe_read_kernel\<close> copies them.
\<close>

record tcp_retransmit_skb_args =
  rctx_sport :: u16
  rctx_dport :: u16
  rctx_daddr :: u32

definition retrans_init :: "(u32, retrans_val) bpf_map" where
  "retrans_init = empty_map 10240"

text \<open>\<^verbatim>\<open>// pid=0 means kernel timer context; still record it\<close>\<close>

definition handle_tcp_retransmit ::
  "tcp_retransmit_skb_args \<Rightarrow> u64 \<Rightarrow> (u32, retrans_val) bpf_map
     \<Rightarrow> int \<times> (u32, retrans_val) bpf_map" where
  "handle_tcp_retransmit ctx pid_tgid retrans_accum =
     (let pid = current_pid pid_tgid;
          sport = rctx_sport ctx;
          dport = rctx_dport ctx;
          daddr = rctx_daddr ctx
      in case bpf_map_lookup_elem retrans_accum pid of
           Some val \<Rightarrow>
            (let val1 = val\<lparr>retrans_count := retrans_count val + 1\<rparr>;
                 val2 = val1\<lparr>retrans_last_sport := sport, retrans_last_dport := dport,
                              retrans_last_daddr := daddr\<rparr>
             in (0, store_elem retrans_accum pid val2))
         | None \<Rightarrow>
            (let new_val = \<lparr>retrans_count = 1, retrans_last_sport = sport,
                            retrans_last_dport = dport, retrans_last_daddr = daddr\<rparr>
             in (0, snd (bpf_map_update_elem retrans_accum pid new_val BPF_NOEXIST))))"

section \<open>tcprtt.c\<close>

record rtt_key =
  rtt_daddr :: u32
  rtt_dport :: u16
  rtt_pad :: u16

record rtt_val =
  rtt_sum_us :: u64
  rtt_count :: u32
  rtt_min_us :: u32
  rtt_max_us :: u32
  rtt_last_pid :: u32

definition rtt_init :: "(rtt_key, rtt_val) bpf_map" where
  "rtt_init = empty_map 10240"

text \<open>
  \<open>srtt_us\<close> is the 32-bit \<^verbatim>\<open>tp->srtt_us\<close>, in units of an eighth of a microsecond. The
  member \<^verbatim>\<open>pad\<close> of the key is not named by the initialiser and so is zero.
\<close>

definition handle_tcp_rcv_established ::
  "sock_common \<Rightarrow> u32 \<Rightarrow> u64 \<Rightarrow> (rtt_key, rtt_val) bpf_map
     \<Rightarrow> int \<times> (rtt_key, rtt_val) bpf_map" where
  "handle_tcp_rcv_established sk srtt_us pid_tgid rtt_accum =
     (let srtt = drop_bit 3 srtt_us
      in if srtt = 0 then (0, rtt_accum)
         else
          (let daddr = skc_daddr sk;
               dport = bswap16 (skc_dport sk);
               pid = current_pid pid_tgid;
               key = \<lparr>rtt_daddr = daddr, rtt_dport = dport, rtt_pad = 0\<rparr>
           in case bpf_map_lookup_elem rtt_accum key of
                Some val \<Rightarrow>
                 (let val1 = val\<lparr>rtt_sum_us := rtt_sum_us val + ucast srtt\<rparr>;
                      val2 = val1\<lparr>rtt_count := rtt_count val1 + 1\<rparr>;
                      val3 = (if srtt < rtt_min_us val2 \<or> rtt_min_us val2 = 0
                              then val2\<lparr>rtt_min_us := srtt\<rparr> else val2);
                      val4 = (if srtt > rtt_max_us val3
                              then val3\<lparr>rtt_max_us := srtt\<rparr> else val3);
                      val5 = val4\<lparr>rtt_last_pid := pid\<rparr>
                  in (0, store_elem rtt_accum key val5))
              | None \<Rightarrow>
                 (let new_val = \<lparr>rtt_sum_us = ucast srtt, rtt_count = 1, rtt_min_us = srtt,
                                 rtt_max_us = srtt, rtt_last_pid = pid\<rparr>
                  in (0, snd (bpf_map_update_elem rtt_accum key new_val BPF_NOEXIST)))))"

section \<open>wbstall.c\<close>

record wb_val =
  wb_count :: u64
  wb_total_pages :: u64

definition wb_init :: "(u32, wb_val) bpf_map" where
  "wb_init = empty_map 10240"

text \<open>\<open>nr_pages\<close> is the 64-bit \<^verbatim>\<open>ctx->nr_pages\<close>.\<close>

definition handle_writeback_wait ::
  "u64 \<Rightarrow> u64 \<Rightarrow> (u32, wb_val) bpf_map \<Rightarrow> int \<times> (u32, wb_val) bpf_map" where
  "handle_writeback_wait nr_pages pid_tgid wb_accum =
     (let pid = current_pid pid_tgid
      in if pid = 0 then (0, wb_accum)
         else
          (case bpf_map_lookup_elem wb_accum pid of
             Some val \<Rightarrow>
              (let val1 = val\<lparr>wb_count := wb_count val + 1\<rparr>;
                   val2 = val1\<lparr>wb_total_pages := wb_total_pages val1 + nr_pages\<rparr>
               in (0, store_elem wb_accum pid val2))
           | None \<Rightarrow>
              (let new_val = \<lparr>wb_count = 1, wb_total_pages = nr_pages\<rparr>
               in (0, snd (bpf_map_update_elem wb_accum pid new_val BPF_NOEXIST)))))"

section \<open>What an invocation may do to a table\<close>

text \<open>
  \<open>touches_only S m m'\<close>: the table \<open>m'\<close> after an invocation agrees with the table
  \<open>m\<close> before it on every key outside \<open>S\<close>.

  \<open>count_kept cnt m m'\<close>: every record of \<open>m\<close> is still present in \<open>m'\<close>, under the
  same key, and its field \<open>cnt\<close> is what it was or larger by one modulo the width of the
  field; so the field has not decreased unless it was at the largest value of its width.
\<close>

definition touches_only :: "'k set \<Rightarrow> ('k, 'v) bpf_map \<Rightarrow> ('k, 'v) bpf_map \<Rightarrow> bool" where
  "touches_only S m m' =
     (\<forall>k. k \<notin> S \<longrightarrow> bpf_map_lookup_elem m' k = bpf_map_lookup_elem m k)"

definition count_kept ::
  "('v \<Rightarrow> 'a :: len word) \<Rightarrow> ('k, 'v) bpf_map \<Rightarrow> ('k, 'v) bpf_map \<Rightarrow> bool" where
  "count_kept cnt m m' =
     (\<forall>k v. bpf_map_lookup_elem m k = Some v \<longrightarrow>
        (\<exists>v'. bpf_map_lookup_elem m' k = Some v'
              \<and> (cnt v' = cnt v \<or> cnt v' = cnt v + 1)
              \<and> (cnt v \<noteq> - 1 \<longrightarrow> cnt v \<le> cnt v')))"

section \<open>Byte sequences as numbers\<close>

text \<open>The value of a byte sequence read as a little-endian number, without a width.\<close>

fun le_nat :: "u8 list \<Rightarrow> nat" where
  "le_nat [] = 0"
| "le_nat (b # bs) = unat b + 256 * le_nat bs"

section \<open>States used in the examples\<close>


text \<open>
  A run-queue probe in which process 7 has a begin entry and a record whose 32-bit count
  has reached its largest value, and a socket-state table in which the transition from
  SYN_SENT to ESTABLISHED has a record whose 64-bit count has reached its largest value.
\<close>

definition wrap_rqlat :: rqlat_state where
  "wrap_rqlat =
     \<lparr>rq_start = \<lparr>max_entries = 10240, entries = [(7, 0)]\<rparr>,
      rqlat_accum = \<lparr>max_entries = 10240, entries =
        [(7, \<lparr>rqlat_total_ns = 1000, rqlat_count = 0xFFFFFFFF, rqlat_max_ns = 400\<rparr>)]\<rparr>\<rparr>"

definition wrap_state :: "(state_key, state_val) bpf_map" where
  "wrap_state =
     \<lparr>max_entries = 256, entries =
        [(\<lparr>key_oldstate = 2, key_newstate = 1\<rparr>,
          \<lparr>state_count = 0xFFFFFFFFFFFFFFFF\<rparr>)]\<rparr>"

text \<open>
  The context of a transition from SYN_SENT to ESTABLISHED, a 16-byte task name, and the
  names of three kernel modules as byte strings.
\<close>

definition established_ctx :: inet_sock_set_state_args where
  "established_ctx =
     \<lparr>ctx_skaddr = 0xFFFF888000001000, ctx_oldstate = 2, ctx_newstate = 1,
      ctx_sport = 40000, ctx_dport = 80, ctx_family = 2, ctx_daddr = 0x0100007F\<rparr>"

definition comm_bash :: "u8 list" where
  "comm_bash = map of_char ''bash'' @ replicate 12 0"

definition name_nf_conntrack :: "u8 list" where
  "name_nf_conntrack = map of_char ''nf_conntrack'' @ [0]"

definition name_nf_conntrack_netlink :: "u8 list" where
  "name_nf_conntrack_netlink = map of_char ''nf_conntrack_netlink'' @ [0]"

definition name_nf_tables :: "u8 list" where
  "name_nf_tables = map of_char ''nf_tables'' @ [0]"

definition fname_bin_ls :: "u8 list" where
  "fname_bin_ls = map of_char ''/bin/ls'' @ [0]"

text \<open>The context of a \<^verbatim>\<open>PTRACE_ATTACH\<close> to process 42.\<close>

definition attach_ctx :: sys_enter_ptrace_args where
  "attach_ctx = \<lparr>ctx_request = 16, ctx_pid = 42\<rparr>"

text \<open>
  The contexts of the events: a request for sector 2048 of device \<^verbatim>\<open>0x800010\<close>, a socket
  connected to 127.0.0.1 port 80 (the port in network byte order), and a retransmission
  on such a connection.
\<close>

definition request_ctx :: block_rq_args where
  "request_ctx = \<lparr>ctx_dev = 0x800010, ctx_sector = 2048\<rparr>"

definition web_sock :: sock_common where
  "web_sock = \<lparr>skc_daddr = 0x0100007F, skc_dport = 0x5000\<rparr>"

definition retransmit_ctx :: tcp_retransmit_skb_args where
  "retransmit_ctx = \<lparr>rctx_sport = 40000, rctx_dport = 80, rctx_daddr =
      0x0100007F\<rparr>"

text \<open>
  One state for every probe, each table with two entries. The first entry belongs to the
  event of the examples: process 7, the socket at \<^verbatim>\<open>0xFFFF888000001000\<close> connecting
  to 127.0.0.1 port 80, the request for sector 2048 of device \<^verbatim>\<open>0x800010\<close>, the module
  \<^verbatim>\<open>nf_tables\<close>, cgroup 42, drop reason 2; its begin is at 100 ns and its record has
  every count at 1. The second entry belongs to another key, with every count at 5.
\<close>

definition two_rqlat :: rqlat_state where
  "two_rqlat =
     \<lparr>rq_start = \<lparr>max_entries = 10240, entries =
          [(7, 100),
           (9, 120)]\<rparr>,
      rqlat_accum = \<lparr>max_entries = 10240, entries =
          [(7, \<lparr>rqlat_total_ns = 10, rqlat_count = 1, rqlat_max_ns = 10\<rparr>),
           (9, \<lparr>rqlat_total_ns = 50, rqlat_count = 5, rqlat_max_ns =
               20\<rparr>)]\<rparr>\<rparr>"

definition two_lockwait :: lockwait_state where
  "two_lockwait =
     \<lparr>futex_start = \<lparr>max_entries = 10240, entries =
          [(7, 100),
           (9, 120)]\<rparr>,
      futex_accum = \<lparr>max_entries = 10240, entries =
          [(7, \<lparr>lock_total_wait_ns = 10, lock_count = 1\<rparr>),
           (9, \<lparr>lock_total_wait_ns = 50, lock_count = 5\<rparr>)]\<rparr>\<rparr>"

definition two_pgfault :: pgfault_state where
  "two_pgfault =
     \<lparr>pgfault_start = \<lparr>max_entries = 10240, entries =
          [(7, 100),
           (9, 120)]\<rparr>,
      pgfault_accum = \<lparr>max_entries = 10240, entries =
          [(7, \<lparr>pgfault_total_ns = 10, pgfault_count = 1, pgfault_major_count =
              1\<rparr>),
           (9, \<lparr>pgfault_total_ns = 50, pgfault_count = 5, pgfault_major_count =
               5\<rparr>)]\<rparr>\<rparr>"

definition two_syscall :: syscall_state where
  "two_syscall =
     \<lparr>sc_start = \<lparr>max_entries = 10240, entries =
          [(7, 100),
           (9, 120)]\<rparr>,
      sc_accum = \<lparr>max_entries = 32768, entries =
          [(\<lparr>sc_pid = 7, sc_syscall_nr = 1\<rparr>, \<lparr>sc_total_ns = 10, sc_count =
              1, sc_max_ns = 10\<rparr>),
           (\<lparr>sc_pid = 9, sc_syscall_nr = 1\<rparr>, \<lparr>sc_total_ns = 50, sc_count =
               5, sc_max_ns = 20\<rparr>)]\<rparr>\<rparr>"

definition two_reclaim :: reclaim_state where
  "two_reclaim =
     \<lparr>reclaim_start = \<lparr>max_entries = 10240, entries =
          [(7, 100),
           (9, 120)]\<rparr>,
      reclaim_accum = \<lparr>max_entries = 10240, entries =
          [(7, \<lparr>reclaim_stall_ns = 10, reclaim_count = 1\<rparr>),
           (9, \<lparr>reclaim_stall_ns = 50, reclaim_count = 5\<rparr>)]\<rparr>\<rparr>"

definition two_offcpu :: offcpu_state where
  "two_offcpu =
     \<lparr>offcpu_start = \<lparr>max_entries = 10240, entries =
          [(7, 100),
           (9, 120)]\<rparr>,
      offcpu_accum = \<lparr>max_entries = 10240, entries =
          [(7, \<lparr>offcpu_total_ns = 10, offcpu_count = 1\<rparr>),
           (9, \<lparr>offcpu_total_ns = 50, offcpu_count = 5\<rparr>)]\<rparr>\<rparr>"

definition two_tcpconnlat :: tcpconnlat_state where
  "two_tcpconnlat =
     \<lparr>conn_inflight = \<lparr>max_entries = 10240, entries =
          [(0xFFFF888000001000, \<lparr>conn_ts = 100, conn_pid = 7\<rparr>),
           (0xFFFF888000002000, \<lparr>conn_ts = 120, conn_pid = 9\<rparr>)]\<rparr>,
      connlat_accum = \<lparr>max_entries = 10240, entries =
          [(7, \<lparr>connlat_total_ns = 10, connlat_count = 1, connlat_max_ns = 10,
              connlat_last_pid = 7, connlat_daddr = 0x0100007F\<rparr>),
           (9, \<lparr>connlat_total_ns = 50, connlat_count = 5, connlat_max_ns = 20,
               connlat_last_pid = 9, connlat_daddr = 0x0100007F\<rparr>)]\<rparr>\<rparr>"

definition two_iolat :: iolat_state where
  "two_iolat =
     \<lparr>inflight = \<lparr>max_entries = 10240, entries =
          [(\<lparr>rq_dev = 0x800010, rq_pad = 0, rq_sector = 2048\<rparr>, \<lparr>rq_pid =
              7, rq_start_ns = 100\<rparr>),
           (\<lparr>rq_dev = 0x800010, rq_pad = 0, rq_sector = 4096\<rparr>, \<lparr>rq_pid =
               9, rq_start_ns = 120\<rparr>)]\<rparr>,
      iolat_hist = \<lparr>max_entries = 10240, entries =
          [(7, \<lparr>iolat_total_ns = 10, iolat_max_ns = 10, iolat_count = 1, iolat_slots = 1
              # replicate 15 0, iolat_dev = 0x800010\<rparr>),
           (9, \<lparr>iolat_total_ns = 50, iolat_max_ns = 20, iolat_count = 5, iolat_slots = 5
               # replicate 15 0, iolat_dev = 0x800010\<rparr>)]\<rparr>\<rparr>"

definition two_sockio :: sockio_state where
  "two_sockio =
     \<lparr>sockio_accum = \<lparr>max_entries = 16384, entries =
          [(\<lparr>sockio_pid = 7, sockio_daddr = 0x0100007F, sockio_dport = 80, sockio_pad =
              0\<rparr>, \<lparr>sockio_tx_bytes = 1448, sockio_rx_bytes = 0,
              sockio_recv_wait_ns = 10, sockio_recv_count = 1, sockio_max_recv_ns = 10\<rparr>),
           (\<lparr>sockio_pid = 9, sockio_daddr = 0x0100007F, sockio_dport = 80, sockio_pad =
               0\<rparr>, \<lparr>sockio_tx_bytes = 7240, sockio_rx_bytes = 0,
               sockio_recv_wait_ns = 50, sockio_recv_count = 5, sockio_max_recv_ns =
               20\<rparr>)]\<rparr>,
      recv_inflight = \<lparr>max_entries = 10240, entries =
          [(7, \<lparr>recv_ts = 100, recv_daddr = 0x0100007F, recv_dport = 80, recv_pad =
              0\<rparr>),
           (9, \<lparr>recv_ts = 120, recv_daddr = 0x0100007F, recv_dport = 80, recv_pad =
               0\<rparr>)]\<rparr>\<rparr>"

definition two_mod :: "(u64, mod_val) bpf_map" where
  "two_mod =
     \<lparr>max_entries = 256, entries =
       [(0x656C6261745F666E, \<lparr>mod_count = 1, mod_ts = 100, mod_name = mod_name_buf
           name_nf_tables\<rparr>),
        (0x746E6E6F635F666E, \<lparr>mod_count = 5, mod_ts = 120, mod_name = mod_name_buf
            name_nf_conntrack\<rparr>)]\<rparr>"

definition two_ptrace :: "(ptrace_key, ptrace_val) bpf_map" where
  "two_ptrace =
     \<lparr>max_entries = 256, entries =
       [(\<lparr>tracer_pid = 7, target_pid = 42\<rparr>, \<lparr>ptrace_count = 1, ptrace_ts =
           100, ptrace_request = 16, ptrace_tracer_comm = comm_bash\<rparr>),
        (\<lparr>tracer_pid = 9, target_pid = 42\<rparr>, \<lparr>ptrace_count = 5, ptrace_ts =
            120, ptrace_request = 16, ptrace_tracer_comm = comm_bash\<rparr>)]\<rparr>"

definition two_exec :: "(u32, exec_val) bpf_map" where
  "two_exec =
     \<lparr>max_entries = 10240, entries =
       [(7, \<lparr>exec_count = 1, exec_ts = 100, exec_ppid = 1, exec_uid = 1000, exec_comm =
           comm_bash, exec_filename = fname_bin_ls\<rparr>),
        (9, \<lparr>exec_count = 5, exec_ts = 120, exec_ppid = 1, exec_uid = 1000, exec_comm =
            comm_bash, exec_filename = fname_bin_ls\<rparr>)]\<rparr>"

definition two_state :: "(state_key, state_val) bpf_map" where
  "two_state =
     \<lparr>max_entries = 256, entries =
       [(\<lparr>key_oldstate = 2, key_newstate = 1\<rparr>, \<lparr>state_count = 1\<rparr>),
        (\<lparr>key_oldstate = 1, key_newstate = 4\<rparr>, \<lparr>state_count =
            5\<rparr>)]\<rparr>"

definition two_throttle :: "(u64, throttle_val) bpf_map" where
  "two_throttle =
     \<lparr>max_entries = 1024, entries =
       [(42, \<lparr>throttle_count = 1\<rparr>),
        (43, \<lparr>throttle_count = 5\<rparr>)]\<rparr>"

definition two_drop :: "(u32, drop_val) bpf_map" where
  "two_drop =
     \<lparr>max_entries = 256, entries =
       [(2, \<lparr>drop_count = 1\<rparr>),
        (3, \<lparr>drop_count = 5\<rparr>)]\<rparr>"

definition two_net :: "(u32, net_val) bpf_map" where
  "two_net =
     \<lparr>max_entries = 10240, entries =
       [(7, \<lparr>net_tx_bytes = 1448, net_rx_bytes = 0\<rparr>),
        (9, \<lparr>net_tx_bytes = 7240, net_rx_bytes = 512\<rparr>)]\<rparr>"

definition two_oom :: "(u32, oom_val) bpf_map" where
  "two_oom =
     \<lparr>max_entries = 1024, entries =
       [(7, \<lparr>oom_ts = 100, oom_total_vm = 0, oom_anon_rss = 0\<rparr>),
        (9, \<lparr>oom_ts = 120, oom_total_vm = 0, oom_anon_rss = 0\<rparr>)]\<rparr>"

definition two_swap :: "(u32, swap_val) bpf_map" where
  "two_swap =
     \<lparr>max_entries = 10240, entries =
       [(7, \<lparr>swap_read_pages = 1, swap_write_pages = 1\<rparr>),
        (9, \<lparr>swap_read_pages = 5, swap_write_pages = 5\<rparr>)]\<rparr>"

definition two_reset :: "(u32, reset_val) bpf_map" where
  "two_reset =
     \<lparr>max_entries = 10240, entries =
       [(7, \<lparr>reset_count = 1, reset_last_daddr = 0x0100007F, reset_last_dport =
           0x5000\<rparr>),
        (9, \<lparr>reset_count = 5, reset_last_daddr = 0x0100007F, reset_last_dport =
            0x5000\<rparr>)]\<rparr>"

definition two_retrans :: "(u32, retrans_val) bpf_map" where
  "two_retrans =
     \<lparr>max_entries = 10240, entries =
       [(7, \<lparr>retrans_count = 1, retrans_last_sport = 40000, retrans_last_dport = 80,
           retrans_last_daddr = 0x0100007F\<rparr>),
        (9, \<lparr>retrans_count = 5, retrans_last_sport = 40001, retrans_last_dport = 80,
            retrans_last_daddr = 0x0100007F\<rparr>)]\<rparr>"

definition two_rtt :: "(rtt_key, rtt_val) bpf_map" where
  "two_rtt =
     \<lparr>max_entries = 10240, entries =
       [(\<lparr>rtt_daddr = 0x0100007F, rtt_dport = 80, rtt_pad = 0\<rparr>,
           \<lparr>rtt_sum_us = 100, rtt_count = 1, rtt_min_us = 100, rtt_max_us = 100,
           rtt_last_pid = 7\<rparr>),
        (\<lparr>rtt_daddr = 0x0200007F, rtt_dport = 80, rtt_pad = 0\<rparr>,
            \<lparr>rtt_sum_us = 900, rtt_count = 5, rtt_min_us = 100, rtt_max_us = 300,
            rtt_last_pid = 9\<rparr>)]\<rparr>"

definition two_wb :: "(u32, wb_val) bpf_map" where
  "two_wb =
     \<lparr>max_entries = 10240, entries =
       [(7, \<lparr>wb_count = 1, wb_total_pages = 16\<rparr>),
        (9, \<lparr>wb_count = 5, wb_total_pages = 80\<rparr>)]\<rparr>"

section \<open>Facts about the bucketer\<close>

lemma halvings_le: "halvings n v \<le> n"
  by (induction n arbitrary: v) auto

lemma halvings_mono: "v \<le> w \<Longrightarrow> halvings n v \<le> halvings n w"
proof (induction n arbitrary: v w)
  case 0
  then show ?case by simp
next
  case (Suc n)
  from Suc.prems have "v div 2 \<le> w div 2"
    by (rule div_le_mono)
  with Suc.IH [of "v div 2" "w div 2"] Suc.prems show ?case
    by auto
qed

lemma log2_slot_loop_small: "\<not> v > 1 \<Longrightarrow> log2_slot_loop n v slot = slot"
  by (induction n) auto

lemma unat_drop_bit_1: "unat (drop_bit 1 (v :: u64)) = unat v div 2"
  unfolding unat_drop_bit_eq by (simp add: drop_bit_eq_div)

lemma unat_drop_bit_Suc_0: "unat (drop_bit (Suc 0) (v :: u64)) = unat v div 2"
  using unat_drop_bit_1 [of v] by simp

lemma halvings_numeral:
  "halvings (numeral k) v =
     (if v > 1 then Suc (halvings (pred_numeral k) (v div 2)) else 0)"
  by (simp add: numeral_eq_Suc)

lemma log2_slot_loop_numeral:
  "log2_slot_loop (numeral n) v slot =
     (if v > 1 then log2_slot_loop (pred_numeral n) (drop_bit 1 v) (slot + 1)
      else log2_slot_loop (pred_numeral n) v slot)"
  by (simp add: numeral_eq_Suc)

lemma one_less_u64: "(1 < (v :: u64)) = (1 < unat v)"
  by (simp add: word_less_nat_alt)

lemma log2_slot_loop_halvings:
  "unat slot + n < 2 ^ 32 \<Longrightarrow>
   unat (log2_slot_loop n v slot) = unat slot + halvings n (unat v)"
proof (induction n arbitrary: v slot)
  case 0
  then show ?case by simp
next
  case (Suc n)
  show ?case
  proof (cases "1 < v")
    case True
    from Suc.prems have s1: "unat (slot + 1) = unat slot + 1"
      by (simp add: unat_word_ariths)
    with Suc.prems have "unat (slot + 1) + n < 2 ^ 32"
      by simp
    from Suc.IH [OF this, of "drop_bit 1 v"] True s1 show ?thesis
      by (simp add: unat_drop_bit_Suc_0 one_less_u64)
  next
    case False
    then show ?thesis
      by (simp add: log2_slot_loop_small one_less_u64)
  qed
qed

lemma log2_slot_unat: "unat (log2_slot us) = histogram_bucket (unat us)"
proof -
  have h: "unat (log2_slot_loop 15 us 0) = halvings 15 (unat us)"
    using log2_slot_loop_halvings [of 0 15 us] by simp
  have le: "halvings 15 (unat us) \<le> 15"
    by (rule halvings_le)
  then have "\<not> (16 :: u32) \<le> log2_slot_loop 15 us 0"
    by (simp add: word_le_nat_alt h)
  with h le show ?thesis
    by (simp add: log2_slot_def HIST_SLOTS_def histogram_bucket_def)
qed

lemma histogram_bucket_mono: "v \<le> w \<Longrightarrow> histogram_bucket v \<le> histogram_bucket w"
  unfolding histogram_bucket_def using halvings_mono [of v w 15] by simp

section \<open>Facts about the hash-map helpers\<close>

lemma map_of_snoc:
  "map_of al k = None \<Longrightarrow>
   map_of (al @ [(k, v)]) k' = (if k' = k then Some v else map_of al k')"
  by (induction al) auto

lemma lookup_update_any:
  "bpf_map_lookup_elem (snd (bpf_map_update_elem m k v BPF_ANY)) k' =
     (if has_room m k \<and> k' = k then Some v else bpf_map_lookup_elem m k')"
proof (cases "map_of (entries m) k")
  case None
  then show ?thesis
    by (simp add: bpf_map_lookup_elem_def bpf_map_update_elem_def has_room_def map_of_snoc
          del: map_of_append)
next
  case (Some old)
  then show ?thesis
    by (simp add: bpf_map_lookup_elem_def bpf_map_update_elem_def has_room_def
          AList.update_conv')
qed

lemma lookup_update_noexist:
  "bpf_map_lookup_elem (snd (bpf_map_update_elem m k v BPF_NOEXIST)) k' =
     (if bpf_map_lookup_elem m k = None \<and> length (entries m) < max_entries m \<and> k' = k
      then Some v else bpf_map_lookup_elem m k')"
proof (cases "map_of (entries m) k")
  case None
  then show ?thesis
    by (simp add: bpf_map_lookup_elem_def bpf_map_update_elem_def map_of_snoc
          del: map_of_append)
next
  case (Some old)
  then show ?thesis
    by (simp add: bpf_map_lookup_elem_def bpf_map_update_elem_def)
qed

lemma lookup_delete:
  "bpf_map_lookup_elem (snd (bpf_map_delete_elem m k)) k' =
     (if k' = k then None else bpf_map_lookup_elem m k')"
  by (auto simp: bpf_map_lookup_elem_def bpf_map_delete_elem_def AList.delete_conv'
        split: option.splits)

lemma lookup_store:
  "bpf_map_lookup_elem (store_elem m k v) k' =
     (if k' = k then Some v else bpf_map_lookup_elem m k')"
  by (simp add: bpf_map_lookup_elem_def store_elem_def AList.update_conv')

lemma has_room_lookup:
  "has_room m k =
     (bpf_map_lookup_elem m k \<noteq> None \<or> length (entries m) < max_entries m)"
  by (simp add: has_room_def bpf_map_lookup_elem_def)


lemma update_snoc_absent:
  "map_of al k = None \<Longrightarrow> AList.update k w (al @ [(k, v)]) = al @ [(k, w)]"
  by (induction al) (auto split: if_splits)

lemma update_any_twice:
  "snd (bpf_map_update_elem (snd (bpf_map_update_elem m k v BPF_ANY)) k w BPF_ANY) =
   snd (bpf_map_update_elem m k w BPF_ANY)"
proof (cases "map_of (entries m) k")
  case None
  then show ?thesis
    by (simp add: bpf_map_update_elem_def map_of_snoc update_snoc_absent del: map_of_append)
next
  case (Some old)
  then show ?thesis
    by (simp add: bpf_map_update_elem_def AList.update_conv' AList.update_last)
qed

section \<open>An end event without its begin\<close>

lemma rqlat_end_without_begin:
  "bpf_map_lookup_elem (rq_start st) k = None \<Longrightarrow> handle_sched_switch_rqlat k t st = (0, st)"
  by (simp add: handle_sched_switch_rqlat_def Let_def)

lemma sys_exit_without_begin:
  "bpf_map_lookup_elem (sc_start st) (current_pid pt) = None \<Longrightarrow>
   handle_sys_exit nr pt t st = (0, st)"
  by (simp add: handle_sys_exit_def Let_def)

lemma futex_exit_without_begin:
  "bpf_map_lookup_elem (futex_start st) (current_pid pt) = None \<Longrightarrow>
   handle_futex_exit pt t st = (0, st)"
  by (simp add: handle_futex_exit_def Let_def)

lemma fault_exit_without_begin:
  "bpf_map_lookup_elem (pgfault_start st) (current_pid pt) = None \<Longrightarrow>
   handle_fault_exit ret pt t st = (0, st)"
  by (simp add: handle_fault_exit_def Let_def)

lemma reclaim_end_without_begin:
  "bpf_map_lookup_elem (reclaim_start st) (current_pid pt) = None \<Longrightarrow>
   handle_reclaim_end pt t st = (0, st)"
  by (simp add: handle_reclaim_end_def Let_def)

lemma recvmsg_exit_without_begin:
  "bpf_map_lookup_elem (recv_inflight st) (current_pid pt) = None \<Longrightarrow>
   handle_tcp_recvmsg_exit pt t st = (0, st)"
  by (simp add: handle_tcp_recvmsg_exit_def Let_def)

lemma set_state_without_begin:
  "bpf_map_lookup_elem (conn_inflight st) (ctx_skaddr ctx) = None \<Longrightarrow>
   handle_set_state ctx t st = (0, st)"
  by (simp add: handle_set_state_def Let_def)

lemma rq_complete_without_begin:
  "bpf_map_lookup_elem (inflight st) \<lparr>rq_dev = ctx_dev ctx, rq_pad = pad, rq_sector = ctx_sector ctx\<rparr> = None
   \<Longrightarrow> handle_block_rq_complete ctx pad t st = (0, st)"
  by (simp add: handle_block_rq_complete_def Let_def)

lemma sched_switch_without_begin:
  "\<not> 1 < prev_pid \<Longrightarrow> bpf_map_lookup_elem (offcpu_start st) next_pid = None \<Longrightarrow>
   handle_sched_switch prev_pid prev_st next_pid t st = (0, st)"
  by (simp add: handle_sched_switch_def Let_def)

section \<open>Stale pairs\<close>

lemma rqlat_stale:
  "k \<noteq> 0 \<Longrightarrow> bpf_map_lookup_elem (rq_start st) k = Some ts \<Longrightarrow> now - ts > 10000000000 \<Longrightarrow>
   handle_sched_switch_rqlat k now st =
     (0, st\<lparr>rq_start := snd (bpf_map_delete_elem (rq_start st) k)\<rparr>)"
  by (simp add: handle_sched_switch_rqlat_def Let_def)

lemma fault_stale:
  "current_pid pt \<noteq> 0 \<Longrightarrow> bpf_map_lookup_elem (pgfault_start st) (current_pid pt) = Some ts \<Longrightarrow>
   now - ts > 5000000000 \<Longrightarrow>
   handle_fault_exit ret pt now st =
     (0, st\<lparr>pgfault_start := snd (bpf_map_delete_elem (pgfault_start st) (current_pid pt))\<rparr>)"
  by (simp add: handle_fault_exit_def Let_def)

lemma sys_exit_stale:
  "current_pid pt \<noteq> 0 \<Longrightarrow> bpf_map_lookup_elem (sc_start st) (current_pid pt) = Some ts \<Longrightarrow>
   now - ts > 30000000000 \<Longrightarrow>
   handle_sys_exit nr pt now st =
     (0, st\<lparr>sc_start := snd (bpf_map_delete_elem (sc_start st) (current_pid pt))\<rparr>)"
  by (simp add: handle_sys_exit_def Let_def)

lemma futex_exit_stale:
  "current_pid pt \<noteq> 0 \<Longrightarrow> bpf_map_lookup_elem (futex_start st) (current_pid pt) = Some ts \<Longrightarrow>
   now - ts > 30000000000 \<Longrightarrow>
   handle_futex_exit pt now st =
     (0, st\<lparr>futex_start := snd (bpf_map_delete_elem (futex_start st) (current_pid pt))\<rparr>)"
  by (simp add: handle_futex_exit_def Let_def)

lemma reclaim_end_stale:
  "current_pid pt \<noteq> 0 \<Longrightarrow> bpf_map_lookup_elem (reclaim_start st) (current_pid pt) = Some ts \<Longrightarrow>
   now - ts > 30000000000 \<Longrightarrow>
   handle_reclaim_end pt now st =
     (0, st\<lparr>reclaim_start := snd (bpf_map_delete_elem (reclaim_start st) (current_pid pt))\<rparr>)"
  by (simp add: handle_reclaim_end_def Let_def)

lemma recvmsg_exit_stale:
  "current_pid pt \<noteq> 0 \<Longrightarrow> bpf_map_lookup_elem (recv_inflight st) (current_pid pt) = Some rs \<Longrightarrow>
   now - recv_ts rs > 30000000000 \<Longrightarrow>
   handle_tcp_recvmsg_exit pt now st =
     (0, st\<lparr>recv_inflight := snd (bpf_map_delete_elem (recv_inflight st) (current_pid pt))\<rparr>)"
  by (simp add: handle_tcp_recvmsg_exit_def Let_def)

lemma sched_switch_stale:
  assumes "1 < next_pid" and "prev_pid \<noteq> next_pid"
    and "bpf_map_lookup_elem (offcpu_start st) next_pid = Some ts" and "0 < ts"
    and "30000000000 \<le> now - ts"
  shows "offcpu_accum (snd (handle_sched_switch prev_pid prev_st next_pid now st))
           = offcpu_accum st
         \<and> bpf_map_lookup_elem
             (offcpu_start (snd (handle_sched_switch prev_pid prev_st next_pid now st)))
             next_pid = None"
  using assms
  by (simp add: handle_sched_switch_def Let_def lookup_update_any lookup_delete
        linorder_not_less)

section \<open>Zero durations\<close>

lemma futex_exit_zero:
  "current_pid pt \<noteq> 0 \<Longrightarrow> bpf_map_lookup_elem (futex_start st) (current_pid pt) = Some now \<Longrightarrow>
   handle_futex_exit pt now st =
     (0, st\<lparr>futex_start := snd (bpf_map_delete_elem (futex_start st) (current_pid pt))\<rparr>)"
  by (simp add: handle_futex_exit_def Let_def)

lemma rq_complete_zero:
  "bpf_map_lookup_elem (inflight st) \<lparr>rq_dev = ctx_dev ctx, rq_pad = pad, rq_sector = ctx_sector ctx\<rparr>
     = Some start \<Longrightarrow> rq_start_ns start = now \<Longrightarrow>
   handle_block_rq_complete ctx pad now st =
     (0, st\<lparr>inflight := snd (bpf_map_delete_elem (inflight st)
                \<lparr>rq_dev = ctx_dev ctx, rq_pad = pad, rq_sector = ctx_sector ctx\<rparr>)\<rparr>)"
  by (simp add: handle_block_rq_complete_def Let_def)

section \<open>A paired sample\<close>



lemma set_state_lookup:
  assumes "ctx_oldstate ctx = TCP_SYN_SENT" and "ctx_newstate ctx = TCP_ESTABLISHED"
    and "bpf_map_lookup_elem (conn_inflight st) (ctx_skaddr ctx) = Some start"
  shows "bpf_map_lookup_elem (connlat_accum (snd (handle_set_state ctx now st))) k' =
     (if k' = conn_pid start
      then (case bpf_map_lookup_elem (connlat_accum st) k' of
              Some v \<Rightarrow>
                Some \<lparr>connlat_total_ns = connlat_total_ns v + (now - conn_ts start),
                      connlat_count = connlat_count v + 1,
                      connlat_max_ns = max (connlat_max_ns v) (delta32 (now - conn_ts start)),
                      connlat_last_pid = conn_pid start, connlat_daddr = ctx_daddr ctx\<rparr>
            | None \<Rightarrow>
                if length (entries (connlat_accum st)) < max_entries (connlat_accum st)
                then Some \<lparr>connlat_total_ns = now - conn_ts start, connlat_count = 1,
                           connlat_max_ns = delta32 (now - conn_ts start),
                           connlat_last_pid = conn_pid start, connlat_daddr = ctx_daddr ctx\<rparr>
                else None)
      else bpf_map_lookup_elem (connlat_accum st) k')"
  using assms
  by (auto simp: handle_set_state_def Let_def lookup_store lookup_update_noexist
        max_def split: option.splits)

section \<open>Begin events\<close>

lemma wakeup_lookup:
  "k \<noteq> 0 \<Longrightarrow> has_room (rq_start st) k \<Longrightarrow>
   bpf_map_lookup_elem (rq_start (snd (handle_sched_wakeup k t st))) k = Some t"
  by (simp add: handle_sched_wakeup_def lookup_update_any)

lemma wakeup_twice:
  "handle_sched_wakeup k t2 (snd (handle_sched_wakeup k t1 st)) = handle_sched_wakeup k t2 st"
  by (simp add: handle_sched_wakeup_def update_any_twice)

lemma connect_lookup:
  "current_pid pt \<noteq> 0 \<Longrightarrow> has_room (conn_inflight st) sk \<Longrightarrow>
   bpf_map_lookup_elem (conn_inflight (snd (handle_tcp_v4_connect sk pt t st))) sk
     = Some \<lparr>conn_ts = t, conn_pid = current_pid pt\<rparr>"
  by (simp add: handle_tcp_v4_connect_def Let_def lookup_update_any)

lemma connect_accum:
  "connlat_accum (snd (handle_tcp_v4_connect sk pt t st)) = connlat_accum st"
  by (simp add: handle_tcp_v4_connect_def Let_def)

lemma connect_twice:
  "current_pid pt2 \<noteq> 0 \<Longrightarrow>
   handle_tcp_v4_connect sk pt2 t2 (snd (handle_tcp_v4_connect sk pt1 t1 st))
     = handle_tcp_v4_connect sk pt2 t2 st"
  by (simp add: handle_tcp_v4_connect_def Let_def update_any_twice)

section \<open>A begin and its end\<close>

lemma rqlat_pair:
  assumes "k \<noteq> 0"
    and "has_room (rq_start rs) k"
    and "has_room (rqlat_accum rs) k"
    and "t2 - t1 \<le> 10000000000"
  shows "(\<exists>v'. bpf_map_lookup_elem
                (rqlat_accum (snd (handle_sched_switch_rqlat k t2
                   (snd (handle_sched_wakeup k t1 rs)))))
                k = Some v'
             \<and> rqlat_total_ns v' =
                 (case bpf_map_lookup_elem (rqlat_accum rs) k of
                    None \<Rightarrow> 0 | Some v \<Rightarrow> rqlat_total_ns v) + (t2 - t1)
             \<and> rqlat_count v' =
                 (case bpf_map_lookup_elem (rqlat_accum rs) k of
                    None \<Rightarrow> 0 | Some v \<Rightarrow> rqlat_count v) + 1)"
  using assms
  by (auto simp: handle_sched_wakeup_def handle_sched_switch_rqlat_def Let_def lookup_store
      lookup_update_noexist
        lookup_update_any lookup_delete has_room_lookup linorder_not_less [symmetric]
        split: option.splits)

lemma futex_pair:
  assumes "futex_wait_op ctx_op"
    and "current_pid pt \<noteq> 0"
    and "has_room (futex_start fs) (current_pid pt)"
    and "has_room (futex_accum fs) (current_pid pt)"
    and "t2 - t1 \<noteq> 0"
    and "t2 - t1 \<le> 30000000000"
  shows "(\<exists>v'. bpf_map_lookup_elem
                (futex_accum (snd (handle_futex_exit pt t2
                   (snd (handle_futex_enter ctx_op pt t1 fs)))))
                (current_pid pt) = Some v'
             \<and> lock_total_wait_ns v' =
                 (case bpf_map_lookup_elem (futex_accum fs) (current_pid pt) of
                    None \<Rightarrow> 0 | Some v \<Rightarrow> lock_total_wait_ns v) + (t2 -
                        t1)
             \<and> lock_count v' =
                 (case bpf_map_lookup_elem (futex_accum fs) (current_pid pt) of
                    None \<Rightarrow> 0 | Some v \<Rightarrow> lock_count v) + 1)"
  using assms
  by (auto simp: handle_futex_enter_def handle_futex_exit_def futex_wait_op_def Let_def
      lookup_store lookup_update_noexist
        lookup_update_any lookup_delete has_room_lookup linorder_not_less [symmetric]
        split: option.splits)

lemma fault_pair:
  assumes "current_pid pt \<noteq> 0"
    and "has_room (pgfault_start ps) (current_pid pt)"
    and "has_room (pgfault_accum ps) (current_pid pt)"
    and "t2 - t1 \<le> 5000000000"
  shows "(\<exists>v'. bpf_map_lookup_elem
                (pgfault_accum (snd (handle_fault_exit ret pt t2
                   (snd (handle_fault_enter pt t1 ps)))))
                (current_pid pt) = Some v'
             \<and> pgfault_total_ns v' =
                 (case bpf_map_lookup_elem (pgfault_accum ps) (current_pid pt) of
                    None \<Rightarrow> 0 | Some v \<Rightarrow> pgfault_total_ns v) + (t2 - t1)
             \<and> pgfault_count v' =
                 (case bpf_map_lookup_elem (pgfault_accum ps) (current_pid pt) of
                    None \<Rightarrow> 0 | Some v \<Rightarrow> pgfault_count v) + 1)"
  using assms
  by (auto simp: handle_fault_enter_def handle_fault_exit_def Let_def lookup_store
      lookup_update_noexist
        lookup_update_any lookup_delete has_room_lookup linorder_not_less [symmetric]
        split: option.splits)

lemma sys_pair:
  assumes "current_pid pt \<noteq> 0"
    and "has_room (sc_start ss) (current_pid pt)"
    and "has_room (sc_accum ss) \<lparr>sc_pid = current_pid pt, sc_syscall_nr = ucast
        nr\<rparr>"
    and "t2 - t1 \<le> 30000000000"
  shows "(\<exists>v'. bpf_map_lookup_elem
                (sc_accum (snd (handle_sys_exit nr pt t2
                   (snd (handle_sys_enter pt t1 ss)))))
                \<lparr>sc_pid = current_pid pt, sc_syscall_nr = ucast nr\<rparr> = Some v'
             \<and> sc_total_ns v' =
                 (case bpf_map_lookup_elem (sc_accum ss) \<lparr>sc_pid = current_pid pt,
                     sc_syscall_nr = ucast nr\<rparr> of
                    None \<Rightarrow> 0 | Some v \<Rightarrow> sc_total_ns v) + (t2 - t1)
             \<and> sc_count v' =
                 (case bpf_map_lookup_elem (sc_accum ss) \<lparr>sc_pid = current_pid pt,
                     sc_syscall_nr = ucast nr\<rparr> of
                    None \<Rightarrow> 0 | Some v \<Rightarrow> sc_count v) + 1)"
  using assms
  by (auto simp: handle_sys_enter_def handle_sys_exit_def Let_def lookup_store
      lookup_update_noexist
        lookup_update_any lookup_delete has_room_lookup linorder_not_less [symmetric]
        split: option.splits)

lemma reclaim_pair:
  assumes "current_pid pt \<noteq> 0"
    and "has_room (reclaim_start ds) (current_pid pt)"
    and "has_room (reclaim_accum ds) (current_pid pt)"
    and "t2 - t1 \<le> 30000000000"
  shows "(\<exists>v'. bpf_map_lookup_elem
                (reclaim_accum (snd (handle_reclaim_end pt t2
                   (snd (handle_reclaim_begin pt t1 ds)))))
                (current_pid pt) = Some v'
             \<and> reclaim_stall_ns v' =
                 (case bpf_map_lookup_elem (reclaim_accum ds) (current_pid pt) of
                    None \<Rightarrow> 0 | Some v \<Rightarrow> reclaim_stall_ns v) + (t2 - t1)
             \<and> reclaim_count v' =
                 (case bpf_map_lookup_elem (reclaim_accum ds) (current_pid pt) of
                    None \<Rightarrow> 0 | Some v \<Rightarrow> reclaim_count v) + 1)"
  using assms
  by (auto simp: handle_reclaim_begin_def handle_reclaim_end_def Let_def lookup_store
      lookup_update_noexist
        lookup_update_any lookup_delete has_room_lookup linorder_not_less [symmetric]
        split: option.splits)

lemma recvmsg_pair:
  assumes "current_pid pt \<noteq> 0"
    and "has_room (recv_inflight ks) (current_pid pt)"
    and "has_room (sockio_accum ks) \<lparr>sockio_pid = current_pid pt, sockio_daddr =
        skc_daddr sock, sockio_dport = bswap16 (skc_dport sock), sockio_pad = 0\<rparr>"
    and "t2 - t1 \<le> 30000000000"
  shows "(\<exists>v'. bpf_map_lookup_elem
                (sockio_accum (snd (handle_tcp_recvmsg_exit pt t2
                   (snd (handle_tcp_recvmsg_enter sock pt t1 ks)))))
                \<lparr>sockio_pid = current_pid pt, sockio_daddr = skc_daddr sock,
                    sockio_dport = bswap16 (skc_dport sock), sockio_pad = 0\<rparr> = Some v'
             \<and> sockio_recv_wait_ns v' =
                 (case bpf_map_lookup_elem (sockio_accum ks) \<lparr>sockio_pid = current_pid
                     pt, sockio_daddr = skc_daddr sock, sockio_dport = bswap16 (skc_dport
                     sock), sockio_pad = 0\<rparr> of
                    None \<Rightarrow> 0 | Some v \<Rightarrow> sockio_recv_wait_ns v) + (t2 -
                        t1)
             \<and> sockio_recv_count v' =
                 (case bpf_map_lookup_elem (sockio_accum ks) \<lparr>sockio_pid = current_pid
                     pt, sockio_daddr = skc_daddr sock, sockio_dport = bswap16 (skc_dport
                     sock), sockio_pad = 0\<rparr> of
                    None \<Rightarrow> 0 | Some v \<Rightarrow> sockio_recv_count v) + 1)"
  using assms
  by (auto simp: handle_tcp_recvmsg_enter_def handle_tcp_recvmsg_exit_def Let_def lookup_store
      lookup_update_noexist
        lookup_update_any lookup_delete has_room_lookup linorder_not_less [symmetric]
        split: option.splits)

lemma sched_switch_begin_lookup:
  assumes "1 < k" and "prev_st AND 0xff \<noteq> TASK_INTERRUPTIBLE" and "next_pid \<noteq> k"
    and "has_room (offcpu_start os) k"
  shows "bpf_map_lookup_elem
           (offcpu_start (snd (handle_sched_switch k prev_st next_pid t1 os))) k = Some t1"
  using assms
  by (auto simp: handle_sched_switch_def Let_def lookup_update_any lookup_delete
        split: option.splits)

lemma sched_switch_begin_accum:
  assumes "next_pid \<noteq> k"
  shows "bpf_map_lookup_elem
           (offcpu_accum (snd (handle_sched_switch prev_pid prev_st next_pid t1 os))) k
         = bpf_map_lookup_elem (offcpu_accum os) k"
  using assms
  by (auto simp: handle_sched_switch_def Let_def lookup_store lookup_update_noexist
        split: option.splits)

lemma sched_switch_end_lookup:
  assumes "1 < k" and "prev_pid \<noteq> k"
    and "bpf_map_lookup_elem (offcpu_start os) k = Some ts" and "ts \<noteq> 0"
    and "now - ts < 30000000000"
  shows "bpf_map_lookup_elem
           (offcpu_accum (snd (handle_sched_switch prev_pid prev_st k now os))) k =
     (case bpf_map_lookup_elem (offcpu_accum os) k of
        Some v \<Rightarrow>
          Some \<lparr>offcpu_total_ns = offcpu_total_ns v + (now - ts),
                offcpu_count = offcpu_count v + 1\<rparr>
      | None \<Rightarrow>
          if length (entries (offcpu_accum os)) < max_entries (offcpu_accum os)
          then Some \<lparr>offcpu_total_ns = now - ts, offcpu_count = 1\<rparr>
          else None)"
  using assms
  by (auto simp: handle_sched_switch_def Let_def lookup_store lookup_update_noexist
        lookup_update_any word_neq_0_conv split: option.splits)

lemma offcpu_pair:
  assumes "1 < k" and "prev_st AND 0xff \<noteq> TASK_INTERRUPTIBLE" and "next_pid \<noteq> k"
    and "prev_pid \<noteq> k" and "has_room (offcpu_start os) k"
    and "has_room (offcpu_accum (snd (handle_sched_switch k prev_st next_pid t1 os))) k"
    and "t1 \<noteq> 0" and "t2 - t1 < 30000000000"
  shows "(\<exists>v'. bpf_map_lookup_elem
                (offcpu_accum (snd (handle_sched_switch prev_pid prev_st2 k t2
                   (snd (handle_sched_switch k prev_st next_pid t1 os)))))
                k = Some v'
             \<and> offcpu_total_ns v' =
                 (case bpf_map_lookup_elem (offcpu_accum os) k of
                    None \<Rightarrow> 0 | Some v \<Rightarrow> offcpu_total_ns v) + (t2 - t1)
             \<and> offcpu_count v' =
                 (case bpf_map_lookup_elem (offcpu_accum os) k of
                    None \<Rightarrow> 0 | Some v \<Rightarrow> offcpu_count v) + 1)"
proof -
  let ?s1 = "snd (handle_sched_switch k prev_st next_pid t1 os)"
  have b: "bpf_map_lookup_elem (offcpu_start ?s1) k = Some t1"
    using assms(1,2,3,5) by (rule sched_switch_begin_lookup)
  have a: "bpf_map_lookup_elem (offcpu_accum ?s1) k = bpf_map_lookup_elem (offcpu_accum os) k"
    using assms(3) by (rule sched_switch_begin_accum)
  show ?thesis
    using assms(6) a
    by (auto simp: sched_switch_end_lookup [OF assms(1,4) b assms(7,8)] has_room_lookup
          split: option.splits)
qed

lemma connect_pair:
  assumes "current_pid pt \<noteq> 0"
    and "ctx_oldstate sctx = TCP_SYN_SENT"
    and "ctx_newstate sctx = TCP_ESTABLISHED"
    and "has_room (conn_inflight cs) (ctx_skaddr sctx)"
    and "has_room (connlat_accum cs) (current_pid pt)"
  shows "(\<exists>v'. bpf_map_lookup_elem
                (connlat_accum (snd (handle_set_state sctx t2
                   (snd (handle_tcp_v4_connect (ctx_skaddr sctx) pt t1 cs)))))
                (current_pid pt) = Some v'
             \<and> connlat_total_ns v' =
                 (case bpf_map_lookup_elem (connlat_accum cs) (current_pid pt) of
                    None \<Rightarrow> 0 | Some v \<Rightarrow> connlat_total_ns v) + (t2 - t1)
             \<and> connlat_count v' =
                 (case bpf_map_lookup_elem (connlat_accum cs) (current_pid pt) of
                    None \<Rightarrow> 0 | Some v \<Rightarrow> connlat_count v) + 1)"
  using assms
  by (auto simp: handle_tcp_v4_connect_def handle_set_state_def Let_def lookup_store
      lookup_update_noexist
        lookup_update_any lookup_delete has_room_lookup linorder_not_less [symmetric]
        split: option.splits)

lemma block_rq_pair:
  assumes "current_pid pt \<noteq> 0"
    and "has_room (inflight bs) \<lparr>rq_dev = ctx_dev bctx, rq_pad = pad, rq_sector =
        ctx_sector bctx\<rparr>"
    and "has_room (iolat_hist bs) (current_pid pt)"
    and "t2 - t1 \<noteq> 0"
  shows "(\<exists>v'. bpf_map_lookup_elem
                (iolat_hist (snd (handle_block_rq_complete bctx pad t2
                   (snd (handle_block_rq_issue bctx pad pt t1 bs)))))
                (current_pid pt) = Some v'
             \<and> iolat_total_ns v' =
                 (case bpf_map_lookup_elem (iolat_hist bs) (current_pid pt) of
                    None \<Rightarrow> 0 | Some v \<Rightarrow> iolat_total_ns v) + (t2 - t1)
             \<and> iolat_count v' =
                 (case bpf_map_lookup_elem (iolat_hist bs) (current_pid pt) of
                    None \<Rightarrow> 0 | Some v \<Rightarrow> iolat_count v) + 1)"
  using assms
  by (auto simp: handle_block_rq_issue_def handle_block_rq_complete_def Let_def lookup_store
      lookup_update_noexist
        lookup_update_any lookup_delete has_room_lookup linorder_not_less [symmetric]
        split: option.splits)

section \<open>Capacity and clamping\<close>

lemma map_wf_empty: "map_wf (empty_map n)"
  by (simp add: map_wf_def empty_map_def)

lemma length_update_present:
  "k \<in> fst ` set al \<Longrightarrow> length (AList.update k v al) = length al"
  by (induction al) auto

lemma map_wf_update: "map_wf m \<Longrightarrow> map_wf (snd (bpf_map_update_elem m k v flag))"
proof (cases "map_of (entries m) k")
  case None
  assume wf: "map_wf m"
  from None have "k \<notin> fst ` set (entries m)"
    by (simp add: map_of_eq_None_iff)
  with wf None show ?thesis
    by (simp add: map_wf_def bpf_map_update_elem_def)
next
  case (Some old)
  assume wf: "map_wf m"
  from Some have "k \<in> fst ` set (entries m)"
    by (meson domI dom_map_of_conv_image_fst [THEN equalityD1, THEN subsetD] domIff
          map_of_eq_None_iff option.distinct(1))
  with wf Some show ?thesis
    by (cases flag)
       (auto simp: map_wf_def bpf_map_update_elem_def AList.update_keys
          length_update_present)
qed

lemma store_keys:
  "bpf_map_lookup_elem m k = Some old \<Longrightarrow>
   map fst (entries (store_elem m k v)) = map fst (entries m)
   \<and> max_entries (store_elem m k v) = max_entries m"
proof -
  assume "bpf_map_lookup_elem m k = Some old"
  then have "k \<in> set (map fst (entries m))"
    by (auto simp: bpf_map_lookup_elem_def dest: map_of_SomeD intro: rev_image_eqI)
  then show ?thesis
    by (simp add: store_elem_def AList.update_keys)
qed

lemma map_wf_store:
  "map_wf m \<Longrightarrow> bpf_map_lookup_elem m k = Some old \<Longrightarrow> map_wf (store_elem m k v)"
  using store_keys [of m k old v] length_map [of fst "entries (store_elem m k v)"]
    length_map [of fst "entries m"]
  by (simp add: map_wf_def)

lemma map_wf_delete: "map_wf m \<Longrightarrow> map_wf (snd (bpf_map_delete_elem m k))"
proof -
  assume wf: "map_wf m"
  have "length (AList.delete k (entries m)) \<le> length (entries m)"
    by (simp add: AList.delete_eq)
  with wf show ?thesis
    by (auto simp: map_wf_def bpf_map_delete_elem_def AList.distinct_delete
          split: option.splits)
qed






section \<open>Facts about the keys\<close>

lemma unat_u8_bound: "unat (b :: u8) < 256"
proof -
  have "unat b < 2 ^ LENGTH(8)"
    by (rule unsigned_less)
  then show ?thesis by simp
qed

lemma le_nat_bound: "le_nat bs < 256 ^ length bs"
proof (induction bs)
  case Nil
  then show ?case by simp
next
  case (Cons b bs)
  from Cons have "256 * le_nat bs + 256 \<le> 256 * 256 ^ length bs"
    by simp
  with unat_u8_bound [of b] show ?case by simp
qed

lemma le_nat_inj: "length xs = length ys \<Longrightarrow> le_nat xs = le_nat ys \<Longrightarrow> xs = ys"
proof (induction xs ys rule: list_induct2)
  case Nil
  then show ?case by simp
next
  case (Cons x xs y ys)
  from Cons.prems have e: "unat x + 256 * le_nat xs = unat y + 256 * le_nat ys"
    by simp
  then have "(unat x + 256 * le_nat xs) mod 256 = (unat y + 256 * le_nat ys) mod 256"
    by simp
  with unat_u8_bound [of x] unat_u8_bound [of y] have h: "unat x = unat y"
    by simp
  with e have "le_nat xs = le_nat ys"
    by simp
  with h Cons.IH show ?case
    by (simp add: word_unat_eq_iff)
qed

lemma unat_ucast_u8: "unat (ucast (b :: u8) :: u64) = unat b"
proof -
  have "unat b < 2 ^ 64"
    using unat_u8_bound [of b] by simp
  then show ?thesis
    by (simp add: unsigned_ucast_eq take_bit_nat_eq_self)
qed

lemma unat_le_u64: "length bs \<le> 8 \<Longrightarrow> unat (le_u64 bs) = le_nat bs"
proof (induction bs)
  case Nil
  then show ?case by simp
next
  case (Cons b bs)
  then have ih: "unat (le_u64 bs) = le_nat bs" by simp
  have "le_nat (b # bs) < 256 ^ length (b # bs)"
    by (rule le_nat_bound)
  also from Cons.prems have "\<dots> \<le> (256 :: nat) ^ 8"
    by (intro power_increasing) simp_all
  finally have b: "unat b + 256 * le_nat bs < 2 ^ 64"
    by simp
  then have b2: "256 * le_nat bs < 2 ^ 64" by simp
  have "unat (256 * le_u64 bs) = 256 * le_nat bs"
    using b2 by (simp add: unat_word_ariths ih)
  then show ?case
    using b by (simp add: unat_word_ariths unat_ucast_u8)
qed

lemma le_u64_inj:
  "length xs = 8 \<Longrightarrow> length ys = 8 \<Longrightarrow> le_u64 xs = le_u64 ys \<Longrightarrow> xs = ys"
proof -
  assume l: "length xs = 8" "length ys = 8" and e: "le_u64 xs = le_u64 ys"
  from e have "unat (le_u64 xs) = unat (le_u64 ys)" by simp
  with l have "le_nat xs = le_nat ys" by (simp add: unat_le_u64)
  with l show ?thesis by (simp add: le_nat_inj)
qed

lemma mod_key_eq_iff:
  "8 \<le> length n1 \<Longrightarrow> 8 \<le> length n2 \<Longrightarrow> (mod_key n1 = mod_key n2) = (take 8 n1 = take 8 n2)"
  using le_u64_inj [of "take 8 n1" "take 8 n2"] by (auto simp: mod_key_def)

lemma length_probe_read_kernel_str:
  "0 < sz \<Longrightarrow> length dst = sz \<Longrightarrow> length (probe_read_kernel_str dst sz src) = sz"
  by (auto simp: probe_read_kernel_str_def Let_def)

lemma length_mod_name_buf: "length (mod_name_buf s) = 56"
  by (simp add: mod_name_buf_def length_probe_read_kernel_str)

lemma bswap16_bswap16: "bswap16 (bswap16 x) = x"
  unfolding bswap16_def
  by (rule bit_word_eqI) (auto simp: bit_simps)

lemma bswap16_inj: "(bswap16 x = bswap16 y) = (x = y)"
  by (metis bswap16_bswap16)

lemma mod_key_of_names:
  "(mod_key (mod_name_buf s1) = mod_key (mod_name_buf s2))
     = (take 8 (mod_name_buf s1) = take 8 (mod_name_buf s2))"
  by (simp add: mod_key_eq_iff length_mod_name_buf)

lemma current_pid_eq_iff:
  "(current_pid a = current_pid b) = (drop_bit 32 a = drop_bit 32 b)"
proof
  assume h: "current_pid a = current_pid b"
  show "drop_bit 32 a = drop_bit 32 b"
  proof (rule bit_word_eqI)
    fix n assume n: "n < LENGTH(64)"
    from h have "bit (current_pid a) n = bit (current_pid b) n" by simp
    then show "bit (drop_bit 32 a) n = bit (drop_bit 32 b) n"
      using n by (cases "n < 32") (auto simp: current_pid_def bit_simps dest: bit_imp_le_length)
  qed
next
  assume "drop_bit 32 a = drop_bit 32 b"
  then show "current_pid a = current_pid b" by (simp add: current_pid_def)
qed

lemma rq_complete_other_pad:
  "other_pad \<noteq> pad
   \<and> bpf_map_lookup_elem (inflight bs)
         \<lparr>rq_dev = ctx_dev bctx, rq_pad = other_pad, rq_sector = ctx_sector bctx\<rparr> = None
   \<longrightarrow> handle_block_rq_complete bctx other_pad now
         (snd (handle_block_rq_issue bctx pad pt ts bs))
       = (0, snd (handle_block_rq_issue bctx pad pt ts bs))"
  by (simp add: handle_block_rq_complete_def handle_block_rq_issue_def Let_def
        lookup_update_any)

section \<open>An increment below the largest value\<close>

lemma word_le_plus_1: "(c :: 'a :: len word) \<noteq> - 1 \<Longrightarrow> c \<le> c + 1"
  by (metis inc_less_eq_triv_imp nle_le)

section \<open>Facts about what the handlers touch\<close>

lemma touches_onlyD:
  "touches_only S m m' \<Longrightarrow> k \<notin> S \<Longrightarrow>
   bpf_map_lookup_elem m' k = bpf_map_lookup_elem m k"
  by (simp add: touches_only_def)

lemma count_keptD:
  "count_kept cnt m m' \<Longrightarrow> bpf_map_lookup_elem m k = Some v \<Longrightarrow>
   \<exists>v'. bpf_map_lookup_elem m' k = Some v'
       \<and> (cnt v' = cnt v \<or> cnt v' = cnt v + 1)
       \<and> (cnt v \<noteq> - 1 \<longrightarrow> cnt v \<le> cnt v')"
  by (simp add: count_kept_def)

lemma wakeup_touches_rq_start:
  "touches_only {k}
     (rq_start rs)
     (rq_start (snd (handle_sched_wakeup k ts rs)))"
  by (auto simp: touches_only_def handle_sched_wakeup_def Let_def
        lookup_store lookup_update_noexist lookup_update_any lookup_delete
        split: option.splits if_splits)

lemma wakeup_touches_rqlat_accum:
  "touches_only {}
     (rqlat_accum rs)
     (rqlat_accum (snd (handle_sched_wakeup k ts rs)))"
  by (auto simp: touches_only_def handle_sched_wakeup_def Let_def
        lookup_store lookup_update_noexist lookup_update_any lookup_delete
        split: option.splits if_splits)

lemma wakeup_keeps_rqlat_count:
  "count_kept rqlat_count (rqlat_accum rs)
     (rqlat_accum (snd (handle_sched_wakeup k ts rs)))"
  by (auto simp: count_kept_def handle_sched_wakeup_def Let_def word_le_plus_1
        lookup_store lookup_update_noexist lookup_update_any lookup_delete
        split: option.splits if_splits)

lemma switch_rqlat_touches_rq_start:
  "touches_only {k}
     (rq_start rs)
     (rq_start (snd (handle_sched_switch_rqlat k now rs)))"
  by (auto simp: touches_only_def handle_sched_switch_rqlat_def Let_def
        lookup_store lookup_update_noexist lookup_update_any lookup_delete
        split: option.splits if_splits)

lemma switch_rqlat_touches_rqlat_accum:
  "touches_only {k}
     (rqlat_accum rs)
     (rqlat_accum (snd (handle_sched_switch_rqlat k now rs)))"
  by (auto simp: touches_only_def handle_sched_switch_rqlat_def Let_def
        lookup_store lookup_update_noexist lookup_update_any lookup_delete
        split: option.splits if_splits)

lemma switch_rqlat_keeps_rqlat_count:
  "count_kept rqlat_count (rqlat_accum rs)
     (rqlat_accum (snd (handle_sched_switch_rqlat k now rs)))"
  by (auto simp: count_kept_def handle_sched_switch_rqlat_def Let_def word_le_plus_1
        lookup_store lookup_update_noexist lookup_update_any lookup_delete
        split: option.splits if_splits)

lemma futex_enter_touches_futex_start:
  "touches_only {current_pid pt}
     (futex_start fs)
     (futex_start (snd (handle_futex_enter ctx_op pt ts fs)))"
  by (auto simp: touches_only_def handle_futex_enter_def Let_def
        lookup_store lookup_update_noexist lookup_update_any lookup_delete
        split: option.splits if_splits)

lemma futex_enter_touches_futex_accum:
  "touches_only {}
     (futex_accum fs)
     (futex_accum (snd (handle_futex_enter ctx_op pt ts fs)))"
  by (auto simp: touches_only_def handle_futex_enter_def Let_def
        lookup_store lookup_update_noexist lookup_update_any lookup_delete
        split: option.splits if_splits)

lemma futex_enter_keeps_lock_count:
  "count_kept lock_count (futex_accum fs)
     (futex_accum (snd (handle_futex_enter ctx_op pt ts fs)))"
  by (auto simp: count_kept_def handle_futex_enter_def Let_def word_le_plus_1
        lookup_store lookup_update_noexist lookup_update_any lookup_delete
        split: option.splits if_splits)

lemma futex_exit_touches_futex_start:
  "touches_only {current_pid pt}
     (futex_start fs)
     (futex_start (snd (handle_futex_exit pt now fs)))"
  by (auto simp: touches_only_def handle_futex_exit_def Let_def
        lookup_store lookup_update_noexist lookup_update_any lookup_delete
        split: option.splits if_splits)

lemma futex_exit_touches_futex_accum:
  "touches_only {current_pid pt}
     (futex_accum fs)
     (futex_accum (snd (handle_futex_exit pt now fs)))"
  by (auto simp: touches_only_def handle_futex_exit_def Let_def
        lookup_store lookup_update_noexist lookup_update_any lookup_delete
        split: option.splits if_splits)

lemma futex_exit_keeps_lock_count:
  "count_kept lock_count (futex_accum fs)
     (futex_accum (snd (handle_futex_exit pt now fs)))"
  by (auto simp: count_kept_def handle_futex_exit_def Let_def word_le_plus_1
        lookup_store lookup_update_noexist lookup_update_any lookup_delete
        split: option.splits if_splits)

lemma fault_enter_touches_pgfault_start:
  "touches_only {current_pid pt}
     (pgfault_start ps)
     (pgfault_start (snd (handle_fault_enter pt ts ps)))"
  by (auto simp: touches_only_def handle_fault_enter_def Let_def
        lookup_store lookup_update_noexist lookup_update_any lookup_delete
        split: option.splits if_splits)

lemma fault_enter_touches_pgfault_accum:
  "touches_only {}
     (pgfault_accum ps)
     (pgfault_accum (snd (handle_fault_enter pt ts ps)))"
  by (auto simp: touches_only_def handle_fault_enter_def Let_def
        lookup_store lookup_update_noexist lookup_update_any lookup_delete
        split: option.splits if_splits)

lemma fault_enter_keeps_pgfault_count:
  "count_kept pgfault_count (pgfault_accum ps)
     (pgfault_accum (snd (handle_fault_enter pt ts ps)))"
  by (auto simp: count_kept_def handle_fault_enter_def Let_def word_le_plus_1
        lookup_store lookup_update_noexist lookup_update_any lookup_delete
        split: option.splits if_splits)

lemma fault_enter_keeps_pgfault_major_count:
  "count_kept pgfault_major_count (pgfault_accum ps)
     (pgfault_accum (snd (handle_fault_enter pt ts ps)))"
  by (auto simp: count_kept_def handle_fault_enter_def Let_def word_le_plus_1
        lookup_store lookup_update_noexist lookup_update_any lookup_delete
        split: option.splits if_splits)

lemma fault_exit_touches_pgfault_start:
  "touches_only {current_pid pt}
     (pgfault_start ps)
     (pgfault_start (snd (handle_fault_exit ret pt now ps)))"
  by (auto simp: touches_only_def handle_fault_exit_def Let_def
        lookup_store lookup_update_noexist lookup_update_any lookup_delete
        split: option.splits if_splits)

lemma fault_exit_touches_pgfault_accum:
  "touches_only {current_pid pt}
     (pgfault_accum ps)
     (pgfault_accum (snd (handle_fault_exit ret pt now ps)))"
  by (auto simp: touches_only_def handle_fault_exit_def Let_def
        lookup_store lookup_update_noexist lookup_update_any lookup_delete
        split: option.splits if_splits)

lemma fault_exit_keeps_pgfault_count:
  "count_kept pgfault_count (pgfault_accum ps)
     (pgfault_accum (snd (handle_fault_exit ret pt now ps)))"
  by (auto simp: count_kept_def handle_fault_exit_def Let_def word_le_plus_1
        lookup_store lookup_update_noexist lookup_update_any lookup_delete
        split: option.splits if_splits)

lemma fault_exit_keeps_pgfault_major_count:
  "count_kept pgfault_major_count (pgfault_accum ps)
     (pgfault_accum (snd (handle_fault_exit ret pt now ps)))"
  by (auto simp: count_kept_def handle_fault_exit_def Let_def word_le_plus_1
        lookup_store lookup_update_noexist lookup_update_any lookup_delete
        split: option.splits if_splits)

lemma sys_enter_touches_sc_start:
  "touches_only {current_pid pt}
     (sc_start ss)
     (sc_start (snd (handle_sys_enter pt ts ss)))"
  by (auto simp: touches_only_def handle_sys_enter_def Let_def
        lookup_store lookup_update_noexist lookup_update_any lookup_delete
        split: option.splits if_splits)

lemma sys_enter_touches_sc_accum:
  "touches_only {}
     (sc_accum ss)
     (sc_accum (snd (handle_sys_enter pt ts ss)))"
  by (auto simp: touches_only_def handle_sys_enter_def Let_def
        lookup_store lookup_update_noexist lookup_update_any lookup_delete
        split: option.splits if_splits)

lemma sys_enter_keeps_sc_count:
  "count_kept sc_count (sc_accum ss)
     (sc_accum (snd (handle_sys_enter pt ts ss)))"
  by (auto simp: count_kept_def handle_sys_enter_def Let_def word_le_plus_1
        lookup_store lookup_update_noexist lookup_update_any lookup_delete
        split: option.splits if_splits)

lemma sys_exit_touches_sc_start:
  "touches_only {current_pid pt}
     (sc_start ss)
     (sc_start (snd (handle_sys_exit nr pt now ss)))"
  by (auto simp: touches_only_def handle_sys_exit_def Let_def
        lookup_store lookup_update_noexist lookup_update_any lookup_delete
        split: option.splits if_splits)

lemma sys_exit_touches_sc_accum:
  "touches_only {\<lparr>sc_pid = current_pid pt, sc_syscall_nr = ucast nr\<rparr>}
     (sc_accum ss)
     (sc_accum (snd (handle_sys_exit nr pt now ss)))"
  by (auto simp: touches_only_def handle_sys_exit_def Let_def
        lookup_store lookup_update_noexist lookup_update_any lookup_delete
        split: option.splits if_splits)

lemma sys_exit_keeps_sc_count:
  "count_kept sc_count (sc_accum ss)
     (sc_accum (snd (handle_sys_exit nr pt now ss)))"
  by (auto simp: count_kept_def handle_sys_exit_def Let_def word_le_plus_1
        lookup_store lookup_update_noexist lookup_update_any lookup_delete
        split: option.splits if_splits)

lemma reclaim_begin_touches_reclaim_start:
  "touches_only {current_pid pt}
     (reclaim_start ds)
     (reclaim_start (snd (handle_reclaim_begin pt ts ds)))"
  by (auto simp: touches_only_def handle_reclaim_begin_def Let_def
        lookup_store lookup_update_noexist lookup_update_any lookup_delete
        split: option.splits if_splits)

lemma reclaim_begin_touches_reclaim_accum:
  "touches_only {}
     (reclaim_accum ds)
     (reclaim_accum (snd (handle_reclaim_begin pt ts ds)))"
  by (auto simp: touches_only_def handle_reclaim_begin_def Let_def
        lookup_store lookup_update_noexist lookup_update_any lookup_delete
        split: option.splits if_splits)

lemma reclaim_begin_keeps_reclaim_count:
  "count_kept reclaim_count (reclaim_accum ds)
     (reclaim_accum (snd (handle_reclaim_begin pt ts ds)))"
  by (auto simp: count_kept_def handle_reclaim_begin_def Let_def word_le_plus_1
        lookup_store lookup_update_noexist lookup_update_any lookup_delete
        split: option.splits if_splits)

lemma reclaim_end_touches_reclaim_start:
  "touches_only {current_pid pt}
     (reclaim_start ds)
     (reclaim_start (snd (handle_reclaim_end pt now ds)))"
  by (auto simp: touches_only_def handle_reclaim_end_def Let_def
        lookup_store lookup_update_noexist lookup_update_any lookup_delete
        split: option.splits if_splits)

lemma reclaim_end_touches_reclaim_accum:
  "touches_only {current_pid pt}
     (reclaim_accum ds)
     (reclaim_accum (snd (handle_reclaim_end pt now ds)))"
  by (auto simp: touches_only_def handle_reclaim_end_def Let_def
        lookup_store lookup_update_noexist lookup_update_any lookup_delete
        split: option.splits if_splits)

lemma reclaim_end_keeps_reclaim_count:
  "count_kept reclaim_count (reclaim_accum ds)
     (reclaim_accum (snd (handle_reclaim_end pt now ds)))"
  by (auto simp: count_kept_def handle_reclaim_end_def Let_def word_le_plus_1
        lookup_store lookup_update_noexist lookup_update_any lookup_delete
        split: option.splits if_splits)

lemma sched_switch_touches_offcpu_start:
  "touches_only {prev_pid, next_pid}
     (offcpu_start os)
     (offcpu_start (snd (handle_sched_switch prev_pid prev_st next_pid now os)))"
  by (auto simp: touches_only_def handle_sched_switch_def Let_def
        lookup_store lookup_update_noexist lookup_update_any lookup_delete
        split: option.splits if_splits)

lemma sched_switch_touches_offcpu_accum:
  "touches_only {next_pid}
     (offcpu_accum os)
     (offcpu_accum (snd (handle_sched_switch prev_pid prev_st next_pid now os)))"
  by (auto simp: touches_only_def handle_sched_switch_def Let_def
        lookup_store lookup_update_noexist lookup_update_any lookup_delete
        split: option.splits if_splits)

lemma sched_switch_keeps_offcpu_count:
  "count_kept offcpu_count (offcpu_accum os)
     (offcpu_accum (snd (handle_sched_switch prev_pid prev_st next_pid now os)))"
  by (auto simp: count_kept_def handle_sched_switch_def Let_def word_le_plus_1
        lookup_store lookup_update_noexist lookup_update_any lookup_delete
        split: option.splits if_splits)

lemma connect_touches_conn_inflight:
  "touches_only {sk}
     (conn_inflight cs)
     (conn_inflight (snd (handle_tcp_v4_connect sk pt ts cs)))"
  by (auto simp: touches_only_def handle_tcp_v4_connect_def Let_def
        lookup_store lookup_update_noexist lookup_update_any lookup_delete
        split: option.splits if_splits)

lemma connect_touches_connlat_accum:
  "touches_only {}
     (connlat_accum cs)
     (connlat_accum (snd (handle_tcp_v4_connect sk pt ts cs)))"
  by (auto simp: touches_only_def handle_tcp_v4_connect_def Let_def
        lookup_store lookup_update_noexist lookup_update_any lookup_delete
        split: option.splits if_splits)

lemma connect_keeps_connlat_count:
  "count_kept connlat_count (connlat_accum cs)
     (connlat_accum (snd (handle_tcp_v4_connect sk pt ts cs)))"
  by (auto simp: count_kept_def handle_tcp_v4_connect_def Let_def word_le_plus_1
        lookup_store lookup_update_noexist lookup_update_any lookup_delete
        split: option.splits if_splits)

lemma set_state_touches_conn_inflight:
  "touches_only {ctx_skaddr sctx}
     (conn_inflight cs)
     (conn_inflight (snd (handle_set_state sctx now cs)))"
  by (auto simp: touches_only_def handle_set_state_def Let_def
        lookup_store lookup_update_noexist lookup_update_any lookup_delete
        split: option.splits if_splits)

lemma set_state_touches_connlat_accum:
  "touches_only (case bpf_map_lookup_elem (conn_inflight cs) (ctx_skaddr sctx) of
            None \<Rightarrow> {} | Some start \<Rightarrow> {conn_pid start})
     (connlat_accum cs)
     (connlat_accum (snd (handle_set_state sctx now cs)))"
  by (auto simp: touches_only_def handle_set_state_def Let_def
        lookup_store lookup_update_noexist lookup_update_any lookup_delete
        split: option.splits if_splits)

lemma set_state_keeps_connlat_count:
  "count_kept connlat_count (connlat_accum cs)
     (connlat_accum (snd (handle_set_state sctx now cs)))"
  by (auto simp: count_kept_def handle_set_state_def Let_def word_le_plus_1
        lookup_store lookup_update_noexist lookup_update_any lookup_delete
        split: option.splits if_splits)

lemma rq_issue_touches_inflight:
  "touches_only {\<lparr>rq_dev = ctx_dev bctx, rq_pad = pad, rq_sector = ctx_sector
      bctx\<rparr>}
     (inflight bs)
     (inflight (snd (handle_block_rq_issue bctx pad pt now bs)))"
  by (auto simp: touches_only_def handle_block_rq_issue_def Let_def
        lookup_store lookup_update_noexist lookup_update_any lookup_delete
        split: option.splits if_splits)

lemma rq_issue_touches_iolat_hist:
  "touches_only {}
     (iolat_hist bs)
     (iolat_hist (snd (handle_block_rq_issue bctx pad pt now bs)))"
  by (auto simp: touches_only_def handle_block_rq_issue_def Let_def
        lookup_store lookup_update_noexist lookup_update_any lookup_delete
        split: option.splits if_splits)

lemma rq_issue_keeps_iolat_count:
  "count_kept iolat_count (iolat_hist bs)
     (iolat_hist (snd (handle_block_rq_issue bctx pad pt now bs)))"
  by (auto simp: count_kept_def handle_block_rq_issue_def Let_def word_le_plus_1
        lookup_store lookup_update_noexist lookup_update_any lookup_delete
        split: option.splits if_splits)

lemma rq_complete_touches_inflight:
  "touches_only {\<lparr>rq_dev = ctx_dev bctx, rq_pad = pad, rq_sector = ctx_sector
      bctx\<rparr>}
     (inflight bs)
     (inflight (snd (handle_block_rq_complete bctx pad now bs)))"
  by (auto simp: touches_only_def handle_block_rq_complete_def Let_def
        lookup_store lookup_update_noexist lookup_update_any lookup_delete
        split: option.splits if_splits)

lemma rq_complete_touches_iolat_hist:
  "touches_only (case bpf_map_lookup_elem (inflight bs) \<lparr>rq_dev = ctx_dev bctx, rq_pad =
      pad, rq_sector = ctx_sector bctx\<rparr> of
            None \<Rightarrow> {} | Some start \<Rightarrow> {rq_pid start})
     (iolat_hist bs)
     (iolat_hist (snd (handle_block_rq_complete bctx pad now bs)))"
  by (auto simp: touches_only_def handle_block_rq_complete_def Let_def
        lookup_store lookup_update_noexist lookup_update_any lookup_delete
        split: option.splits if_splits)

lemma rq_complete_keeps_iolat_count:
  "count_kept iolat_count (iolat_hist bs)
     (iolat_hist (snd (handle_block_rq_complete bctx pad now bs)))"
  by (auto simp: count_kept_def handle_block_rq_complete_def Let_def word_le_plus_1
        lookup_store lookup_update_noexist lookup_update_any lookup_delete
        split: option.splits if_splits)

lemma sendmsg_touches_recv_inflight:
  "touches_only {}
     (recv_inflight ks)
     (recv_inflight (snd (handle_tcp_sendmsg sock sz pt ks)))"
  by (auto simp: touches_only_def handle_tcp_sendmsg_def add_tx_def Let_def
        lookup_store lookup_update_noexist lookup_update_any lookup_delete
        split: option.splits if_splits)

lemma sendmsg_touches_sockio_accum:
  "touches_only {\<lparr>sockio_pid = current_pid pt, sockio_daddr = skc_daddr sock,
      sockio_dport = bswap16 (skc_dport sock), sockio_pad = 0\<rparr>}
     (sockio_accum ks)
     (sockio_accum (snd (handle_tcp_sendmsg sock sz pt ks)))"
  by (auto simp: touches_only_def handle_tcp_sendmsg_def add_tx_def Let_def
        lookup_store lookup_update_noexist lookup_update_any lookup_delete
        split: option.splits if_splits)

lemma sendmsg_keeps_sockio_recv_count:
  "count_kept sockio_recv_count (sockio_accum ks)
     (sockio_accum (snd (handle_tcp_sendmsg sock sz pt ks)))"
  by (auto simp: count_kept_def handle_tcp_sendmsg_def add_tx_def Let_def word_le_plus_1
        lookup_store lookup_update_noexist lookup_update_any lookup_delete
        split: option.splits if_splits)

lemma cleanup_rbuf_touches_recv_inflight:
  "touches_only {}
     (recv_inflight ks)
     (recv_inflight (snd (handle_tcp_cleanup_rbuf sock copied pt ks)))"
  by (auto simp: touches_only_def handle_tcp_cleanup_rbuf_def add_rx_def Let_def
        lookup_store lookup_update_noexist lookup_update_any lookup_delete
        split: option.splits if_splits)

lemma cleanup_rbuf_touches_sockio_accum:
  "touches_only {\<lparr>sockio_pid = current_pid pt, sockio_daddr = skc_daddr sock,
      sockio_dport = bswap16 (skc_dport sock), sockio_pad = 0\<rparr>}
     (sockio_accum ks)
     (sockio_accum (snd (handle_tcp_cleanup_rbuf sock copied pt ks)))"
  by (auto simp: touches_only_def handle_tcp_cleanup_rbuf_def add_rx_def Let_def
        lookup_store lookup_update_noexist lookup_update_any lookup_delete
        split: option.splits if_splits)

lemma cleanup_rbuf_keeps_sockio_recv_count:
  "count_kept sockio_recv_count (sockio_accum ks)
     (sockio_accum (snd (handle_tcp_cleanup_rbuf sock copied pt ks)))"
  by (auto simp: count_kept_def handle_tcp_cleanup_rbuf_def add_rx_def Let_def word_le_plus_1
        lookup_store lookup_update_noexist lookup_update_any lookup_delete
        split: option.splits if_splits)

lemma recvmsg_enter_touches_recv_inflight:
  "touches_only {current_pid pt}
     (recv_inflight ks)
     (recv_inflight (snd (handle_tcp_recvmsg_enter sock pt now ks)))"
  by (auto simp: touches_only_def handle_tcp_recvmsg_enter_def Let_def
        lookup_store lookup_update_noexist lookup_update_any lookup_delete
        split: option.splits if_splits)

lemma recvmsg_enter_touches_sockio_accum:
  "touches_only {}
     (sockio_accum ks)
     (sockio_accum (snd (handle_tcp_recvmsg_enter sock pt now ks)))"
  by (auto simp: touches_only_def handle_tcp_recvmsg_enter_def Let_def
        lookup_store lookup_update_noexist lookup_update_any lookup_delete
        split: option.splits if_splits)

lemma recvmsg_enter_keeps_sockio_recv_count:
  "count_kept sockio_recv_count (sockio_accum ks)
     (sockio_accum (snd (handle_tcp_recvmsg_enter sock pt now ks)))"
  by (auto simp: count_kept_def handle_tcp_recvmsg_enter_def Let_def word_le_plus_1
        lookup_store lookup_update_noexist lookup_update_any lookup_delete
        split: option.splits if_splits)

lemma recvmsg_exit_touches_recv_inflight:
  "touches_only {current_pid pt}
     (recv_inflight ks)
     (recv_inflight (snd (handle_tcp_recvmsg_exit pt now ks)))"
  by (auto simp: touches_only_def handle_tcp_recvmsg_exit_def Let_def
        lookup_store lookup_update_noexist lookup_update_any lookup_delete
        split: option.splits if_splits)

lemma recvmsg_exit_touches_sockio_accum:
  "touches_only (case bpf_map_lookup_elem (recv_inflight ks) (current_pid pt) of
            None \<Rightarrow> {}
          | Some r \<Rightarrow> {\<lparr>sockio_pid = current_pid pt, sockio_daddr =
              recv_daddr r, sockio_dport = recv_dport r, sockio_pad = 0\<rparr>})
     (sockio_accum ks)
     (sockio_accum (snd (handle_tcp_recvmsg_exit pt now ks)))"
  by (auto simp: touches_only_def handle_tcp_recvmsg_exit_def Let_def
        lookup_store lookup_update_noexist lookup_update_any lookup_delete
        split: option.splits if_splits)

lemma recvmsg_exit_keeps_sockio_recv_count:
  "count_kept sockio_recv_count (sockio_accum ks)
     (sockio_accum (snd (handle_tcp_recvmsg_exit pt now ks)))"
  by (auto simp: count_kept_def handle_tcp_recvmsg_exit_def Let_def word_le_plus_1
        lookup_store lookup_update_noexist lookup_update_any lookup_delete
        split: option.splits if_splits)

lemma init_module_touches_table:
  "touches_only {mod_key (mod_name_buf modname)}
     mm
     (snd (handle_do_init_module modname now mm))"
  by (auto simp: touches_only_def handle_do_init_module_def Let_def
        lookup_store lookup_update_noexist lookup_update_any lookup_delete
        split: option.splits if_splits)

lemma init_module_keeps_mod_count:
  "count_kept mod_count mm
     (snd (handle_do_init_module modname now mm))"
  by (auto simp: count_kept_def handle_do_init_module_def Let_def word_le_plus_1
        lookup_store lookup_update_noexist lookup_update_any lookup_delete
        split: option.splits if_splits)

lemma ptrace_touches_table:
  "touches_only {\<lparr>tracer_pid = current_pid pt, target_pid = ucast (ctx_pid pctx)\<rparr>}
     pm
     (snd (handle_sys_enter_ptrace pctx pt comm now pm))"
  by (auto simp: touches_only_def handle_sys_enter_ptrace_def Let_def
        lookup_store lookup_update_noexist lookup_update_any lookup_delete
        split: option.splits if_splits)

lemma ptrace_keeps_ptrace_count:
  "count_kept ptrace_count pm
     (snd (handle_sys_enter_ptrace pctx pt comm now pm))"
  by (auto simp: count_kept_def handle_sys_enter_ptrace_def Let_def word_le_plus_1
        lookup_store lookup_update_noexist lookup_update_any lookup_delete
        split: option.splits if_splits)

lemma exec_touches_table:
  "touches_only {current_pid pt}
     em
     (snd (handle_sched_process_exec pt ug ppid comm fname now em))"
  by (auto simp: touches_only_def handle_sched_process_exec_def Let_def
        lookup_store lookup_update_noexist lookup_update_any lookup_delete
        split: option.splits if_splits)

lemma exec_keeps_exec_count:
  "count_kept exec_count em
     (snd (handle_sched_process_exec pt ug ppid comm fname now em))"
  by (auto simp: count_kept_def handle_sched_process_exec_def Let_def word_le_plus_1
        lookup_store lookup_update_noexist lookup_update_any lookup_delete
        split: option.splits if_splits)

lemma sock_set_state_touches_table:
  "touches_only {\<lparr>key_oldstate = ucast (ctx_oldstate sctx), key_newstate = ucast
      (ctx_newstate sctx)\<rparr>}
     sm
     (snd (handle_sock_set_state sctx sm))"
  by (auto simp: touches_only_def handle_sock_set_state_def Let_def
        lookup_store lookup_update_noexist lookup_update_any lookup_delete
        split: option.splits if_splits)

lemma sock_set_state_keeps_state_count:
  "count_kept state_count sm
     (snd (handle_sock_set_state sctx sm))"
  by (auto simp: count_kept_def handle_sock_set_state_def Let_def word_le_plus_1
        lookup_store lookup_update_noexist lookup_update_any lookup_delete
        split: option.splits if_splits)

lemma throttle_touches_table:
  "touches_only {cgid}
     tm
     (snd (handle_throttle_cfs_rq cgid tm))"
  by (auto simp: touches_only_def handle_throttle_cfs_rq_def Let_def
        lookup_store lookup_update_noexist lookup_update_any lookup_delete
        split: option.splits if_splits)

lemma throttle_keeps_throttle_count:
  "count_kept throttle_count tm
     (snd (handle_throttle_cfs_rq cgid tm))"
  by (auto simp: count_kept_def handle_throttle_cfs_rq_def Let_def word_le_plus_1
        lookup_store lookup_update_noexist lookup_update_any lookup_delete
        split: option.splits if_splits)

lemma kfree_skb_touches_table:
  "touches_only {reason}
     dm
     (snd (handle_kfree_skb reason dm))"
  by (auto simp: touches_only_def handle_kfree_skb_def Let_def
        lookup_store lookup_update_noexist lookup_update_any lookup_delete
        split: option.splits if_splits)

lemma kfree_skb_keeps_drop_count:
  "count_kept drop_count dm
     (snd (handle_kfree_skb reason dm))"
  by (auto simp: count_kept_def handle_kfree_skb_def Let_def word_le_plus_1
        lookup_store lookup_update_noexist lookup_update_any lookup_delete
        split: option.splits if_splits)

lemma net_sendmsg_touches_table:
  "touches_only {current_pid pt}
     nm
     (snd (net_handle_tcp_sendmsg sz pt nm))"
  by (auto simp: touches_only_def net_handle_tcp_sendmsg_def add_bytes_def Let_def
        lookup_store lookup_update_noexist lookup_update_any lookup_delete
        split: option.splits if_splits)

lemma net_cleanup_rbuf_touches_table:
  "touches_only {current_pid pt}
     nm
     (snd (net_handle_tcp_cleanup_rbuf copied pt nm))"
  by (auto simp: touches_only_def net_handle_tcp_cleanup_rbuf_def add_bytes_def Let_def
        lookup_store lookup_update_noexist lookup_update_any lookup_delete
        split: option.splits if_splits)

lemma mark_victim_touches_table:
  "touches_only {k}
     om
     (snd (handle_mark_victim k now om))"
  by (auto simp: touches_only_def handle_mark_victim_def Let_def
        lookup_store lookup_update_noexist lookup_update_any lookup_delete
        split: option.splits if_splits)

lemma swap_readpage_touches_table:
  "touches_only {current_pid pt}
     wm
     (snd (handle_swap_readpage pt wm))"
  by (auto simp: touches_only_def handle_swap_readpage_def Let_def
        lookup_store lookup_update_noexist lookup_update_any lookup_delete
        split: option.splits if_splits)

lemma swap_readpage_keeps_swap_read_pages:
  "count_kept swap_read_pages wm
     (snd (handle_swap_readpage pt wm))"
  by (auto simp: count_kept_def handle_swap_readpage_def Let_def word_le_plus_1
        lookup_store lookup_update_noexist lookup_update_any lookup_delete
        split: option.splits if_splits)

lemma swap_readpage_keeps_swap_write_pages:
  "count_kept swap_write_pages wm
     (snd (handle_swap_readpage pt wm))"
  by (auto simp: count_kept_def handle_swap_readpage_def Let_def word_le_plus_1
        lookup_store lookup_update_noexist lookup_update_any lookup_delete
        split: option.splits if_splits)

lemma swap_writepage_touches_table:
  "touches_only {current_pid pt}
     wm
     (snd (handle_swap_writepage pt wm))"
  by (auto simp: touches_only_def handle_swap_writepage_def Let_def
        lookup_store lookup_update_noexist lookup_update_any lookup_delete
        split: option.splits if_splits)

lemma swap_writepage_keeps_swap_read_pages:
  "count_kept swap_read_pages wm
     (snd (handle_swap_writepage pt wm))"
  by (auto simp: count_kept_def handle_swap_writepage_def Let_def word_le_plus_1
        lookup_store lookup_update_noexist lookup_update_any lookup_delete
        split: option.splits if_splits)

lemma swap_writepage_keeps_swap_write_pages:
  "count_kept swap_write_pages wm
     (snd (handle_swap_writepage pt wm))"
  by (auto simp: count_kept_def handle_swap_writepage_def Let_def word_le_plus_1
        lookup_store lookup_update_noexist lookup_update_any lookup_delete
        split: option.splits if_splits)

lemma send_reset_touches_table:
  "touches_only {current_pid pt}
     xm
     (snd (handle_tcp_send_reset sock pt xm))"
  by (auto simp: touches_only_def handle_tcp_send_reset_def Let_def
        lookup_store lookup_update_noexist lookup_update_any lookup_delete
        split: option.splits if_splits)

lemma send_reset_keeps_reset_count:
  "count_kept reset_count xm
     (snd (handle_tcp_send_reset sock pt xm))"
  by (auto simp: count_kept_def handle_tcp_send_reset_def Let_def word_le_plus_1
        lookup_store lookup_update_noexist lookup_update_any lookup_delete
        split: option.splits if_splits)

lemma retransmit_touches_table:
  "touches_only {current_pid pt}
     ym
     (snd (handle_tcp_retransmit rctx pt ym))"
  by (auto simp: touches_only_def handle_tcp_retransmit_def Let_def
        lookup_store lookup_update_noexist lookup_update_any lookup_delete
        split: option.splits if_splits)

lemma retransmit_keeps_retrans_count:
  "count_kept retrans_count ym
     (snd (handle_tcp_retransmit rctx pt ym))"
  by (auto simp: count_kept_def handle_tcp_retransmit_def Let_def word_le_plus_1
        lookup_store lookup_update_noexist lookup_update_any lookup_delete
        split: option.splits if_splits)

lemma rcv_established_touches_table:
  "touches_only {\<lparr>rtt_daddr = skc_daddr sock, rtt_dport = bswap16 (skc_dport sock),
      rtt_pad = 0\<rparr>}
     zm
     (snd (handle_tcp_rcv_established sock srtt_us pt zm))"
  by (auto simp: touches_only_def handle_tcp_rcv_established_def Let_def
        lookup_store lookup_update_noexist lookup_update_any lookup_delete
        split: option.splits if_splits)

lemma rcv_established_keeps_rtt_count:
  "count_kept rtt_count zm
     (snd (handle_tcp_rcv_established sock srtt_us pt zm))"
  by (auto simp: count_kept_def handle_tcp_rcv_established_def Let_def word_le_plus_1
        lookup_store lookup_update_noexist lookup_update_any lookup_delete
        split: option.splits if_splits)

lemma writeback_wait_touches_table:
  "touches_only {current_pid pt}
     bm
     (snd (handle_writeback_wait nr_pages pt bm))"
  by (auto simp: touches_only_def handle_writeback_wait_def Let_def
        lookup_store lookup_update_noexist lookup_update_any lookup_delete
        split: option.splits if_splits)

lemma writeback_wait_keeps_wb_count:
  "count_kept wb_count bm
     (snd (handle_writeback_wait nr_pages pt bm))"
  by (auto simp: count_kept_def handle_writeback_wait_def Let_def word_le_plus_1
        lookup_store lookup_update_noexist lookup_update_any lookup_delete
        split: option.splits if_splits)

lemmas map_eval =
  bpf_map_lookup_elem_def bpf_map_update_elem_def bpf_map_delete_elem_def store_elem_def
  has_room_def at_capacity_def map_wf_def empty_map_def Let_def current_pid_def delta32_def


section \<open>Claim C1: a begin and its end add one sample\<close>

text \<open>
  Claim C1, as the probes have it. In each of the nine pairing probes, a begin at \<open>t1\<close>
  followed by the end at \<open>t2\<close> for the same key leaves a record whose total is the
  former total plus \<open>t2 - t1\<close> and whose count is the former count plus 1 (both modulo
  the width of the field), the former values being 0 when the record was absent. This
  holds when the handlers do not filter the key out, the pairing table and the
  accumulation table have room for their keys (the key present, or the table below its
  capacity), and the duration passes the test of the probe, which differs from probe to
  probe:

  \<^item> runqlat.c: a non-zero pid, a duration of at most 10 s;
  \<^item> lockwait.c: a wait operation of a process other than 0, a duration of at most 30 s and
    not zero;
  \<^item> pgfault.c: a process other than 0, at most 5 s;
  \<^item> syscalldissect.c: a process other than 0, at most 30 s; the record is that of the
    process and the system call number of the exit;
  \<^item> directreclaim.c: a process other than 0, at most 30 s;
  \<^item> sockio.c, the wait in \<^verbatim>\<open>tcp_recvmsg\<close>: a process other than 0, at most 30 s; the
    record is that of the process, the address and the swapped port of the socket;
  \<^item> offcpu.c: a process above 1 that is switched out in a state other than
    \<^verbatim>\<open>TASK_INTERRUPTIBLE\<close> and is not the task switched in by that event, nor the task
    switched out by the event that switches it in again; a begin clock other than 0; a
    duration strictly below 30 s; room in the accumulation table after the begin event,
    whose other half may have added a record;
  \<^item> tcpconnlat.c: a connecting process other than 0 and a transition from
    \<^verbatim>\<open>TCP_SYN_SENT\<close> to \<^verbatim>\<open>TCP_ESTABLISHED\<close> of the same socket; any duration, there is
    no ceiling; the record is that of the connecting process;
  \<^item> iolatency.c: an issuing process other than 0, the same device, sector and padding
    bytes at issue and completion; any duration other than 0, there is no ceiling; the
    record is that of the issuing process.
\<close>

theorem C1_pair_gains_one_sample:
  "(k \<noteq> 0
      \<and> has_room (rq_start rs) k
      \<and> has_room (rqlat_accum rs) k
      \<and> t2 - t1 \<le> 10000000000
      \<longrightarrow>
      (\<exists>v'. bpf_map_lookup_elem
             (rqlat_accum (snd (handle_sched_switch_rqlat k t2
                (snd (handle_sched_wakeup k t1 rs)))))
             k = Some v'
          \<and> rqlat_total_ns v' =
              (case bpf_map_lookup_elem (rqlat_accum rs) k of
                 None \<Rightarrow> 0 | Some v \<Rightarrow> rqlat_total_ns v) + (t2 - t1)
          \<and> rqlat_count v' =
              (case bpf_map_lookup_elem (rqlat_accum rs) k of
                 None \<Rightarrow> 0 | Some v \<Rightarrow> rqlat_count v) + 1))
   \<and> (futex_wait_op ctx_op
      \<and> current_pid pt \<noteq> 0
      \<and> has_room (futex_start fs) (current_pid pt)
      \<and> has_room (futex_accum fs) (current_pid pt)
      \<and> t2 - t1 \<noteq> 0
      \<and> t2 - t1 \<le> 30000000000
      \<longrightarrow>
      (\<exists>v'. bpf_map_lookup_elem
             (futex_accum (snd (handle_futex_exit pt t2
                (snd (handle_futex_enter ctx_op pt t1 fs)))))
             (current_pid pt) = Some v'
          \<and> lock_total_wait_ns v' =
              (case bpf_map_lookup_elem (futex_accum fs) (current_pid pt) of
                 None \<Rightarrow> 0 | Some v \<Rightarrow> lock_total_wait_ns v) + (t2 - t1)
          \<and> lock_count v' =
              (case bpf_map_lookup_elem (futex_accum fs) (current_pid pt) of
                 None \<Rightarrow> 0 | Some v \<Rightarrow> lock_count v) + 1))
   \<and> (current_pid pt \<noteq> 0
      \<and> has_room (pgfault_start ps) (current_pid pt)
      \<and> has_room (pgfault_accum ps) (current_pid pt)
      \<and> t2 - t1 \<le> 5000000000
      \<longrightarrow>
      (\<exists>v'. bpf_map_lookup_elem
             (pgfault_accum (snd (handle_fault_exit ret pt t2
                (snd (handle_fault_enter pt t1 ps)))))
             (current_pid pt) = Some v'
          \<and> pgfault_total_ns v' =
              (case bpf_map_lookup_elem (pgfault_accum ps) (current_pid pt) of
                 None \<Rightarrow> 0 | Some v \<Rightarrow> pgfault_total_ns v) + (t2 - t1)
          \<and> pgfault_count v' =
              (case bpf_map_lookup_elem (pgfault_accum ps) (current_pid pt) of
                 None \<Rightarrow> 0 | Some v \<Rightarrow> pgfault_count v) + 1))
   \<and> (current_pid pt \<noteq> 0
      \<and> has_room (sc_start ss) (current_pid pt)
      \<and> has_room (sc_accum ss) \<lparr>sc_pid = current_pid pt, sc_syscall_nr = ucast
          nr\<rparr>
      \<and> t2 - t1 \<le> 30000000000
      \<longrightarrow>
      (\<exists>v'. bpf_map_lookup_elem
             (sc_accum (snd (handle_sys_exit nr pt t2
                (snd (handle_sys_enter pt t1 ss)))))
             \<lparr>sc_pid = current_pid pt, sc_syscall_nr = ucast nr\<rparr> = Some v'
          \<and> sc_total_ns v' =
              (case bpf_map_lookup_elem (sc_accum ss) \<lparr>sc_pid = current_pid pt,
                  sc_syscall_nr = ucast nr\<rparr> of
                 None \<Rightarrow> 0 | Some v \<Rightarrow> sc_total_ns v) + (t2 - t1)
          \<and> sc_count v' =
              (case bpf_map_lookup_elem (sc_accum ss) \<lparr>sc_pid = current_pid pt,
                  sc_syscall_nr = ucast nr\<rparr> of
                 None \<Rightarrow> 0 | Some v \<Rightarrow> sc_count v) + 1))
   \<and> (current_pid pt \<noteq> 0
      \<and> has_room (reclaim_start ds) (current_pid pt)
      \<and> has_room (reclaim_accum ds) (current_pid pt)
      \<and> t2 - t1 \<le> 30000000000
      \<longrightarrow>
      (\<exists>v'. bpf_map_lookup_elem
             (reclaim_accum (snd (handle_reclaim_end pt t2
                (snd (handle_reclaim_begin pt t1 ds)))))
             (current_pid pt) = Some v'
          \<and> reclaim_stall_ns v' =
              (case bpf_map_lookup_elem (reclaim_accum ds) (current_pid pt) of
                 None \<Rightarrow> 0 | Some v \<Rightarrow> reclaim_stall_ns v) + (t2 - t1)
          \<and> reclaim_count v' =
              (case bpf_map_lookup_elem (reclaim_accum ds) (current_pid pt) of
                 None \<Rightarrow> 0 | Some v \<Rightarrow> reclaim_count v) + 1))
   \<and> (current_pid pt \<noteq> 0
      \<and> has_room (recv_inflight ks) (current_pid pt)
      \<and> has_room (sockio_accum ks) \<lparr>sockio_pid = current_pid pt, sockio_daddr =
          skc_daddr sock, sockio_dport = bswap16 (skc_dport sock), sockio_pad = 0\<rparr>
      \<and> t2 - t1 \<le> 30000000000
      \<longrightarrow>
      (\<exists>v'. bpf_map_lookup_elem
             (sockio_accum (snd (handle_tcp_recvmsg_exit pt t2
                (snd (handle_tcp_recvmsg_enter sock pt t1 ks)))))
             \<lparr>sockio_pid = current_pid pt, sockio_daddr = skc_daddr sock, sockio_dport =
                 bswap16 (skc_dport sock), sockio_pad = 0\<rparr> = Some v'
          \<and> sockio_recv_wait_ns v' =
              (case bpf_map_lookup_elem (sockio_accum ks) \<lparr>sockio_pid = current_pid pt,
                  sockio_daddr = skc_daddr sock, sockio_dport = bswap16 (skc_dport sock),
                  sockio_pad = 0\<rparr> of
                 None \<Rightarrow> 0 | Some v \<Rightarrow> sockio_recv_wait_ns v) + (t2 - t1)
          \<and> sockio_recv_count v' =
              (case bpf_map_lookup_elem (sockio_accum ks) \<lparr>sockio_pid = current_pid pt,
                  sockio_daddr = skc_daddr sock, sockio_dport = bswap16 (skc_dport sock),
                  sockio_pad = 0\<rparr> of
                 None \<Rightarrow> 0 | Some v \<Rightarrow> sockio_recv_count v) + 1))
   \<and> (1 < k
      \<and> prev_st AND 0xff \<noteq> TASK_INTERRUPTIBLE
      \<and> next_pid \<noteq> k
      \<and> prev_pid \<noteq> k
      \<and> has_room (offcpu_start os) k
      \<and> has_room (offcpu_accum (snd (handle_sched_switch k prev_st next_pid t1 os))) k
      \<and> t1 \<noteq> 0
      \<and> t2 - t1 < 30000000000
      \<longrightarrow>
      (\<exists>v'. bpf_map_lookup_elem
             (offcpu_accum (snd (handle_sched_switch prev_pid prev_st2 k t2
                (snd (handle_sched_switch k prev_st next_pid t1 os)))))
             k = Some v'
          \<and> offcpu_total_ns v' =
              (case bpf_map_lookup_elem (offcpu_accum os) k of
                 None \<Rightarrow> 0 | Some v \<Rightarrow> offcpu_total_ns v) + (t2 - t1)
          \<and> offcpu_count v' =
              (case bpf_map_lookup_elem (offcpu_accum os) k of
                 None \<Rightarrow> 0 | Some v \<Rightarrow> offcpu_count v) + 1))
   \<and> (current_pid pt \<noteq> 0
      \<and> ctx_oldstate sctx = TCP_SYN_SENT
      \<and> ctx_newstate sctx = TCP_ESTABLISHED
      \<and> has_room (conn_inflight cs) (ctx_skaddr sctx)
      \<and> has_room (connlat_accum cs) (current_pid pt)
      \<longrightarrow>
      (\<exists>v'. bpf_map_lookup_elem
             (connlat_accum (snd (handle_set_state sctx t2
                (snd (handle_tcp_v4_connect (ctx_skaddr sctx) pt t1 cs)))))
             (current_pid pt) = Some v'
          \<and> connlat_total_ns v' =
              (case bpf_map_lookup_elem (connlat_accum cs) (current_pid pt) of
                 None \<Rightarrow> 0 | Some v \<Rightarrow> connlat_total_ns v) + (t2 - t1)
          \<and> connlat_count v' =
              (case bpf_map_lookup_elem (connlat_accum cs) (current_pid pt) of
                 None \<Rightarrow> 0 | Some v \<Rightarrow> connlat_count v) + 1))
   \<and> (current_pid pt \<noteq> 0
      \<and> has_room (inflight bs) \<lparr>rq_dev = ctx_dev bctx, rq_pad = pad, rq_sector =
          ctx_sector bctx\<rparr>
      \<and> has_room (iolat_hist bs) (current_pid pt)
      \<and> t2 - t1 \<noteq> 0
      \<longrightarrow>
      (\<exists>v'. bpf_map_lookup_elem
             (iolat_hist (snd (handle_block_rq_complete bctx pad t2
                (snd (handle_block_rq_issue bctx pad pt t1 bs)))))
             (current_pid pt) = Some v'
          \<and> iolat_total_ns v' =
              (case bpf_map_lookup_elem (iolat_hist bs) (current_pid pt) of
                 None \<Rightarrow> 0 | Some v \<Rightarrow> iolat_total_ns v) + (t2 - t1)
          \<and> iolat_count v' =
              (case bpf_map_lookup_elem (iolat_hist bs) (current_pid pt) of
                 None \<Rightarrow> 0 | Some v \<Rightarrow> iolat_count v) + 1))"
proof (intro conjI impI)
  assume "k \<noteq> 0
    \<and> has_room (rq_start rs) k
    \<and> has_room (rqlat_accum rs) k
    \<and> t2 - t1 \<le> 10000000000"
  then show "(\<exists>v'. bpf_map_lookup_elem
           (rqlat_accum (snd (handle_sched_switch_rqlat k t2
              (snd (handle_sched_wakeup k t1 rs)))))
           k = Some v'
        \<and> rqlat_total_ns v' =
            (case bpf_map_lookup_elem (rqlat_accum rs) k of
               None \<Rightarrow> 0 | Some v \<Rightarrow> rqlat_total_ns v) + (t2 - t1)
        \<and> rqlat_count v' =
            (case bpf_map_lookup_elem (rqlat_accum rs) k of
               None \<Rightarrow> 0 | Some v \<Rightarrow> rqlat_count v) + 1)"
    by (elim conjE) (rule rqlat_pair)
next
  assume "futex_wait_op ctx_op
    \<and> current_pid pt \<noteq> 0
    \<and> has_room (futex_start fs) (current_pid pt)
    \<and> has_room (futex_accum fs) (current_pid pt)
    \<and> t2 - t1 \<noteq> 0
    \<and> t2 - t1 \<le> 30000000000"
  then show "(\<exists>v'. bpf_map_lookup_elem
           (futex_accum (snd (handle_futex_exit pt t2
              (snd (handle_futex_enter ctx_op pt t1 fs)))))
           (current_pid pt) = Some v'
        \<and> lock_total_wait_ns v' =
            (case bpf_map_lookup_elem (futex_accum fs) (current_pid pt) of
               None \<Rightarrow> 0 | Some v \<Rightarrow> lock_total_wait_ns v) + (t2 - t1)
        \<and> lock_count v' =
            (case bpf_map_lookup_elem (futex_accum fs) (current_pid pt) of
               None \<Rightarrow> 0 | Some v \<Rightarrow> lock_count v) + 1)"
    by (elim conjE) (rule futex_pair)
next
  assume "current_pid pt \<noteq> 0
    \<and> has_room (pgfault_start ps) (current_pid pt)
    \<and> has_room (pgfault_accum ps) (current_pid pt)
    \<and> t2 - t1 \<le> 5000000000"
  then show "(\<exists>v'. bpf_map_lookup_elem
           (pgfault_accum (snd (handle_fault_exit ret pt t2
              (snd (handle_fault_enter pt t1 ps)))))
           (current_pid pt) = Some v'
        \<and> pgfault_total_ns v' =
            (case bpf_map_lookup_elem (pgfault_accum ps) (current_pid pt) of
               None \<Rightarrow> 0 | Some v \<Rightarrow> pgfault_total_ns v) + (t2 - t1)
        \<and> pgfault_count v' =
            (case bpf_map_lookup_elem (pgfault_accum ps) (current_pid pt) of
               None \<Rightarrow> 0 | Some v \<Rightarrow> pgfault_count v) + 1)"
    by (elim conjE) (rule fault_pair)
next
  assume "current_pid pt \<noteq> 0
    \<and> has_room (sc_start ss) (current_pid pt)
    \<and> has_room (sc_accum ss) \<lparr>sc_pid = current_pid pt, sc_syscall_nr = ucast
        nr\<rparr>
    \<and> t2 - t1 \<le> 30000000000"
  then show "(\<exists>v'. bpf_map_lookup_elem
           (sc_accum (snd (handle_sys_exit nr pt t2
              (snd (handle_sys_enter pt t1 ss)))))
           \<lparr>sc_pid = current_pid pt, sc_syscall_nr = ucast nr\<rparr> = Some v'
        \<and> sc_total_ns v' =
            (case bpf_map_lookup_elem (sc_accum ss) \<lparr>sc_pid = current_pid pt,
                sc_syscall_nr = ucast nr\<rparr> of
               None \<Rightarrow> 0 | Some v \<Rightarrow> sc_total_ns v) + (t2 - t1)
        \<and> sc_count v' =
            (case bpf_map_lookup_elem (sc_accum ss) \<lparr>sc_pid = current_pid pt,
                sc_syscall_nr = ucast nr\<rparr> of
               None \<Rightarrow> 0 | Some v \<Rightarrow> sc_count v) + 1)"
    by (elim conjE) (rule sys_pair)
next
  assume "current_pid pt \<noteq> 0
    \<and> has_room (reclaim_start ds) (current_pid pt)
    \<and> has_room (reclaim_accum ds) (current_pid pt)
    \<and> t2 - t1 \<le> 30000000000"
  then show "(\<exists>v'. bpf_map_lookup_elem
           (reclaim_accum (snd (handle_reclaim_end pt t2
              (snd (handle_reclaim_begin pt t1 ds)))))
           (current_pid pt) = Some v'
        \<and> reclaim_stall_ns v' =
            (case bpf_map_lookup_elem (reclaim_accum ds) (current_pid pt) of
               None \<Rightarrow> 0 | Some v \<Rightarrow> reclaim_stall_ns v) + (t2 - t1)
        \<and> reclaim_count v' =
            (case bpf_map_lookup_elem (reclaim_accum ds) (current_pid pt) of
               None \<Rightarrow> 0 | Some v \<Rightarrow> reclaim_count v) + 1)"
    by (elim conjE) (rule reclaim_pair)
next
  assume "current_pid pt \<noteq> 0
    \<and> has_room (recv_inflight ks) (current_pid pt)
    \<and> has_room (sockio_accum ks) \<lparr>sockio_pid = current_pid pt, sockio_daddr =
        skc_daddr sock, sockio_dport = bswap16 (skc_dport sock), sockio_pad = 0\<rparr>
    \<and> t2 - t1 \<le> 30000000000"
  then show "(\<exists>v'. bpf_map_lookup_elem
           (sockio_accum (snd (handle_tcp_recvmsg_exit pt t2
              (snd (handle_tcp_recvmsg_enter sock pt t1 ks)))))
           \<lparr>sockio_pid = current_pid pt, sockio_daddr = skc_daddr sock, sockio_dport =
               bswap16 (skc_dport sock), sockio_pad = 0\<rparr> = Some v'
        \<and> sockio_recv_wait_ns v' =
            (case bpf_map_lookup_elem (sockio_accum ks) \<lparr>sockio_pid = current_pid pt,
                sockio_daddr = skc_daddr sock, sockio_dport = bswap16 (skc_dport sock),
                sockio_pad = 0\<rparr> of
               None \<Rightarrow> 0 | Some v \<Rightarrow> sockio_recv_wait_ns v) + (t2 - t1)
        \<and> sockio_recv_count v' =
            (case bpf_map_lookup_elem (sockio_accum ks) \<lparr>sockio_pid = current_pid pt,
                sockio_daddr = skc_daddr sock, sockio_dport = bswap16 (skc_dport sock),
                sockio_pad = 0\<rparr> of
               None \<Rightarrow> 0 | Some v \<Rightarrow> sockio_recv_count v) + 1)"
    by (elim conjE) (rule recvmsg_pair)
next
  assume "1 < k
    \<and> prev_st AND 0xff \<noteq> TASK_INTERRUPTIBLE
    \<and> next_pid \<noteq> k
    \<and> prev_pid \<noteq> k
    \<and> has_room (offcpu_start os) k
    \<and> has_room (offcpu_accum (snd (handle_sched_switch k prev_st next_pid t1 os))) k
    \<and> t1 \<noteq> 0
    \<and> t2 - t1 < 30000000000"
  then show "(\<exists>v'. bpf_map_lookup_elem
           (offcpu_accum (snd (handle_sched_switch prev_pid prev_st2 k t2
              (snd (handle_sched_switch k prev_st next_pid t1 os)))))
           k = Some v'
        \<and> offcpu_total_ns v' =
            (case bpf_map_lookup_elem (offcpu_accum os) k of
               None \<Rightarrow> 0 | Some v \<Rightarrow> offcpu_total_ns v) + (t2 - t1)
        \<and> offcpu_count v' =
            (case bpf_map_lookup_elem (offcpu_accum os) k of
               None \<Rightarrow> 0 | Some v \<Rightarrow> offcpu_count v) + 1)"
    by (elim conjE) (rule offcpu_pair)
next
  assume "current_pid pt \<noteq> 0
    \<and> ctx_oldstate sctx = TCP_SYN_SENT
    \<and> ctx_newstate sctx = TCP_ESTABLISHED
    \<and> has_room (conn_inflight cs) (ctx_skaddr sctx)
    \<and> has_room (connlat_accum cs) (current_pid pt)"
  then show "(\<exists>v'. bpf_map_lookup_elem
           (connlat_accum (snd (handle_set_state sctx t2
              (snd (handle_tcp_v4_connect (ctx_skaddr sctx) pt t1 cs)))))
           (current_pid pt) = Some v'
        \<and> connlat_total_ns v' =
            (case bpf_map_lookup_elem (connlat_accum cs) (current_pid pt) of
               None \<Rightarrow> 0 | Some v \<Rightarrow> connlat_total_ns v) + (t2 - t1)
        \<and> connlat_count v' =
            (case bpf_map_lookup_elem (connlat_accum cs) (current_pid pt) of
               None \<Rightarrow> 0 | Some v \<Rightarrow> connlat_count v) + 1)"
    by (elim conjE) (rule connect_pair)
next
  assume "current_pid pt \<noteq> 0
    \<and> has_room (inflight bs) \<lparr>rq_dev = ctx_dev bctx, rq_pad = pad, rq_sector =
        ctx_sector bctx\<rparr>
    \<and> has_room (iolat_hist bs) (current_pid pt)
    \<and> t2 - t1 \<noteq> 0"
  then show "(\<exists>v'. bpf_map_lookup_elem
           (iolat_hist (snd (handle_block_rq_complete bctx pad t2
              (snd (handle_block_rq_issue bctx pad pt t1 bs)))))
           (current_pid pt) = Some v'
        \<and> iolat_total_ns v' =
            (case bpf_map_lookup_elem (iolat_hist bs) (current_pid pt) of
               None \<Rightarrow> 0 | Some v \<Rightarrow> iolat_total_ns v) + (t2 - t1)
        \<and> iolat_count v' =
            (case bpf_map_lookup_elem (iolat_hist bs) (current_pid pt) of
               None \<Rightarrow> 0 | Some v \<Rightarrow> iolat_count v) + 1)"
    by (elim conjE) (rule block_rq_pair)
qed

text \<open>
  The theorem for process 7 on the empty tables of each probe, begin at 100 ns and end at
  350 ns: a record with total 250 and count 1.
\<close>

theorem C1_pair_gains_one_sample_witness:
  "(7 :: u32) \<noteq> 0
   \<and> has_room (rq_start rqlat_init) (7 :: u32)
   \<and> has_room (rqlat_accum rqlat_init) (7 :: u32)
   \<and> (350 :: u64) - (100 :: u64) \<le> 10000000000
   \<and> (\<exists>v'. bpf_map_lookup_elem
       (rqlat_accum (snd (handle_sched_switch_rqlat (7 :: u32) (350 :: u64)
          (snd (handle_sched_wakeup (7 :: u32) (100 :: u64) rqlat_init)))))
       (7 :: u32) = Some v'
     \<and> rqlat_total_ns v' = 250 \<and> rqlat_count v' = 1)
   \<and> futex_wait_op 0x80
   \<and> current_pid 0x700000000 \<noteq> 0
   \<and> has_room (futex_start lockwait_init) (current_pid 0x700000000)
   \<and> has_room (futex_accum lockwait_init) (current_pid 0x700000000)
   \<and> (350 :: u64) - (100 :: u64) \<noteq> 0
   \<and> (350 :: u64) - (100 :: u64) \<le> 30000000000
   \<and> (\<exists>v'. bpf_map_lookup_elem
       (futex_accum (snd (handle_futex_exit 0x700000000 (350 :: u64)
          (snd (handle_futex_enter 0x80 0x700000000 (100 :: u64) lockwait_init)))))
       (current_pid 0x700000000) = Some v'
     \<and> lock_total_wait_ns v' = 250 \<and> lock_count v' = 1)
   \<and> current_pid 0x700000000 \<noteq> 0
   \<and> has_room (pgfault_start pgfault_init) (current_pid 0x700000000)
   \<and> has_room (pgfault_accum pgfault_init) (current_pid 0x700000000)
   \<and> (350 :: u64) - (100 :: u64) \<le> 5000000000
   \<and> (\<exists>v'. bpf_map_lookup_elem
       (pgfault_accum (snd (handle_fault_exit 0 0x700000000 (350 :: u64)
          (snd (handle_fault_enter 0x700000000 (100 :: u64) pgfault_init)))))
       (current_pid 0x700000000) = Some v'
     \<and> pgfault_total_ns v' = 250 \<and> pgfault_count v' = 1)
   \<and> current_pid 0x700000000 \<noteq> 0
   \<and> has_room (sc_start syscall_init) (current_pid 0x700000000)
   \<and> has_room (sc_accum syscall_init) \<lparr>sc_pid = current_pid 0x700000000,
       sc_syscall_nr = ucast 1\<rparr>
   \<and> (350 :: u64) - (100 :: u64) \<le> 30000000000
   \<and> (\<exists>v'. bpf_map_lookup_elem
       (sc_accum (snd (handle_sys_exit 1 0x700000000 (350 :: u64)
          (snd (handle_sys_enter 0x700000000 (100 :: u64) syscall_init)))))
       \<lparr>sc_pid = current_pid 0x700000000, sc_syscall_nr = ucast 1\<rparr> = Some v'
     \<and> sc_total_ns v' = 250 \<and> sc_count v' = 1)
   \<and> current_pid 0x700000000 \<noteq> 0
   \<and> has_room (reclaim_start reclaim_init) (current_pid 0x700000000)
   \<and> has_room (reclaim_accum reclaim_init) (current_pid 0x700000000)
   \<and> (350 :: u64) - (100 :: u64) \<le> 30000000000
   \<and> (\<exists>v'. bpf_map_lookup_elem
       (reclaim_accum (snd (handle_reclaim_end 0x700000000 (350 :: u64)
          (snd (handle_reclaim_begin 0x700000000 (100 :: u64) reclaim_init)))))
       (current_pid 0x700000000) = Some v'
     \<and> reclaim_stall_ns v' = 250 \<and> reclaim_count v' = 1)
   \<and> current_pid 0x700000000 \<noteq> 0
   \<and> has_room (recv_inflight sockio_init) (current_pid 0x700000000)
   \<and> has_room (sockio_accum sockio_init) \<lparr>sockio_pid = current_pid 0x700000000,
       sockio_daddr = skc_daddr web_sock, sockio_dport = bswap16 (skc_dport web_sock),
       sockio_pad = 0\<rparr>
   \<and> (350 :: u64) - (100 :: u64) \<le> 30000000000
   \<and> (\<exists>v'. bpf_map_lookup_elem
       (sockio_accum (snd (handle_tcp_recvmsg_exit 0x700000000 (350 :: u64)
          (snd (handle_tcp_recvmsg_enter web_sock 0x700000000 (100 :: u64) sockio_init)))))
       \<lparr>sockio_pid = current_pid 0x700000000, sockio_daddr = skc_daddr web_sock,
           sockio_dport = bswap16 (skc_dport web_sock), sockio_pad = 0\<rparr> = Some v'
     \<and> sockio_recv_wait_ns v' = 250 \<and> sockio_recv_count v' = 1)
   \<and> 1 < (7 :: u32)
   \<and> 0 AND 0xff \<noteq> TASK_INTERRUPTIBLE
   \<and> (0 :: u32) \<noteq> (7 :: u32)
   \<and> (0 :: u32) \<noteq> (7 :: u32)
   \<and> has_room (offcpu_start offcpu_init) (7 :: u32)
   \<and> has_room (offcpu_accum (snd (handle_sched_switch (7 :: u32) 0 (0 :: u32) (100 :: u64)
       offcpu_init))) (7 :: u32)
   \<and> (100 :: u64) \<noteq> 0
   \<and> (350 :: u64) - (100 :: u64) < 30000000000
   \<and> (\<exists>v'. bpf_map_lookup_elem
       (offcpu_accum (snd (handle_sched_switch (0 :: u32) 0 (7 :: u32) (350 :: u64)
          (snd (handle_sched_switch (7 :: u32) 0 (0 :: u32) (100 :: u64) offcpu_init)))))
       (7 :: u32) = Some v'
     \<and> offcpu_total_ns v' = 250 \<and> offcpu_count v' = 1)
   \<and> current_pid 0x700000000 \<noteq> 0
   \<and> ctx_oldstate established_ctx = TCP_SYN_SENT
   \<and> ctx_newstate established_ctx = TCP_ESTABLISHED
   \<and> has_room (conn_inflight tcpconnlat_init) (ctx_skaddr established_ctx)
   \<and> has_room (connlat_accum tcpconnlat_init) (current_pid 0x700000000)
   \<and> (\<exists>v'. bpf_map_lookup_elem
       (connlat_accum (snd (handle_set_state established_ctx (350 :: u64)
          (snd (handle_tcp_v4_connect (ctx_skaddr established_ctx) 0x700000000 (100 :: u64)
              tcpconnlat_init)))))
       (current_pid 0x700000000) = Some v'
     \<and> connlat_total_ns v' = 250 \<and> connlat_count v' = 1)
   \<and> current_pid 0x700000000 \<noteq> 0
   \<and> has_room (inflight iolat_init) \<lparr>rq_dev = ctx_dev request_ctx, rq_pad = 0,
       rq_sector = ctx_sector request_ctx\<rparr>
   \<and> has_room (iolat_hist iolat_init) (current_pid 0x700000000)
   \<and> (350 :: u64) - (100 :: u64) \<noteq> 0
   \<and> (\<exists>v'. bpf_map_lookup_elem
       (iolat_hist (snd (handle_block_rq_complete request_ctx 0 (350 :: u64)
          (snd (handle_block_rq_issue request_ctx 0 0x700000000 (100 :: u64) iolat_init)))))
       (current_pid 0x700000000) = Some v'
     \<and> iolat_total_ns v' = 250 \<and> iolat_count v' = 1)"
proof -
  note r0 = C1_pair_gains_one_sample
    [where bctx = request_ctx and bs = iolat_init and cs = tcpconnlat_init and
           ctx_op = "0x80" and ds = reclaim_init and fs = lockwait_init and k = 7 and
           ks = sockio_init and next_pid = 0 and nr = 1 and os = offcpu_init and
           pad = 0 and prev_pid = 0 and prev_st = 0 and ?prev_st2.0 = 0 and
           ps = pgfault_init and pt = "0x700000000" and ret = 0 and rs = rqlat_init and
           sctx = established_ctx and sock = web_sock and ss = syscall_init and
           ?t1.0 = 100 and ?t2.0 = 350]
  note t1 = r0 [THEN conjunct1] and r1 = r0 [THEN conjunct2]
  have h1: "(7 :: u32) \<noteq> 0
      \<and> has_room (rq_start rqlat_init) (7 :: u32)
      \<and> has_room (rqlat_accum rqlat_init) (7 :: u32)
      \<and> (350 :: u64) - (100 :: u64) \<le> 10000000000"
    by (simp add: rqlat_init_def map_eval futex_wait_op_def FUTEX_WAIT_def
        TASK_INTERRUPTIBLE_def
          handle_sched_switch_def TCP_SYN_SENT_def TCP_ESTABLISHED_def established_ctx_def
          request_ctx_def web_sock_def)
  have e1: "bpf_map_lookup_elem (rqlat_accum rqlat_init) (7 :: u32) = None"
    by (simp add: rqlat_init_def map_eval futex_wait_op_def FUTEX_WAIT_def
        TASK_INTERRUPTIBLE_def
          handle_sched_switch_def TCP_SYN_SENT_def TCP_ESTABLISHED_def established_ctx_def
          request_ctx_def web_sock_def)
  from t1 [THEN mp, OF h1] e1
  have c1: "(\<exists>v'. bpf_map_lookup_elem
       (rqlat_accum (snd (handle_sched_switch_rqlat (7 :: u32) (350 :: u64)
          (snd (handle_sched_wakeup (7 :: u32) (100 :: u64) rqlat_init)))))
       (7 :: u32) = Some v'
     \<and> rqlat_total_ns v' = 250 \<and> rqlat_count v' = 1)"
    by simp
  note t2 = r1 [THEN conjunct1] and r2 = r1 [THEN conjunct2]
  have h2: "futex_wait_op 0x80
      \<and> current_pid 0x700000000 \<noteq> 0
      \<and> has_room (futex_start lockwait_init) (current_pid 0x700000000)
      \<and> has_room (futex_accum lockwait_init) (current_pid 0x700000000)
      \<and> (350 :: u64) - (100 :: u64) \<noteq> 0
      \<and> (350 :: u64) - (100 :: u64) \<le> 30000000000"
    by (simp add: lockwait_init_def map_eval futex_wait_op_def FUTEX_WAIT_def
        TASK_INTERRUPTIBLE_def
          handle_sched_switch_def TCP_SYN_SENT_def TCP_ESTABLISHED_def established_ctx_def
          request_ctx_def web_sock_def)
  have e2: "bpf_map_lookup_elem (futex_accum lockwait_init) (current_pid 0x700000000) = None"
    by (simp add: lockwait_init_def map_eval futex_wait_op_def FUTEX_WAIT_def
        TASK_INTERRUPTIBLE_def
          handle_sched_switch_def TCP_SYN_SENT_def TCP_ESTABLISHED_def established_ctx_def
          request_ctx_def web_sock_def)
  from t2 [THEN mp, OF h2] e2
  have c2: "(\<exists>v'. bpf_map_lookup_elem
       (futex_accum (snd (handle_futex_exit 0x700000000 (350 :: u64)
          (snd (handle_futex_enter 0x80 0x700000000 (100 :: u64) lockwait_init)))))
       (current_pid 0x700000000) = Some v'
     \<and> lock_total_wait_ns v' = 250 \<and> lock_count v' = 1)"
    by simp
  note t3 = r2 [THEN conjunct1] and r3 = r2 [THEN conjunct2]
  have h3: "current_pid 0x700000000 \<noteq> 0
      \<and> has_room (pgfault_start pgfault_init) (current_pid 0x700000000)
      \<and> has_room (pgfault_accum pgfault_init) (current_pid 0x700000000)
      \<and> (350 :: u64) - (100 :: u64) \<le> 5000000000"
    by (simp add: pgfault_init_def map_eval futex_wait_op_def FUTEX_WAIT_def
        TASK_INTERRUPTIBLE_def
          handle_sched_switch_def TCP_SYN_SENT_def TCP_ESTABLISHED_def established_ctx_def
          request_ctx_def web_sock_def)
  have e3: "bpf_map_lookup_elem (pgfault_accum pgfault_init) (current_pid 0x700000000) = None"
    by (simp add: pgfault_init_def map_eval futex_wait_op_def FUTEX_WAIT_def
        TASK_INTERRUPTIBLE_def
          handle_sched_switch_def TCP_SYN_SENT_def TCP_ESTABLISHED_def established_ctx_def
          request_ctx_def web_sock_def)
  from t3 [THEN mp, OF h3] e3
  have c3: "(\<exists>v'. bpf_map_lookup_elem
       (pgfault_accum (snd (handle_fault_exit 0 0x700000000 (350 :: u64)
          (snd (handle_fault_enter 0x700000000 (100 :: u64) pgfault_init)))))
       (current_pid 0x700000000) = Some v'
     \<and> pgfault_total_ns v' = 250 \<and> pgfault_count v' = 1)"
    by simp
  note t4 = r3 [THEN conjunct1] and r4 = r3 [THEN conjunct2]
  have h4: "current_pid 0x700000000 \<noteq> 0
      \<and> has_room (sc_start syscall_init) (current_pid 0x700000000)
      \<and> has_room (sc_accum syscall_init) \<lparr>sc_pid = current_pid 0x700000000,
          sc_syscall_nr = ucast 1\<rparr>
      \<and> (350 :: u64) - (100 :: u64) \<le> 30000000000"
    by (simp add: syscall_init_def map_eval futex_wait_op_def FUTEX_WAIT_def
        TASK_INTERRUPTIBLE_def
          handle_sched_switch_def TCP_SYN_SENT_def TCP_ESTABLISHED_def established_ctx_def
          request_ctx_def web_sock_def)
  have e4: "bpf_map_lookup_elem (sc_accum syscall_init) \<lparr>sc_pid = current_pid
      0x700000000, sc_syscall_nr = ucast 1\<rparr> = None"
    by (simp add: syscall_init_def map_eval futex_wait_op_def FUTEX_WAIT_def
        TASK_INTERRUPTIBLE_def
          handle_sched_switch_def TCP_SYN_SENT_def TCP_ESTABLISHED_def established_ctx_def
          request_ctx_def web_sock_def)
  from t4 [THEN mp, OF h4] e4
  have c4: "(\<exists>v'. bpf_map_lookup_elem
       (sc_accum (snd (handle_sys_exit 1 0x700000000 (350 :: u64)
          (snd (handle_sys_enter 0x700000000 (100 :: u64) syscall_init)))))
       \<lparr>sc_pid = current_pid 0x700000000, sc_syscall_nr = ucast 1\<rparr> = Some v'
     \<and> sc_total_ns v' = 250 \<and> sc_count v' = 1)"
    by simp
  note t5 = r4 [THEN conjunct1] and r5 = r4 [THEN conjunct2]
  have h5: "current_pid 0x700000000 \<noteq> 0
      \<and> has_room (reclaim_start reclaim_init) (current_pid 0x700000000)
      \<and> has_room (reclaim_accum reclaim_init) (current_pid 0x700000000)
      \<and> (350 :: u64) - (100 :: u64) \<le> 30000000000"
    by (simp add: reclaim_init_def map_eval futex_wait_op_def FUTEX_WAIT_def
        TASK_INTERRUPTIBLE_def
          handle_sched_switch_def TCP_SYN_SENT_def TCP_ESTABLISHED_def established_ctx_def
          request_ctx_def web_sock_def)
  have e5: "bpf_map_lookup_elem (reclaim_accum reclaim_init) (current_pid 0x700000000) = None"
    by (simp add: reclaim_init_def map_eval futex_wait_op_def FUTEX_WAIT_def
        TASK_INTERRUPTIBLE_def
          handle_sched_switch_def TCP_SYN_SENT_def TCP_ESTABLISHED_def established_ctx_def
          request_ctx_def web_sock_def)
  from t5 [THEN mp, OF h5] e5
  have c5: "(\<exists>v'. bpf_map_lookup_elem
       (reclaim_accum (snd (handle_reclaim_end 0x700000000 (350 :: u64)
          (snd (handle_reclaim_begin 0x700000000 (100 :: u64) reclaim_init)))))
       (current_pid 0x700000000) = Some v'
     \<and> reclaim_stall_ns v' = 250 \<and> reclaim_count v' = 1)"
    by simp
  note t6 = r5 [THEN conjunct1] and r6 = r5 [THEN conjunct2]
  have h6: "current_pid 0x700000000 \<noteq> 0
      \<and> has_room (recv_inflight sockio_init) (current_pid 0x700000000)
      \<and> has_room (sockio_accum sockio_init) \<lparr>sockio_pid = current_pid 0x700000000,
          sockio_daddr = skc_daddr web_sock, sockio_dport = bswap16 (skc_dport web_sock),
          sockio_pad = 0\<rparr>
      \<and> (350 :: u64) - (100 :: u64) \<le> 30000000000"
    by (simp add: sockio_init_def map_eval futex_wait_op_def FUTEX_WAIT_def
        TASK_INTERRUPTIBLE_def
          handle_sched_switch_def TCP_SYN_SENT_def TCP_ESTABLISHED_def established_ctx_def
          request_ctx_def web_sock_def)
  have e6: "bpf_map_lookup_elem (sockio_accum sockio_init) \<lparr>sockio_pid = current_pid
      0x700000000, sockio_daddr = skc_daddr web_sock, sockio_dport = bswap16 (skc_dport
      web_sock), sockio_pad = 0\<rparr> = None"
    by (simp add: sockio_init_def map_eval futex_wait_op_def FUTEX_WAIT_def
        TASK_INTERRUPTIBLE_def
          handle_sched_switch_def TCP_SYN_SENT_def TCP_ESTABLISHED_def established_ctx_def
          request_ctx_def web_sock_def)
  from t6 [THEN mp, OF h6] e6
  have c6: "(\<exists>v'. bpf_map_lookup_elem
       (sockio_accum (snd (handle_tcp_recvmsg_exit 0x700000000 (350 :: u64)
          (snd (handle_tcp_recvmsg_enter web_sock 0x700000000 (100 :: u64) sockio_init)))))
       \<lparr>sockio_pid = current_pid 0x700000000, sockio_daddr = skc_daddr web_sock,
           sockio_dport = bswap16 (skc_dport web_sock), sockio_pad = 0\<rparr> = Some v'
     \<and> sockio_recv_wait_ns v' = 250 \<and> sockio_recv_count v' = 1)"
    by simp
  note t7 = r6 [THEN conjunct1] and r7 = r6 [THEN conjunct2]
  have h7: "1 < (7 :: u32)
      \<and> 0 AND 0xff \<noteq> TASK_INTERRUPTIBLE
      \<and> (0 :: u32) \<noteq> (7 :: u32)
      \<and> (0 :: u32) \<noteq> (7 :: u32)
      \<and> has_room (offcpu_start offcpu_init) (7 :: u32)
      \<and> has_room (offcpu_accum (snd (handle_sched_switch (7 :: u32) 0 (0 :: u32) (100 ::
          u64) offcpu_init))) (7 :: u32)
      \<and> (100 :: u64) \<noteq> 0
      \<and> (350 :: u64) - (100 :: u64) < 30000000000"
    by (simp add: offcpu_init_def map_eval futex_wait_op_def FUTEX_WAIT_def
        TASK_INTERRUPTIBLE_def
          handle_sched_switch_def TCP_SYN_SENT_def TCP_ESTABLISHED_def established_ctx_def
          request_ctx_def web_sock_def)
  have e7: "bpf_map_lookup_elem (offcpu_accum offcpu_init) (7 :: u32) = None"
    by (simp add: offcpu_init_def map_eval futex_wait_op_def FUTEX_WAIT_def
        TASK_INTERRUPTIBLE_def
          handle_sched_switch_def TCP_SYN_SENT_def TCP_ESTABLISHED_def established_ctx_def
          request_ctx_def web_sock_def)
  from t7 [THEN mp, OF h7] e7
  have c7: "(\<exists>v'. bpf_map_lookup_elem
       (offcpu_accum (snd (handle_sched_switch (0 :: u32) 0 (7 :: u32) (350 :: u64)
          (snd (handle_sched_switch (7 :: u32) 0 (0 :: u32) (100 :: u64) offcpu_init)))))
       (7 :: u32) = Some v'
     \<and> offcpu_total_ns v' = 250 \<and> offcpu_count v' = 1)"
    by simp
  note t8 = r7 [THEN conjunct1] and r8 = r7 [THEN conjunct2]
  have h8: "current_pid 0x700000000 \<noteq> 0
      \<and> ctx_oldstate established_ctx = TCP_SYN_SENT
      \<and> ctx_newstate established_ctx = TCP_ESTABLISHED
      \<and> has_room (conn_inflight tcpconnlat_init) (ctx_skaddr established_ctx)
      \<and> has_room (connlat_accum tcpconnlat_init) (current_pid 0x700000000)"
    by (simp add: tcpconnlat_init_def map_eval futex_wait_op_def FUTEX_WAIT_def
        TASK_INTERRUPTIBLE_def
          handle_sched_switch_def TCP_SYN_SENT_def TCP_ESTABLISHED_def established_ctx_def
          request_ctx_def web_sock_def)
  have e8: "bpf_map_lookup_elem (connlat_accum tcpconnlat_init) (current_pid 0x700000000) =
      None"
    by (simp add: tcpconnlat_init_def map_eval futex_wait_op_def FUTEX_WAIT_def
        TASK_INTERRUPTIBLE_def
          handle_sched_switch_def TCP_SYN_SENT_def TCP_ESTABLISHED_def established_ctx_def
          request_ctx_def web_sock_def)
  from t8 [THEN mp, OF h8] e8
  have c8: "(\<exists>v'. bpf_map_lookup_elem
       (connlat_accum (snd (handle_set_state established_ctx (350 :: u64)
          (snd (handle_tcp_v4_connect (ctx_skaddr established_ctx) 0x700000000 (100 :: u64)
              tcpconnlat_init)))))
       (current_pid 0x700000000) = Some v'
     \<and> connlat_total_ns v' = 250 \<and> connlat_count v' = 1)"
    by simp
  note t9 = r8
  have h9: "current_pid 0x700000000 \<noteq> 0
      \<and> has_room (inflight iolat_init) \<lparr>rq_dev = ctx_dev request_ctx, rq_pad = 0,
          rq_sector = ctx_sector request_ctx\<rparr>
      \<and> has_room (iolat_hist iolat_init) (current_pid 0x700000000)
      \<and> (350 :: u64) - (100 :: u64) \<noteq> 0"
    by (simp add: iolat_init_def map_eval futex_wait_op_def FUTEX_WAIT_def
        TASK_INTERRUPTIBLE_def
          handle_sched_switch_def TCP_SYN_SENT_def TCP_ESTABLISHED_def established_ctx_def
          request_ctx_def web_sock_def)
  have e9: "bpf_map_lookup_elem (iolat_hist iolat_init) (current_pid 0x700000000) = None"
    by (simp add: iolat_init_def map_eval futex_wait_op_def FUTEX_WAIT_def
        TASK_INTERRUPTIBLE_def
          handle_sched_switch_def TCP_SYN_SENT_def TCP_ESTABLISHED_def established_ctx_def
          request_ctx_def web_sock_def)
  from t9 [THEN mp, OF h9] e9
  have c9: "(\<exists>v'. bpf_map_lookup_elem
       (iolat_hist (snd (handle_block_rq_complete request_ctx 0 (350 :: u64)
          (snd (handle_block_rq_issue request_ctx 0 0x700000000 (100 :: u64) iolat_init)))))
       (current_pid 0x700000000) = Some v'
     \<and> iolat_total_ns v' = 250 \<and> iolat_count v' = 1)"
    by simp
  from h1 c1 h2 c2 h3 c3 h4 c4 h5 c5 h6 c6 h7 c7 h8 c8 h9 c9
  show ?thesis
    by simp
qed

text \<open>
  The claim as the specification states it fails in lockwait.c: a futex wait that begins
  and ends at the same clock value has duration 0, below the ceiling, and adds no sample.
\<close>

theorem C1_zero_wait_counterexample:
  "futex_wait_op 0x80 \<and> current_pid 0x700000000 = 7
   \<and> has_room (futex_start lockwait_init) 7 \<and> has_room (futex_accum lockwait_init) 7
   \<and> (100 :: u64) - 100 \<le> 30000000000
   \<and> bpf_map_lookup_elem (futex_accum lockwait_init) 7 = None
   \<and> bpf_map_lookup_elem
        (futex_start (snd (handle_futex_enter 0x80 0x700000000 100 lockwait_init))) 7 = Some 100
   \<and> bpf_map_lookup_elem
        (futex_accum (snd (handle_futex_exit 0x700000000 100
                            (snd (handle_futex_enter 0x80 0x700000000 100 lockwait_init))))) 7
       = None"
  by (simp add: handle_futex_exit_def handle_futex_enter_def lockwait_init_def map_eval
        futex_wait_op_def FUTEX_WAIT_def FUTEX_WAIT_BITSET_def FUTEX_LOCK_PI_def)

section \<open>Claim C2: the staleness guard\<close>

text \<open>
  Claim C2, as the probes have it. The handlers that define a ceiling apply it before they
  merge: runqlat.c (10 s), pgfault.c (5 s), syscalldissect.c, lockwait.c, directreclaim.c
  and the receive wait of sockio.c (30 s) discard a pair whose duration is above the
  ceiling, and offcpu.c discards a pair whose duration is 30 s or more. The pairing entry
  is consumed and the accumulation table is left as it was: no record is created or
  changed. tcpconnlat.c and iolatency.c define no ceiling.
\<close>

theorem C2_stale_pair_discarded:
  "(k \<noteq> 0 \<and> bpf_map_lookup_elem (rq_start rs) k = Some ts \<and> now - ts > 10000000000 \<longrightarrow>
      handle_sched_switch_rqlat k now rs =
        (0, rs\<lparr>rq_start := snd (bpf_map_delete_elem (rq_start rs) k)\<rparr>))
   \<and> (current_pid pt \<noteq> 0 \<and> bpf_map_lookup_elem (pgfault_start ps) (current_pid pt) = Some ts
        \<and> now - ts > 5000000000 \<longrightarrow>
      handle_fault_exit ret pt now ps =
        (0, ps\<lparr>pgfault_start :=
               snd (bpf_map_delete_elem (pgfault_start ps) (current_pid pt))\<rparr>))
   \<and> (current_pid pt \<noteq> 0 \<and> bpf_map_lookup_elem (sc_start ss) (current_pid pt) = Some ts
        \<and> now - ts > 30000000000 \<longrightarrow>
      handle_sys_exit nr pt now ss =
        (0, ss\<lparr>sc_start := snd (bpf_map_delete_elem (sc_start ss) (current_pid pt))\<rparr>))
   \<and> (current_pid pt \<noteq> 0 \<and> bpf_map_lookup_elem (futex_start fs) (current_pid pt) = Some ts
        \<and> now - ts > 30000000000 \<longrightarrow>
      handle_futex_exit pt now fs =
        (0, fs\<lparr>futex_start :=
               snd (bpf_map_delete_elem (futex_start fs) (current_pid pt))\<rparr>))
   \<and> (current_pid pt \<noteq> 0 \<and> bpf_map_lookup_elem (reclaim_start ds) (current_pid pt) = Some ts
        \<and> now - ts > 30000000000 \<longrightarrow>
      handle_reclaim_end pt now ds =
        (0, ds\<lparr>reclaim_start :=
               snd (bpf_map_delete_elem (reclaim_start ds) (current_pid pt))\<rparr>))
   \<and> (current_pid pt \<noteq> 0 \<and> bpf_map_lookup_elem (recv_inflight ks) (current_pid pt) = Some r
        \<and> now - recv_ts r > 30000000000 \<longrightarrow>
      handle_tcp_recvmsg_exit pt now ks =
        (0, ks\<lparr>recv_inflight :=
               snd (bpf_map_delete_elem (recv_inflight ks) (current_pid pt))\<rparr>))
   \<and> (1 < next_pid \<and> prev_pid \<noteq> next_pid
        \<and> bpf_map_lookup_elem (offcpu_start os) next_pid = Some ots \<and> 0 < ots
        \<and> 30000000000 \<le> onow - ots \<longrightarrow>
      offcpu_accum (snd (handle_sched_switch prev_pid prev_st next_pid onow os))
        = offcpu_accum os
      \<and> bpf_map_lookup_elem
          (offcpu_start (snd (handle_sched_switch prev_pid prev_st next_pid onow os)))
          next_pid = None)"
proof (intro conjI impI)
  assume "k \<noteq> 0 \<and> bpf_map_lookup_elem (rq_start rs) k = Some ts \<and> now - ts > 10000000000"
  then show "handle_sched_switch_rqlat k now rs =
        (0, rs\<lparr>rq_start := snd (bpf_map_delete_elem (rq_start rs) k)\<rparr>)"
    by (simp add: rqlat_stale)
next
  assume "current_pid pt \<noteq> 0 \<and> bpf_map_lookup_elem (pgfault_start ps) (current_pid pt) = Some ts
        \<and> now - ts > 5000000000"
  then show "handle_fault_exit ret pt now ps =
        (0, ps\<lparr>pgfault_start :=
               snd (bpf_map_delete_elem (pgfault_start ps) (current_pid pt))\<rparr>)"
    by (simp add: fault_stale)
next
  assume "current_pid pt \<noteq> 0 \<and> bpf_map_lookup_elem (sc_start ss) (current_pid pt) = Some ts
        \<and> now - ts > 30000000000"
  then show "handle_sys_exit nr pt now ss =
        (0, ss\<lparr>sc_start := snd (bpf_map_delete_elem (sc_start ss) (current_pid pt))\<rparr>)"
    by (simp add: sys_exit_stale)
next
  assume "current_pid pt \<noteq> 0 \<and> bpf_map_lookup_elem (futex_start fs) (current_pid pt) = Some ts
        \<and> now - ts > 30000000000"
  then show "handle_futex_exit pt now fs =
        (0, fs\<lparr>futex_start :=
               snd (bpf_map_delete_elem (futex_start fs) (current_pid pt))\<rparr>)"
    by (simp add: futex_exit_stale)
next
  assume "current_pid pt \<noteq> 0 \<and> bpf_map_lookup_elem (reclaim_start ds) (current_pid pt) = Some ts
        \<and> now - ts > 30000000000"
  then show "handle_reclaim_end pt now ds =
        (0, ds\<lparr>reclaim_start :=
               snd (bpf_map_delete_elem (reclaim_start ds) (current_pid pt))\<rparr>)"
    by (simp add: reclaim_end_stale)
next
  assume "current_pid pt \<noteq> 0 \<and> bpf_map_lookup_elem (recv_inflight ks) (current_pid pt) = Some r
        \<and> now - recv_ts r > 30000000000"
  then show "handle_tcp_recvmsg_exit pt now ks =
        (0, ks\<lparr>recv_inflight :=
               snd (bpf_map_delete_elem (recv_inflight ks) (current_pid pt))\<rparr>)"
    by (simp add: recvmsg_exit_stale)
next
  assume a: "1 < next_pid \<and> prev_pid \<noteq> next_pid
        \<and> bpf_map_lookup_elem (offcpu_start os) next_pid = Some ots \<and> 0 < ots
        \<and> 30000000000 \<le> onow - ots"
  then show "offcpu_accum (snd (handle_sched_switch prev_pid prev_st next_pid onow os))
        = offcpu_accum os"
    using sched_switch_stale [of next_pid prev_pid os ots onow prev_st] by blast
  from a show "bpf_map_lookup_elem
          (offcpu_start (snd (handle_sched_switch prev_pid prev_st next_pid onow os)))
          next_pid = None"
    using sched_switch_stale [of next_pid prev_pid os ots onow prev_st] by blast
qed

text \<open>
  The scenario of the specification on every probe with a ceiling: key 7, begin at 0,
  end at 31 000 000 000 ns. Each state is the one its begin handler leaves from the empty
  tables.
\<close>

theorem C2_stale_pair_discarded_witness:
  "handle_sched_switch_rqlat 7 31000000000 (snd (handle_sched_wakeup 7 0 rqlat_init))
     = (0, rqlat_init)
   \<and> handle_fault_exit 0 0x700000000 31000000000
        (snd (handle_fault_enter 0x700000000 0 pgfault_init)) = (0, pgfault_init)
   \<and> handle_sys_exit 1 0x700000000 31000000000
        (snd (handle_sys_enter 0x700000000 0 syscall_init)) = (0, syscall_init)
   \<and> handle_futex_exit 0x700000000 31000000000
        (snd (handle_futex_enter 0x80 0x700000000 0 lockwait_init)) = (0, lockwait_init)
   \<and> handle_reclaim_end 0x700000000 31000000000
        (snd (handle_reclaim_begin 0x700000000 0 reclaim_init)) = (0, reclaim_init)
   \<and> handle_tcp_recvmsg_exit 0x700000000 31000000000
        (snd (handle_tcp_recvmsg_enter \<lparr>skc_daddr = 0x0100007F, skc_dport = 0x5000\<rparr>
               0x700000000 0 sockio_init)) = (0, sockio_init)
   \<and> offcpu_accum (snd (handle_sched_switch 9 0 7 31000000001
                           (snd (handle_sched_switch 7 0 9 1 offcpu_init))))
       = offcpu_accum offcpu_init"
proof -
  let ?rs = "snd (handle_sched_wakeup 7 0 rqlat_init)"
  let ?ps = "snd (handle_fault_enter 0x700000000 0 pgfault_init)"
  let ?ss = "snd (handle_sys_enter 0x700000000 0 syscall_init)"
  let ?fs = "snd (handle_futex_enter 0x80 0x700000000 0 lockwait_init)"
  let ?ds = "snd (handle_reclaim_begin 0x700000000 0 reclaim_init)"
  let ?ks = "snd (handle_tcp_recvmsg_enter \<lparr>skc_daddr = 0x0100007F, skc_dport = 0x5000\<rparr>
               0x700000000 0 sockio_init)"
  let ?os = "snd (handle_sched_switch 7 0 9 1 offcpu_init)"
  let ?r = "\<lparr>recv_ts = 0, recv_daddr = 0x0100007F, recv_dport = bswap16 0x5000,
             recv_pad = 0\<rparr>"
  have h: "(7 :: u32) \<noteq> 0 \<and> bpf_map_lookup_elem (rq_start ?rs) 7 = Some 0
      \<and> (31000000000 :: u64) - 0 > 10000000000
      \<and> current_pid 0x700000000 \<noteq> 0
      \<and> bpf_map_lookup_elem (pgfault_start ?ps) (current_pid 0x700000000) = Some 0
      \<and> (31000000000 :: u64) - 0 > 5000000000
      \<and> bpf_map_lookup_elem (sc_start ?ss) (current_pid 0x700000000) = Some 0
      \<and> (31000000000 :: u64) - 0 > 30000000000
      \<and> bpf_map_lookup_elem (futex_start ?fs) (current_pid 0x700000000) = Some 0
      \<and> bpf_map_lookup_elem (reclaim_start ?ds) (current_pid 0x700000000) = Some 0
      \<and> bpf_map_lookup_elem (recv_inflight ?ks) (current_pid 0x700000000) = Some ?r
      \<and> (31000000000 :: u64) - recv_ts ?r > 30000000000
      \<and> (1 :: u32) < 7 \<and> (9 :: u32) \<noteq> 7
      \<and> bpf_map_lookup_elem (offcpu_start ?os) 7 = Some 1 \<and> (0 :: u64) < 1
      \<and> (30000000000 :: u64) \<le> 31000000001 - 1"
    by (simp add: handle_sched_wakeup_def handle_fault_enter_def handle_sys_enter_def
          handle_futex_enter_def handle_reclaim_begin_def handle_tcp_recvmsg_enter_def
          handle_sched_switch_def rqlat_init_def pgfault_init_def syscall_init_def
          lockwait_init_def reclaim_init_def sockio_init_def offcpu_init_def map_eval
          FUTEX_WAIT_def TASK_INTERRUPTIBLE_def)
  have os: "offcpu_accum ?os = offcpu_accum offcpu_init"
    by (simp add: handle_sched_switch_def offcpu_init_def map_eval TASK_INTERRUPTIBLE_def)
  from h C2_stale_pair_discarded
    [where k = 7 and rs = "?rs" and ts = 0 and now = 31000000000 and pt = "0x700000000"
       and ps = "?ps" and ret = 0 and ss = "?ss" and nr = 1 and fs = "?fs" and ds = "?ds"
       and ks = "?ks" and r = "?r" and next_pid = 7 and prev_pid = 9 and os = "?os"
       and ots = 1 and onow = 31000000001 and prev_st = 0]
  show ?thesis
    by (simp add: handle_sched_wakeup_def handle_fault_enter_def handle_sys_enter_def
          handle_futex_enter_def handle_reclaim_begin_def handle_tcp_recvmsg_enter_def
          rqlat_init_def pgfault_init_def syscall_init_def
          lockwait_init_def reclaim_init_def sockio_init_def map_eval
          FUTEX_WAIT_def os)
qed

text \<open>
  The claim as the specification states it fails in tcpconnlat.c, which has no ceiling: a
  connection attempt at 0 that is established at 31 000 000 000 ns is merged into the
  record of its process.
\<close>

theorem C2_connect_latency_counterexample:
  "bpf_map_lookup_elem (connlat_accum tcpconnlat_init) 7 = None
   \<and> bpf_map_lookup_elem
       (connlat_accum
         (snd (handle_set_state
                 \<lparr>ctx_skaddr = 0xFFFF888000001000, ctx_oldstate = 2, ctx_newstate = 1,
                   ctx_sport = 40000, ctx_dport = 80, ctx_family = 2,
                   ctx_daddr = 0x0100007F\<rparr>
                 31000000000
                 (snd (handle_tcp_v4_connect 0xFFFF888000001000 0x700000000 0
                         tcpconnlat_init))))) 7
     = Some \<lparr>connlat_total_ns = 31000000000, connlat_count = 1, connlat_max_ns = 0xFFFFFFFF,
              connlat_last_pid = 7, connlat_daddr = 0x0100007F\<rparr>"
  by (simp add: handle_set_state_def handle_tcp_v4_connect_def tcpconnlat_init_def map_eval
        TCP_SYN_SENT_def TCP_ESTABLISHED_def)

section \<open>Claim C3: a table at capacity\<close>



section \<open>Claim C4: the histogram bucketer\<close>

text \<open>
  Claim C4. The bucketer \<^const>\<open>log2_slot\<close> computes the halving count of the
  specification (\<^const>\<open>histogram_bucket\<close>: halve while the value is greater than 1, at
  most 15 times); it maps 0 and 1 to bucket 0, 2 to bucket 1 and 4 to bucket 2; it is
  non-decreasing in its argument; and its result never exceeds 15.
\<close>

theorem C4_log2_slot_buckets:
  "log2_slot 0 = 0 \<and> log2_slot 1 = 0 \<and> log2_slot 2 = 1 \<and> log2_slot 4 = 2
   \<and> (\<forall>us. unat (log2_slot us) = histogram_bucket (unat us))
   \<and> (\<forall>x y. x \<le> y \<longrightarrow> log2_slot x \<le> log2_slot y)
   \<and> (\<forall>us. log2_slot us \<le> 15)"
proof -
  have v0: "log2_slot 0 = 0"
    by (rule word_unat_eq_iff [THEN iffD2])
       (simp add: log2_slot_unat histogram_bucket_def halvings_numeral)
  have v1: "log2_slot 1 = 0"
    by (rule word_unat_eq_iff [THEN iffD2])
       (simp add: log2_slot_unat histogram_bucket_def halvings_numeral)
  have v2: "log2_slot 2 = 1"
    by (rule word_unat_eq_iff [THEN iffD2])
       (simp add: log2_slot_unat histogram_bucket_def halvings_numeral)
  have v4: "log2_slot 4 = 2"
    by (rule word_unat_eq_iff [THEN iffD2])
       (simp add: log2_slot_unat histogram_bucket_def halvings_numeral)
  have mono: "\<forall>x y. x \<le> y \<longrightarrow> log2_slot x \<le> log2_slot y"
    by (simp add: word_le_nat_alt log2_slot_unat histogram_bucket_mono)
  have bound: "\<forall>us. log2_slot us \<le> 15"
    by (simp add: word_le_nat_alt log2_slot_unat histogram_bucket_def)
  from v0 v1 v2 v4 mono bound show ?thesis
    by (simp add: log2_slot_unat)
qed

text \<open>The theorem at 1000 and 40000 microseconds: buckets 9 and 15.\<close>

theorem C4_log2_slot_buckets_witness:
  "(1000 :: u64) \<le> 40000 \<and> log2_slot 1000 = 9 \<and> log2_slot 40000 = 15
   \<and> log2_slot 1000 \<le> log2_slot 40000"
proof -
  have a: "log2_slot 1000 = 9"
    by (simp add: log2_slot_def HIST_SLOTS_def log2_slot_loop_numeral drop_bit_eq_div)
  have b: "log2_slot 40000 = 15"
    by (simp add: log2_slot_def HIST_SLOTS_def log2_slot_loop_numeral drop_bit_eq_div)
  have c: "(1000 :: u64) \<le> 40000"
    by simp
  from C4_log2_slot_buckets have "log2_slot 1000 \<le> log2_slot 40000"
    using c by blast
  with a b c show ?thesis
    by simp
qed

section \<open>Claim C5: an end without a begin\<close>

text \<open>
  Claim C5. When the pairing table holds no entry for the key of an end event, the handler
  returns 0 and leaves the pairing table and the accumulation table exactly as they were.
  This holds for every key and every clock value, in each of the end handlers (for
  offcpu.c, whose handler is also the begin of the task switched out, when that half is
  filtered).
\<close>

theorem C5_end_without_begin_is_noop:
  "(bpf_map_lookup_elem (rq_start rs) k = None \<longrightarrow> handle_sched_switch_rqlat k t rs = (0, rs))
   \<and> (bpf_map_lookup_elem (sc_start ss) (current_pid pt) = None \<longrightarrow>
        handle_sys_exit nr pt t ss = (0, ss))
   \<and> (bpf_map_lookup_elem (futex_start fs) (current_pid pt) = None \<longrightarrow>
        handle_futex_exit pt t fs = (0, fs))
   \<and> (bpf_map_lookup_elem (pgfault_start ps) (current_pid pt) = None \<longrightarrow>
        handle_fault_exit ret pt t ps = (0, ps))
   \<and> (bpf_map_lookup_elem (reclaim_start ds) (current_pid pt) = None \<longrightarrow>
        handle_reclaim_end pt t ds = (0, ds))
   \<and> (bpf_map_lookup_elem (recv_inflight ks) (current_pid pt) = None \<longrightarrow>
        handle_tcp_recvmsg_exit pt t ks = (0, ks))
   \<and> (bpf_map_lookup_elem (conn_inflight cs) (ctx_skaddr sctx) = None \<longrightarrow>
        handle_set_state sctx t cs = (0, cs))
   \<and> (bpf_map_lookup_elem (inflight bs)
          \<lparr>rq_dev = ctx_dev bctx, rq_pad = pad, rq_sector = ctx_sector bctx\<rparr> = None \<longrightarrow>
        handle_block_rq_complete bctx pad t bs = (0, bs))
   \<and> (\<not> 1 < prev_pid \<and> bpf_map_lookup_elem (offcpu_start os) next_pid = None \<longrightarrow>
        handle_sched_switch prev_pid prev_st next_pid t os = (0, os))"
  by (simp add: rqlat_end_without_begin sys_exit_without_begin futex_exit_without_begin
        fault_exit_without_begin reclaim_end_without_begin recvmsg_exit_without_begin
        set_state_without_begin rq_complete_without_begin sched_switch_without_begin)

text \<open>The theorem on the empty tables, for the process 7 at 500 ns.\<close>

theorem C5_end_without_begin_is_noop_witness:
  "bpf_map_lookup_elem (rq_start rqlat_init) 7 = None
   \<and> handle_sched_switch_rqlat 7 500 rqlat_init = (0, rqlat_init)
   \<and> bpf_map_lookup_elem (sc_start syscall_init) (current_pid 0x700000000) = None
   \<and> handle_sys_exit 1 0x700000000 500 syscall_init = (0, syscall_init)
   \<and> bpf_map_lookup_elem (futex_start lockwait_init) (current_pid 0x700000000) = None
   \<and> handle_futex_exit 0x700000000 500 lockwait_init = (0, lockwait_init)
   \<and> bpf_map_lookup_elem (pgfault_start pgfault_init) (current_pid 0x700000000) = None
   \<and> handle_fault_exit 0 0x700000000 500 pgfault_init = (0, pgfault_init)
   \<and> bpf_map_lookup_elem (reclaim_start reclaim_init) (current_pid 0x700000000) = None
   \<and> handle_reclaim_end 0x700000000 500 reclaim_init = (0, reclaim_init)
   \<and> bpf_map_lookup_elem (recv_inflight sockio_init) (current_pid 0x700000000) = None
   \<and> handle_tcp_recvmsg_exit 0x700000000 500 sockio_init = (0, sockio_init)
   \<and> bpf_map_lookup_elem (conn_inflight tcpconnlat_init) 0xFFFF888000001000 = None
   \<and> handle_set_state
        \<lparr>ctx_skaddr = 0xFFFF888000001000, ctx_oldstate = 2, ctx_newstate = 1,
          ctx_sport = 40000, ctx_dport = 80, ctx_family = 2, ctx_daddr = 0x0100007F\<rparr>
        500 tcpconnlat_init = (0, tcpconnlat_init)
   \<and> bpf_map_lookup_elem (inflight iolat_init) \<lparr>rq_dev = 8, rq_pad = 0, rq_sector = 2048\<rparr> = None
   \<and> handle_block_rq_complete \<lparr>ctx_dev = 8, ctx_sector = 2048\<rparr> 0 500 iolat_init
        = (0, iolat_init)
   \<and> \<not> (1 :: u32) < 0
   \<and> bpf_map_lookup_elem (offcpu_start offcpu_init) 7 = None
   \<and> handle_sched_switch 0 0 7 500 offcpu_init = (0, offcpu_init)"
proof -
  have h: "bpf_map_lookup_elem (rq_start rqlat_init) 7 = None
     \<and> bpf_map_lookup_elem (sc_start syscall_init) (current_pid 0x700000000) = None
     \<and> bpf_map_lookup_elem (futex_start lockwait_init) (current_pid 0x700000000) = None
     \<and> bpf_map_lookup_elem (pgfault_start pgfault_init) (current_pid 0x700000000) = None
     \<and> bpf_map_lookup_elem (reclaim_start reclaim_init) (current_pid 0x700000000) = None
     \<and> bpf_map_lookup_elem (recv_inflight sockio_init) (current_pid 0x700000000) = None
     \<and> bpf_map_lookup_elem (conn_inflight tcpconnlat_init) 0xFFFF888000001000 = None
     \<and> bpf_map_lookup_elem (inflight iolat_init) \<lparr>rq_dev = 8, rq_pad = 0, rq_sector = 2048\<rparr> = None
     \<and> \<not> (1 :: u32) < 0
     \<and> bpf_map_lookup_elem (offcpu_start offcpu_init) 7 = None"
    by (simp add: rqlat_init_def syscall_init_def lockwait_init_def pgfault_init_def
          reclaim_init_def sockio_init_def tcpconnlat_init_def iolat_init_def offcpu_init_def
          bpf_map_lookup_elem_def empty_map_def)
  from h C5_end_without_begin_is_noop
    [where rs = rqlat_init and k = 7 and t = 500 and ss = syscall_init
       and pt = "0x700000000" and nr = 1 and fs = lockwait_init and ps = pgfault_init
       and ret = 0 and ds = reclaim_init and ks = sockio_init and cs = tcpconnlat_init
       and sctx = "\<lparr>ctx_skaddr = 0xFFFF888000001000, ctx_oldstate = 2, ctx_newstate = 1,
          ctx_sport = 40000, ctx_dport = 80, ctx_family = 2, ctx_daddr = 0x0100007F\<rparr>"
       and bs = iolat_init and pad = 0 and bctx = "\<lparr>ctx_dev = 8, ctx_sector = 2048\<rparr>"
       and prev_pid = 0 and os = offcpu_init and next_pid = 7 and prev_st = 0]
  show ?thesis
    by simp
qed

section \<open>Claim C6: the last begin wins\<close>

text \<open>
  Claim C6. A begin for a key overwrites the pairing entry of that key: two begins at
  \<open>t1\<close> and then \<open>t2\<close> with no end between them leave the same state as the begin at
  \<open>t2\<close> alone, so nothing of \<open>t1\<close> remains. With room for the key the entry holds
  \<open>t2\<close>, and an end at \<open>t3\<close> then adds one sample of duration \<open>t3 - t2\<close> (for the run
  queue within its ceiling, for the connection latency on the transition from SYN_SENT to
  ESTABLISHED).
\<close>

theorem C6_last_begin_wins:
  "handle_sched_wakeup k t2 (snd (handle_sched_wakeup k t1 rs)) = handle_sched_wakeup k t2 rs
   \<and> (k \<noteq> 0 \<and> has_room (rq_start rs) k \<longrightarrow>
        bpf_map_lookup_elem
          (rq_start (snd (handle_sched_wakeup k t2 (snd (handle_sched_wakeup k t1 rs))))) k
        = Some t2)
   \<and> (k \<noteq> 0 \<and> has_room (rq_start rs) k \<and> has_room (rqlat_accum rs) k
        \<and> t3 - t2 \<le> 10000000000 \<longrightarrow>
        (\<exists>v'. bpf_map_lookup_elem
                 (rqlat_accum (snd (handle_sched_switch_rqlat k t3
                    (snd (handle_sched_wakeup k t2 (snd (handle_sched_wakeup k t1 rs)))))))
                 k = Some v'
              \<and> rqlat_total_ns v' =
                  (case bpf_map_lookup_elem (rqlat_accum rs) k of
                     None \<Rightarrow> 0 | Some v \<Rightarrow> rqlat_total_ns v) + (t3 - t2)
              \<and> rqlat_count v' =
                  (case bpf_map_lookup_elem (rqlat_accum rs) k of
                     None \<Rightarrow> 0 | Some v \<Rightarrow> rqlat_count v) + 1))
   \<and> (current_pid pt2 \<noteq> 0 \<longrightarrow>
        handle_tcp_v4_connect sk pt2 t2 (snd (handle_tcp_v4_connect sk pt1 t1 cs))
          = handle_tcp_v4_connect sk pt2 t2 cs)
   \<and> (current_pid pt2 \<noteq> 0 \<and> has_room (conn_inflight cs) sk \<longrightarrow>
        bpf_map_lookup_elem
          (conn_inflight (snd (handle_tcp_v4_connect sk pt2 t2
                                 (snd (handle_tcp_v4_connect sk pt1 t1 cs))))) sk
        = Some \<lparr>conn_ts = t2, conn_pid = current_pid pt2\<rparr>)
   \<and> (current_pid pt2 \<noteq> 0 \<and> has_room (conn_inflight cs) sk
        \<and> has_room (connlat_accum cs) (current_pid pt2)
        \<and> ctx_skaddr ctx = sk \<and> ctx_oldstate ctx = TCP_SYN_SENT
        \<and> ctx_newstate ctx = TCP_ESTABLISHED \<longrightarrow>
        (\<exists>v'. bpf_map_lookup_elem
                 (connlat_accum (snd (handle_set_state ctx t3
                    (snd (handle_tcp_v4_connect sk pt2 t2
                            (snd (handle_tcp_v4_connect sk pt1 t1 cs)))))))
                 (current_pid pt2) = Some v'
              \<and> connlat_total_ns v' =
                  (case bpf_map_lookup_elem (connlat_accum cs) (current_pid pt2) of
                     None \<Rightarrow> 0 | Some v \<Rightarrow> connlat_total_ns v) + (t3 - t2)
              \<and> connlat_count v' =
                  (case bpf_map_lookup_elem (connlat_accum cs) (current_pid pt2) of
                     None \<Rightarrow> 0 | Some v \<Rightarrow> connlat_count v) + 1))"
proof (intro conjI impI)
  show "handle_sched_wakeup k t2 (snd (handle_sched_wakeup k t1 rs)) = handle_sched_wakeup k t2 rs"
    by (rule wakeup_twice)
next
  assume "k \<noteq> 0 \<and> has_room (rq_start rs) k"
  then show "bpf_map_lookup_elem
          (rq_start (snd (handle_sched_wakeup k t2 (snd (handle_sched_wakeup k t1 rs))))) k
        = Some t2"
    by (simp add: wakeup_twice wakeup_lookup)
next
  assume "k \<noteq> 0 \<and> has_room (rq_start rs) k \<and> has_room (rqlat_accum rs) k
        \<and> t3 - t2 \<le> 10000000000"
  then show "\<exists>v'. bpf_map_lookup_elem
                 (rqlat_accum (snd (handle_sched_switch_rqlat k t3
                    (snd (handle_sched_wakeup k t2 (snd (handle_sched_wakeup k t1 rs)))))))
                 k = Some v'
              \<and> rqlat_total_ns v' =
                  (case bpf_map_lookup_elem (rqlat_accum rs) k of
                     None \<Rightarrow> 0 | Some v \<Rightarrow> rqlat_total_ns v) + (t3 - t2)
              \<and> rqlat_count v' =
                  (case bpf_map_lookup_elem (rqlat_accum rs) k of
                     None \<Rightarrow> 0 | Some v \<Rightarrow> rqlat_count v) + 1"
    using rqlat_pair [of k rs t3 t2] by (simp add: wakeup_twice)
next
  assume "current_pid pt2 \<noteq> 0"
  then show "handle_tcp_v4_connect sk pt2 t2 (snd (handle_tcp_v4_connect sk pt1 t1 cs))
          = handle_tcp_v4_connect sk pt2 t2 cs"
    by (rule connect_twice)
next
  assume "current_pid pt2 \<noteq> 0 \<and> has_room (conn_inflight cs) sk"
  then show "bpf_map_lookup_elem
          (conn_inflight (snd (handle_tcp_v4_connect sk pt2 t2
                                 (snd (handle_tcp_v4_connect sk pt1 t1 cs))))) sk
        = Some \<lparr>conn_ts = t2, conn_pid = current_pid pt2\<rparr>"
    by (simp add: connect_twice connect_lookup)
next
  assume a: "current_pid pt2 \<noteq> 0 \<and> has_room (conn_inflight cs) sk
        \<and> has_room (connlat_accum cs) (current_pid pt2)
        \<and> ctx_skaddr ctx = sk \<and> ctx_oldstate ctx = TCP_SYN_SENT
        \<and> ctx_newstate ctx = TCP_ESTABLISHED"
  let ?cs2 = "snd (handle_tcp_v4_connect sk pt2 t2 cs)"
  from a have b: "bpf_map_lookup_elem (conn_inflight ?cs2) (ctx_skaddr ctx)
      = Some \<lparr>conn_ts = t2, conn_pid = current_pid pt2\<rparr>"
    by (simp add: connect_lookup)
  from a have "\<exists>v'. bpf_map_lookup_elem
                 (connlat_accum (snd (handle_set_state ctx t3 ?cs2)))
                 (current_pid pt2) = Some v'
              \<and> connlat_total_ns v' =
                  (case bpf_map_lookup_elem (connlat_accum cs) (current_pid pt2) of
                     None \<Rightarrow> 0 | Some v \<Rightarrow> connlat_total_ns v) + (t3 - t2)
              \<and> connlat_count v' =
                  (case bpf_map_lookup_elem (connlat_accum cs) (current_pid pt2) of
                     None \<Rightarrow> 0 | Some v \<Rightarrow> connlat_count v) + 1"
    by (auto simp: set_state_lookup [of ctx ?cs2, OF _ _ b] connect_accum has_room_lookup
          split: option.splits)
  with a show "\<exists>v'. bpf_map_lookup_elem
                 (connlat_accum (snd (handle_set_state ctx t3
                    (snd (handle_tcp_v4_connect sk pt2 t2
                            (snd (handle_tcp_v4_connect sk pt1 t1 cs)))))))
                 (current_pid pt2) = Some v'
              \<and> connlat_total_ns v' =
                  (case bpf_map_lookup_elem (connlat_accum cs) (current_pid pt2) of
                     None \<Rightarrow> 0 | Some v \<Rightarrow> connlat_total_ns v) + (t3 - t2)
              \<and> connlat_count v' =
                  (case bpf_map_lookup_elem (connlat_accum cs) (current_pid pt2) of
                     None \<Rightarrow> 0 | Some v \<Rightarrow> connlat_count v) + 1"
    by (simp add: connect_twice)
qed

text \<open>
  The theorem for process 7 on the empty tables: begins at 100 and 200 ns, end at 350 ns.
  The sample is 150 ns, not 250 ns.
\<close>

theorem C6_last_begin_wins_witness:
  "bpf_map_lookup_elem
     (rq_start (snd (handle_sched_wakeup 7 200 (snd (handle_sched_wakeup 7 100 rqlat_init)))))
     7 = Some 200
   \<and> (\<exists>v'. bpf_map_lookup_elem
              (rqlat_accum (snd (handle_sched_switch_rqlat 7 350
                 (snd (handle_sched_wakeup 7 200 (snd (handle_sched_wakeup 7 100 rqlat_init)))))))
              7 = Some v'
            \<and> rqlat_total_ns v' = 150 \<and> rqlat_count v' = 1)
   \<and> bpf_map_lookup_elem
       (conn_inflight (snd (handle_tcp_v4_connect 0xFFFF888000001000 0x700000000 200
          (snd (handle_tcp_v4_connect 0xFFFF888000001000 0x700000000 100 tcpconnlat_init)))))
       0xFFFF888000001000
      = Some \<lparr>conn_ts = 200, conn_pid = 7\<rparr>
   \<and> (\<exists>v'. bpf_map_lookup_elem
              (connlat_accum (snd (handle_set_state
                 \<lparr>ctx_skaddr = 0xFFFF888000001000, ctx_oldstate = 2, ctx_newstate = 1,
                   ctx_sport = 40000, ctx_dport = 80, ctx_family = 2,
                   ctx_daddr = 0x0100007F\<rparr> 350
                 (snd (handle_tcp_v4_connect 0xFFFF888000001000 0x700000000 200
                    (snd (handle_tcp_v4_connect 0xFFFF888000001000 0x700000000 100
                            tcpconnlat_init)))))))
              7 = Some v'
            \<and> connlat_total_ns v' = 150 \<and> connlat_count v' = 1)"
proof -
  have h: "(7 :: u32) \<noteq> 0 \<and> has_room (rq_start rqlat_init) 7
      \<and> has_room (rqlat_accum rqlat_init) 7 \<and> (350 :: u64) - 200 \<le> 10000000000
      \<and> current_pid 0x700000000 = 7
      \<and> has_room (conn_inflight tcpconnlat_init) 0xFFFF888000001000
      \<and> has_room (connlat_accum tcpconnlat_init) 7
      \<and> bpf_map_lookup_elem (rqlat_accum rqlat_init) 7 = None
      \<and> bpf_map_lookup_elem (connlat_accum tcpconnlat_init) 7 = None"
    by (simp add: rqlat_init_def tcpconnlat_init_def map_eval)
  from h C6_last_begin_wins
    [where k = 7 and rs = rqlat_init and ?t1.0 = 100 and ?t2.0 = 200 and ?t3.0 = 350
       and ?pt1.0 = "0x700000000" and ?pt2.0 = "0x700000000"
       and sk = "0xFFFF888000001000" and cs = tcpconnlat_init
       and ctx = "\<lparr>ctx_skaddr = 0xFFFF888000001000, ctx_oldstate = 2, ctx_newstate = 1,
                   ctx_sport = 40000, ctx_dport = 80, ctx_family = 2,
                   ctx_daddr = 0x0100007F\<rparr>"]
  show ?thesis
    apply -
    apply (elim conjE)
    apply (simp add: TCP_SYN_SENT_def TCP_ESTABLISHED_def)
    done
qed

section \<open>Claim C7: the 32-bit maximum saturates\<close>



section \<open>Claim C8: the keys\<close>

text \<open>
  Claim C8, as the probes have it. Every handler of every probe changes no entry of a
  table other than the one under the key it builds, and the key is a packing of
  fixed-width values of the event: this is \<open>touches_only\<close>, stated below for each
  handler and each table of its probe, with the key written out. A thread group id is the
  upper 32 bits of \<^verbatim>\<open>bpf_get_current_pid_tgid()\<close>, so two events have the
  same process key exactly when those bits agree. The ports of sockio.c and tcprtt.c are
  byte-swapped into the key, and the swap loses nothing. Two keys are not what the claim
  asks for. The key of modload.c is the first 8 bytes of the 56-byte name buffer and
  nothing else: two module names have the same key exactly when their buffers agree in
  those 8 bytes. The key of iolatency.c holds, between device and sector, 4 bytes that the
  handlers do not write: when they differ at the two events, the completion of a request
  does not find the entry of its issue and, no other entry being under its own key,
  changes nothing.
\<close>

theorem C8_keys_of_events:
  "touches_only {k}
       (rq_start rs)
       (rq_start (snd (handle_sched_wakeup k ts rs)))
   \<and> touches_only {}
       (rqlat_accum rs)
       (rqlat_accum (snd (handle_sched_wakeup k ts rs)))
   \<and> touches_only {k}
       (rq_start rs)
       (rq_start (snd (handle_sched_switch_rqlat k now rs)))
   \<and> touches_only {k}
       (rqlat_accum rs)
       (rqlat_accum (snd (handle_sched_switch_rqlat k now rs)))
   \<and> touches_only {current_pid pt}
       (futex_start fs)
       (futex_start (snd (handle_futex_enter ctx_op pt ts fs)))
   \<and> touches_only {}
       (futex_accum fs)
       (futex_accum (snd (handle_futex_enter ctx_op pt ts fs)))
   \<and> touches_only {current_pid pt}
       (futex_start fs)
       (futex_start (snd (handle_futex_exit pt now fs)))
   \<and> touches_only {current_pid pt}
       (futex_accum fs)
       (futex_accum (snd (handle_futex_exit pt now fs)))
   \<and> touches_only {current_pid pt}
       (pgfault_start ps)
       (pgfault_start (snd (handle_fault_enter pt ts ps)))
   \<and> touches_only {}
       (pgfault_accum ps)
       (pgfault_accum (snd (handle_fault_enter pt ts ps)))
   \<and> touches_only {current_pid pt}
       (pgfault_start ps)
       (pgfault_start (snd (handle_fault_exit ret pt now ps)))
   \<and> touches_only {current_pid pt}
       (pgfault_accum ps)
       (pgfault_accum (snd (handle_fault_exit ret pt now ps)))
   \<and> touches_only {current_pid pt}
       (sc_start ss)
       (sc_start (snd (handle_sys_enter pt ts ss)))
   \<and> touches_only {}
       (sc_accum ss)
       (sc_accum (snd (handle_sys_enter pt ts ss)))
   \<and> touches_only {current_pid pt}
       (sc_start ss)
       (sc_start (snd (handle_sys_exit nr pt now ss)))
   \<and> touches_only {\<lparr>sc_pid = current_pid pt, sc_syscall_nr = ucast nr\<rparr>}
       (sc_accum ss)
       (sc_accum (snd (handle_sys_exit nr pt now ss)))
   \<and> touches_only {current_pid pt}
       (reclaim_start ds)
       (reclaim_start (snd (handle_reclaim_begin pt ts ds)))
   \<and> touches_only {}
       (reclaim_accum ds)
       (reclaim_accum (snd (handle_reclaim_begin pt ts ds)))
   \<and> touches_only {current_pid pt}
       (reclaim_start ds)
       (reclaim_start (snd (handle_reclaim_end pt now ds)))
   \<and> touches_only {current_pid pt}
       (reclaim_accum ds)
       (reclaim_accum (snd (handle_reclaim_end pt now ds)))
   \<and> touches_only {prev_pid, next_pid}
       (offcpu_start os)
       (offcpu_start (snd (handle_sched_switch prev_pid prev_st next_pid now os)))
   \<and> touches_only {next_pid}
       (offcpu_accum os)
       (offcpu_accum (snd (handle_sched_switch prev_pid prev_st next_pid now os)))
   \<and> touches_only {sk}
       (conn_inflight cs)
       (conn_inflight (snd (handle_tcp_v4_connect sk pt ts cs)))
   \<and> touches_only {}
       (connlat_accum cs)
       (connlat_accum (snd (handle_tcp_v4_connect sk pt ts cs)))
   \<and> touches_only {ctx_skaddr sctx}
       (conn_inflight cs)
       (conn_inflight (snd (handle_set_state sctx now cs)))
   \<and> touches_only (case bpf_map_lookup_elem (conn_inflight cs) (ctx_skaddr sctx) of
            None \<Rightarrow> {} | Some start \<Rightarrow> {conn_pid start})
       (connlat_accum cs)
       (connlat_accum (snd (handle_set_state sctx now cs)))
   \<and> touches_only {\<lparr>rq_dev = ctx_dev bctx, rq_pad = pad, rq_sector = ctx_sector
       bctx\<rparr>}
       (inflight bs)
       (inflight (snd (handle_block_rq_issue bctx pad pt now bs)))
   \<and> touches_only {}
       (iolat_hist bs)
       (iolat_hist (snd (handle_block_rq_issue bctx pad pt now bs)))
   \<and> touches_only {\<lparr>rq_dev = ctx_dev bctx, rq_pad = pad, rq_sector = ctx_sector
       bctx\<rparr>}
       (inflight bs)
       (inflight (snd (handle_block_rq_complete bctx pad now bs)))
   \<and> touches_only (case bpf_map_lookup_elem (inflight bs) \<lparr>rq_dev = ctx_dev bctx,
       rq_pad = pad, rq_sector = ctx_sector bctx\<rparr> of
            None \<Rightarrow> {} | Some start \<Rightarrow> {rq_pid start})
       (iolat_hist bs)
       (iolat_hist (snd (handle_block_rq_complete bctx pad now bs)))
   \<and> touches_only {}
       (recv_inflight ks)
       (recv_inflight (snd (handle_tcp_sendmsg sock sz pt ks)))
   \<and> touches_only {\<lparr>sockio_pid = current_pid pt, sockio_daddr = skc_daddr sock,
       sockio_dport = bswap16 (skc_dport sock), sockio_pad = 0\<rparr>}
       (sockio_accum ks)
       (sockio_accum (snd (handle_tcp_sendmsg sock sz pt ks)))
   \<and> touches_only {}
       (recv_inflight ks)
       (recv_inflight (snd (handle_tcp_cleanup_rbuf sock copied pt ks)))
   \<and> touches_only {\<lparr>sockio_pid = current_pid pt, sockio_daddr = skc_daddr sock,
       sockio_dport = bswap16 (skc_dport sock), sockio_pad = 0\<rparr>}
       (sockio_accum ks)
       (sockio_accum (snd (handle_tcp_cleanup_rbuf sock copied pt ks)))
   \<and> touches_only {current_pid pt}
       (recv_inflight ks)
       (recv_inflight (snd (handle_tcp_recvmsg_enter sock pt now ks)))
   \<and> touches_only {}
       (sockio_accum ks)
       (sockio_accum (snd (handle_tcp_recvmsg_enter sock pt now ks)))
   \<and> touches_only {current_pid pt}
       (recv_inflight ks)
       (recv_inflight (snd (handle_tcp_recvmsg_exit pt now ks)))
   \<and> touches_only (case bpf_map_lookup_elem (recv_inflight ks) (current_pid pt) of
            None \<Rightarrow> {}
          | Some r \<Rightarrow> {\<lparr>sockio_pid = current_pid pt, sockio_daddr =
              recv_daddr r, sockio_dport = recv_dport r, sockio_pad = 0\<rparr>})
       (sockio_accum ks)
       (sockio_accum (snd (handle_tcp_recvmsg_exit pt now ks)))
   \<and> touches_only {mod_key (mod_name_buf modname)}
       mm
       (snd (handle_do_init_module modname now mm))
   \<and> touches_only {\<lparr>tracer_pid = current_pid pt, target_pid = ucast (ctx_pid
       pctx)\<rparr>}
       pm
       (snd (handle_sys_enter_ptrace pctx pt comm now pm))
   \<and> touches_only {current_pid pt}
       em
       (snd (handle_sched_process_exec pt ug ppid comm fname now em))
   \<and> touches_only {\<lparr>key_oldstate = ucast (ctx_oldstate sctx), key_newstate = ucast
       (ctx_newstate sctx)\<rparr>}
       sm
       (snd (handle_sock_set_state sctx sm))
   \<and> touches_only {cgid}
       tm
       (snd (handle_throttle_cfs_rq cgid tm))
   \<and> touches_only {reason}
       dm
       (snd (handle_kfree_skb reason dm))
   \<and> touches_only {current_pid pt}
       nm
       (snd (net_handle_tcp_sendmsg sz pt nm))
   \<and> touches_only {current_pid pt}
       nm
       (snd (net_handle_tcp_cleanup_rbuf copied pt nm))
   \<and> touches_only {k}
       om
       (snd (handle_mark_victim k now om))
   \<and> touches_only {current_pid pt}
       wm
       (snd (handle_swap_readpage pt wm))
   \<and> touches_only {current_pid pt}
       wm
       (snd (handle_swap_writepage pt wm))
   \<and> touches_only {current_pid pt}
       xm
       (snd (handle_tcp_send_reset sock pt xm))
   \<and> touches_only {current_pid pt}
       ym
       (snd (handle_tcp_retransmit rctx pt ym))
   \<and> touches_only {\<lparr>rtt_daddr = skc_daddr sock, rtt_dport = bswap16 (skc_dport
       sock), rtt_pad = 0\<rparr>}
       zm
       (snd (handle_tcp_rcv_established sock srtt_us pt zm))
   \<and> touches_only {current_pid pt}
       bm
       (snd (handle_writeback_wait nr_pages pt bm))
   \<and> (bswap16 port = bswap16 other_port) = (port = other_port)
   \<and> bswap16 (bswap16 port) = port
   \<and> (current_pid pt = current_pid other_pt) = (drop_bit 32 pt = drop_bit 32 other_pt)
   \<and> (mod_key (mod_name_buf modname) = mod_key (mod_name_buf other_name))
       = (take 8 (mod_name_buf modname) = take 8 (mod_name_buf other_name))
   \<and> (other_pad \<noteq> pad
        \<and> bpf_map_lookup_elem (inflight bs)
              \<lparr>rq_dev = ctx_dev bctx, rq_pad = other_pad, rq_sector = ctx_sector
                  bctx\<rparr> = None
      \<longrightarrow> handle_block_rq_complete bctx other_pad now
            (snd (handle_block_rq_issue bctx pad pt ts bs))
          = (0, snd (handle_block_rq_issue bctx pad pt ts bs)))"
  by (intro conjI)
     (rule wakeup_touches_rq_start, rule wakeup_touches_rqlat_accum,
      rule switch_rqlat_touches_rq_start, rule switch_rqlat_touches_rqlat_accum,
      rule futex_enter_touches_futex_start, rule futex_enter_touches_futex_accum,
      rule futex_exit_touches_futex_start, rule futex_exit_touches_futex_accum,
      rule fault_enter_touches_pgfault_start, rule fault_enter_touches_pgfault_accum,
      rule fault_exit_touches_pgfault_start, rule fault_exit_touches_pgfault_accum,
      rule sys_enter_touches_sc_start, rule sys_enter_touches_sc_accum,
      rule sys_exit_touches_sc_start, rule sys_exit_touches_sc_accum,
      rule reclaim_begin_touches_reclaim_start,
      rule reclaim_begin_touches_reclaim_accum, rule reclaim_end_touches_reclaim_start,
      rule reclaim_end_touches_reclaim_accum, rule sched_switch_touches_offcpu_start,
      rule sched_switch_touches_offcpu_accum, rule connect_touches_conn_inflight,
      rule connect_touches_connlat_accum, rule set_state_touches_conn_inflight,
      rule set_state_touches_connlat_accum, rule rq_issue_touches_inflight,
      rule rq_issue_touches_iolat_hist, rule rq_complete_touches_inflight,
      rule rq_complete_touches_iolat_hist, rule sendmsg_touches_recv_inflight,
      rule sendmsg_touches_sockio_accum, rule cleanup_rbuf_touches_recv_inflight,
      rule cleanup_rbuf_touches_sockio_accum, rule recvmsg_enter_touches_recv_inflight,
      rule recvmsg_enter_touches_sockio_accum, rule recvmsg_exit_touches_recv_inflight,
      rule recvmsg_exit_touches_sockio_accum, rule init_module_touches_table,
      rule ptrace_touches_table, rule exec_touches_table,
      rule sock_set_state_touches_table, rule throttle_touches_table,
      rule kfree_skb_touches_table, rule net_sendmsg_touches_table,
      rule net_cleanup_rbuf_touches_table, rule mark_victim_touches_table,
      rule swap_readpage_touches_table, rule swap_writepage_touches_table,
      rule send_reset_touches_table, rule retransmit_touches_table,
      rule rcv_established_touches_table, rule writeback_wait_touches_table,
      rule bswap16_inj, rule bswap16_bswap16, rule current_pid_eq_iff,
      rule mod_key_of_names, rule rq_complete_other_pad)

text \<open>
  The theorem on the tables with two entries: the entry of the other key is what it was
  after the handler has run for the event of process 7. The ports 80 and 8080 stay
  distinct when swapped; two threads of process 7 have the same key; the modules
  \<^verbatim>\<open>nf_tables\<close> and \<^verbatim>\<open>nf_conntrack\<close> differ within their first 8 bytes; a completion
  whose padding bytes hold 1 does not find the request issued with padding bytes 0.
\<close>

theorem C8_keys_of_events_witness:
  "(9 :: u32) \<notin> {7}
   \<and> bpf_map_lookup_elem
       (rq_start (snd (handle_sched_wakeup 7 300 two_rqlat)))
       (9 :: u32)
     = Some 120
   \<and> (7 :: u32) \<notin> {}
   \<and> bpf_map_lookup_elem
       (rqlat_accum (snd (handle_sched_wakeup 7 300 two_rqlat)))
       (7 :: u32)
     = Some \<lparr>rqlat_total_ns = 10, rqlat_count = 1, rqlat_max_ns = 10\<rparr>
   \<and> (9 :: u32) \<notin> {7}
   \<and> bpf_map_lookup_elem
       (rq_start (snd (handle_sched_switch_rqlat 7 350 two_rqlat)))
       (9 :: u32)
     = Some 120
   \<and> (9 :: u32) \<notin> {7}
   \<and> bpf_map_lookup_elem
       (rqlat_accum (snd (handle_sched_switch_rqlat 7 350 two_rqlat)))
       (9 :: u32)
     = Some \<lparr>rqlat_total_ns = 50, rqlat_count = 5, rqlat_max_ns = 20\<rparr>
   \<and> (9 :: u32) \<notin> {current_pid 0x700000000}
   \<and> bpf_map_lookup_elem
       (futex_start (snd (handle_futex_enter 0x80 0x700000000 300 two_lockwait)))
       (9 :: u32)
     = Some 120
   \<and> (7 :: u32) \<notin> {}
   \<and> bpf_map_lookup_elem
       (futex_accum (snd (handle_futex_enter 0x80 0x700000000 300 two_lockwait)))
       (7 :: u32)
     = Some \<lparr>lock_total_wait_ns = 10, lock_count = 1\<rparr>
   \<and> (9 :: u32) \<notin> {current_pid 0x700000000}
   \<and> bpf_map_lookup_elem
       (futex_start (snd (handle_futex_exit 0x700000000 350 two_lockwait)))
       (9 :: u32)
     = Some 120
   \<and> (9 :: u32) \<notin> {current_pid 0x700000000}
   \<and> bpf_map_lookup_elem
       (futex_accum (snd (handle_futex_exit 0x700000000 350 two_lockwait)))
       (9 :: u32)
     = Some \<lparr>lock_total_wait_ns = 50, lock_count = 5\<rparr>
   \<and> (9 :: u32) \<notin> {current_pid 0x700000000}
   \<and> bpf_map_lookup_elem
       (pgfault_start (snd (handle_fault_enter 0x700000000 300 two_pgfault)))
       (9 :: u32)
     = Some 120
   \<and> (7 :: u32) \<notin> {}
   \<and> bpf_map_lookup_elem
       (pgfault_accum (snd (handle_fault_enter 0x700000000 300 two_pgfault)))
       (7 :: u32)
     = Some \<lparr>pgfault_total_ns = 10, pgfault_count = 1, pgfault_major_count = 1\<rparr>
   \<and> (9 :: u32) \<notin> {current_pid 0x700000000}
   \<and> bpf_map_lookup_elem
       (pgfault_start (snd (handle_fault_exit 4 0x700000000 350 two_pgfault)))
       (9 :: u32)
     = Some 120
   \<and> (9 :: u32) \<notin> {current_pid 0x700000000}
   \<and> bpf_map_lookup_elem
       (pgfault_accum (snd (handle_fault_exit 4 0x700000000 350 two_pgfault)))
       (9 :: u32)
     = Some \<lparr>pgfault_total_ns = 50, pgfault_count = 5, pgfault_major_count = 5\<rparr>
   \<and> (9 :: u32) \<notin> {current_pid 0x700000000}
   \<and> bpf_map_lookup_elem
       (sc_start (snd (handle_sys_enter 0x700000000 300 two_syscall)))
       (9 :: u32)
     = Some 120
   \<and> \<lparr>sc_pid = 7, sc_syscall_nr = 1\<rparr> \<notin> {}
   \<and> bpf_map_lookup_elem
       (sc_accum (snd (handle_sys_enter 0x700000000 300 two_syscall)))
       \<lparr>sc_pid = 7, sc_syscall_nr = 1\<rparr>
     = Some \<lparr>sc_total_ns = 10, sc_count = 1, sc_max_ns = 10\<rparr>
   \<and> (9 :: u32) \<notin> {current_pid 0x700000000}
   \<and> bpf_map_lookup_elem
       (sc_start (snd (handle_sys_exit 1 0x700000000 350 two_syscall)))
       (9 :: u32)
     = Some 120
   \<and> \<lparr>sc_pid = 9, sc_syscall_nr = 1\<rparr> \<notin> {\<lparr>sc_pid = current_pid
       0x700000000, sc_syscall_nr = ucast 1\<rparr>}
   \<and> bpf_map_lookup_elem
       (sc_accum (snd (handle_sys_exit 1 0x700000000 350 two_syscall)))
       \<lparr>sc_pid = 9, sc_syscall_nr = 1\<rparr>
     = Some \<lparr>sc_total_ns = 50, sc_count = 5, sc_max_ns = 20\<rparr>
   \<and> (9 :: u32) \<notin> {current_pid 0x700000000}
   \<and> bpf_map_lookup_elem
       (reclaim_start (snd (handle_reclaim_begin 0x700000000 300 two_reclaim)))
       (9 :: u32)
     = Some 120
   \<and> (7 :: u32) \<notin> {}
   \<and> bpf_map_lookup_elem
       (reclaim_accum (snd (handle_reclaim_begin 0x700000000 300 two_reclaim)))
       (7 :: u32)
     = Some \<lparr>reclaim_stall_ns = 10, reclaim_count = 1\<rparr>
   \<and> (9 :: u32) \<notin> {current_pid 0x700000000}
   \<and> bpf_map_lookup_elem
       (reclaim_start (snd (handle_reclaim_end 0x700000000 350 two_reclaim)))
       (9 :: u32)
     = Some 120
   \<and> (9 :: u32) \<notin> {current_pid 0x700000000}
   \<and> bpf_map_lookup_elem
       (reclaim_accum (snd (handle_reclaim_end 0x700000000 350 two_reclaim)))
       (9 :: u32)
     = Some \<lparr>reclaim_stall_ns = 50, reclaim_count = 5\<rparr>
   \<and> (9 :: u32) \<notin> {3, 7}
   \<and> bpf_map_lookup_elem
       (offcpu_start (snd (handle_sched_switch 3 0 7 350 two_offcpu)))
       (9 :: u32)
     = Some 120
   \<and> (9 :: u32) \<notin> {7}
   \<and> bpf_map_lookup_elem
       (offcpu_accum (snd (handle_sched_switch 3 0 7 350 two_offcpu)))
       (9 :: u32)
     = Some \<lparr>offcpu_total_ns = 50, offcpu_count = 5\<rparr>
   \<and> (0xFFFF888000002000 :: u64) \<notin> {0xFFFF888000001000}
   \<and> bpf_map_lookup_elem
       (conn_inflight (snd (handle_tcp_v4_connect 0xFFFF888000001000 0x700000000 300
           two_tcpconnlat)))
       (0xFFFF888000002000 :: u64)
     = Some \<lparr>conn_ts = 120, conn_pid = 9\<rparr>
   \<and> (7 :: u32) \<notin> {}
   \<and> bpf_map_lookup_elem
       (connlat_accum (snd (handle_tcp_v4_connect 0xFFFF888000001000 0x700000000 300
           two_tcpconnlat)))
       (7 :: u32)
     = Some \<lparr>connlat_total_ns = 10, connlat_count = 1, connlat_max_ns = 10,
         connlat_last_pid = 7, connlat_daddr = 0x0100007F\<rparr>
   \<and> (0xFFFF888000002000 :: u64) \<notin> {ctx_skaddr established_ctx}
   \<and> bpf_map_lookup_elem
       (conn_inflight (snd (handle_set_state established_ctx 350 two_tcpconnlat)))
       (0xFFFF888000002000 :: u64)
     = Some \<lparr>conn_ts = 120, conn_pid = 9\<rparr>
   \<and> (9 :: u32) \<notin> (case bpf_map_lookup_elem (conn_inflight two_tcpconnlat)
       (ctx_skaddr established_ctx) of
            None \<Rightarrow> {} | Some start \<Rightarrow> {conn_pid start})
   \<and> bpf_map_lookup_elem
       (connlat_accum (snd (handle_set_state established_ctx 350 two_tcpconnlat)))
       (9 :: u32)
     = Some \<lparr>connlat_total_ns = 50, connlat_count = 5, connlat_max_ns = 20,
         connlat_last_pid = 9, connlat_daddr = 0x0100007F\<rparr>
   \<and> \<lparr>rq_dev = 0x800010, rq_pad = 0, rq_sector = 4096\<rparr> \<notin>
       {\<lparr>rq_dev = ctx_dev request_ctx, rq_pad = 0, rq_sector = ctx_sector
       request_ctx\<rparr>}
   \<and> bpf_map_lookup_elem
       (inflight (snd (handle_block_rq_issue request_ctx 0 0x700000000 350 two_iolat)))
       \<lparr>rq_dev = 0x800010, rq_pad = 0, rq_sector = 4096\<rparr>
     = Some \<lparr>rq_pid = 9, rq_start_ns = 120\<rparr>
   \<and> (7 :: u32) \<notin> {}
   \<and> bpf_map_lookup_elem
       (iolat_hist (snd (handle_block_rq_issue request_ctx 0 0x700000000 350 two_iolat)))
       (7 :: u32)
     = Some \<lparr>iolat_total_ns = 10, iolat_max_ns = 10, iolat_count = 1, iolat_slots = 1 #
         replicate 15 0, iolat_dev = 0x800010\<rparr>
   \<and> \<lparr>rq_dev = 0x800010, rq_pad = 0, rq_sector = 4096\<rparr> \<notin>
       {\<lparr>rq_dev = ctx_dev request_ctx, rq_pad = 0, rq_sector = ctx_sector
       request_ctx\<rparr>}
   \<and> bpf_map_lookup_elem
       (inflight (snd (handle_block_rq_complete request_ctx 0 350 two_iolat)))
       \<lparr>rq_dev = 0x800010, rq_pad = 0, rq_sector = 4096\<rparr>
     = Some \<lparr>rq_pid = 9, rq_start_ns = 120\<rparr>
   \<and> (9 :: u32) \<notin> (case bpf_map_lookup_elem (inflight two_iolat) \<lparr>rq_dev =
       ctx_dev request_ctx, rq_pad = 0, rq_sector = ctx_sector request_ctx\<rparr> of
            None \<Rightarrow> {} | Some start \<Rightarrow> {rq_pid start})
   \<and> bpf_map_lookup_elem
       (iolat_hist (snd (handle_block_rq_complete request_ctx 0 350 two_iolat)))
       (9 :: u32)
     = Some \<lparr>iolat_total_ns = 50, iolat_max_ns = 20, iolat_count = 5, iolat_slots = 5 #
         replicate 15 0, iolat_dev = 0x800010\<rparr>
   \<and> (7 :: u32) \<notin> {}
   \<and> bpf_map_lookup_elem
       (recv_inflight (snd (handle_tcp_sendmsg web_sock 1448 0x700000000 two_sockio)))
       (7 :: u32)
     = Some \<lparr>recv_ts = 100, recv_daddr = 0x0100007F, recv_dport = 80, recv_pad =
         0\<rparr>
   \<and> \<lparr>sockio_pid = 9, sockio_daddr = 0x0100007F, sockio_dport = 80, sockio_pad =
       0\<rparr> \<notin> {\<lparr>sockio_pid = current_pid 0x700000000, sockio_daddr =
       skc_daddr web_sock, sockio_dport = bswap16 (skc_dport web_sock), sockio_pad = 0\<rparr>}
   \<and> bpf_map_lookup_elem
       (sockio_accum (snd (handle_tcp_sendmsg web_sock 1448 0x700000000 two_sockio)))
       \<lparr>sockio_pid = 9, sockio_daddr = 0x0100007F, sockio_dport = 80, sockio_pad =
           0\<rparr>
     = Some \<lparr>sockio_tx_bytes = 7240, sockio_rx_bytes = 0, sockio_recv_wait_ns = 50,
         sockio_recv_count = 5, sockio_max_recv_ns = 20\<rparr>
   \<and> (7 :: u32) \<notin> {}
   \<and> bpf_map_lookup_elem
       (recv_inflight (snd (handle_tcp_cleanup_rbuf web_sock 512 0x700000000 two_sockio)))
       (7 :: u32)
     = Some \<lparr>recv_ts = 100, recv_daddr = 0x0100007F, recv_dport = 80, recv_pad =
         0\<rparr>
   \<and> \<lparr>sockio_pid = 9, sockio_daddr = 0x0100007F, sockio_dport = 80, sockio_pad =
       0\<rparr> \<notin> {\<lparr>sockio_pid = current_pid 0x700000000, sockio_daddr =
       skc_daddr web_sock, sockio_dport = bswap16 (skc_dport web_sock), sockio_pad = 0\<rparr>}
   \<and> bpf_map_lookup_elem
       (sockio_accum (snd (handle_tcp_cleanup_rbuf web_sock 512 0x700000000 two_sockio)))
       \<lparr>sockio_pid = 9, sockio_daddr = 0x0100007F, sockio_dport = 80, sockio_pad =
           0\<rparr>
     = Some \<lparr>sockio_tx_bytes = 7240, sockio_rx_bytes = 0, sockio_recv_wait_ns = 50,
         sockio_recv_count = 5, sockio_max_recv_ns = 20\<rparr>
   \<and> (9 :: u32) \<notin> {current_pid 0x700000000}
   \<and> bpf_map_lookup_elem
       (recv_inflight (snd (handle_tcp_recvmsg_enter web_sock 0x700000000 350 two_sockio)))
       (9 :: u32)
     = Some \<lparr>recv_ts = 120, recv_daddr = 0x0100007F, recv_dport = 80, recv_pad =
         0\<rparr>
   \<and> \<lparr>sockio_pid = 7, sockio_daddr = 0x0100007F, sockio_dport = 80, sockio_pad =
       0\<rparr> \<notin> {}
   \<and> bpf_map_lookup_elem
       (sockio_accum (snd (handle_tcp_recvmsg_enter web_sock 0x700000000 350 two_sockio)))
       \<lparr>sockio_pid = 7, sockio_daddr = 0x0100007F, sockio_dport = 80, sockio_pad =
           0\<rparr>
     = Some \<lparr>sockio_tx_bytes = 1448, sockio_rx_bytes = 0, sockio_recv_wait_ns = 10,
         sockio_recv_count = 1, sockio_max_recv_ns = 10\<rparr>
   \<and> (9 :: u32) \<notin> {current_pid 0x700000000}
   \<and> bpf_map_lookup_elem
       (recv_inflight (snd (handle_tcp_recvmsg_exit 0x700000000 350 two_sockio)))
       (9 :: u32)
     = Some \<lparr>recv_ts = 120, recv_daddr = 0x0100007F, recv_dport = 80, recv_pad =
         0\<rparr>
   \<and> \<lparr>sockio_pid = 9, sockio_daddr = 0x0100007F, sockio_dport = 80, sockio_pad =
       0\<rparr> \<notin> (case bpf_map_lookup_elem (recv_inflight two_sockio) (current_pid
       0x700000000) of
            None \<Rightarrow> {}
          | Some r \<Rightarrow> {\<lparr>sockio_pid = current_pid 0x700000000, sockio_daddr =
              recv_daddr r, sockio_dport = recv_dport r, sockio_pad = 0\<rparr>})
   \<and> bpf_map_lookup_elem
       (sockio_accum (snd (handle_tcp_recvmsg_exit 0x700000000 350 two_sockio)))
       \<lparr>sockio_pid = 9, sockio_daddr = 0x0100007F, sockio_dport = 80, sockio_pad =
           0\<rparr>
     = Some \<lparr>sockio_tx_bytes = 7240, sockio_rx_bytes = 0, sockio_recv_wait_ns = 50,
         sockio_recv_count = 5, sockio_max_recv_ns = 20\<rparr>
   \<and> (0x746E6E6F635F666E :: u64) \<notin> {mod_key (mod_name_buf name_nf_tables)}
   \<and> bpf_map_lookup_elem
       (snd (handle_do_init_module name_nf_tables 350 two_mod))
       (0x746E6E6F635F666E :: u64)
     = Some \<lparr>mod_count = 5, mod_ts = 120, mod_name = mod_name_buf
         name_nf_conntrack\<rparr>
   \<and> \<lparr>tracer_pid = 9, target_pid = 42\<rparr> \<notin> {\<lparr>tracer_pid =
       current_pid 0x700000000, target_pid = ucast (ctx_pid attach_ctx)\<rparr>}
   \<and> bpf_map_lookup_elem
       (snd (handle_sys_enter_ptrace attach_ctx 0x700000000 comm_bash 350 two_ptrace))
       \<lparr>tracer_pid = 9, target_pid = 42\<rparr>
     = Some \<lparr>ptrace_count = 5, ptrace_ts = 120, ptrace_request = 16, ptrace_tracer_comm
         = comm_bash\<rparr>
   \<and> (9 :: u32) \<notin> {current_pid 0x700000000}
   \<and> bpf_map_lookup_elem
       (snd (handle_sched_process_exec 0x700000000 0x3E8000003E8 1 comm_bash fname_bin_ls 350
           two_exec))
       (9 :: u32)
     = Some \<lparr>exec_count = 5, exec_ts = 120, exec_ppid = 1, exec_uid = 1000, exec_comm =
         comm_bash, exec_filename = fname_bin_ls\<rparr>
   \<and> \<lparr>key_oldstate = 1, key_newstate = 4\<rparr> \<notin> {\<lparr>key_oldstate =
       ucast (ctx_oldstate established_ctx), key_newstate = ucast (ctx_newstate
       established_ctx)\<rparr>}
   \<and> bpf_map_lookup_elem
       (snd (handle_sock_set_state established_ctx two_state))
       \<lparr>key_oldstate = 1, key_newstate = 4\<rparr>
     = Some \<lparr>state_count = 5\<rparr>
   \<and> (43 :: u64) \<notin> {42}
   \<and> bpf_map_lookup_elem
       (snd (handle_throttle_cfs_rq 42 two_throttle))
       (43 :: u64)
     = Some \<lparr>throttle_count = 5\<rparr>
   \<and> (3 :: u32) \<notin> {2}
   \<and> bpf_map_lookup_elem
       (snd (handle_kfree_skb 2 two_drop))
       (3 :: u32)
     = Some \<lparr>drop_count = 5\<rparr>
   \<and> (9 :: u32) \<notin> {current_pid 0x700000000}
   \<and> bpf_map_lookup_elem
       (snd (net_handle_tcp_sendmsg 1448 0x700000000 two_net))
       (9 :: u32)
     = Some \<lparr>net_tx_bytes = 7240, net_rx_bytes = 512\<rparr>
   \<and> (9 :: u32) \<notin> {current_pid 0x700000000}
   \<and> bpf_map_lookup_elem
       (snd (net_handle_tcp_cleanup_rbuf 512 0x700000000 two_net))
       (9 :: u32)
     = Some \<lparr>net_tx_bytes = 7240, net_rx_bytes = 512\<rparr>
   \<and> (9 :: u32) \<notin> {7}
   \<and> bpf_map_lookup_elem
       (snd (handle_mark_victim 7 350 two_oom))
       (9 :: u32)
     = Some \<lparr>oom_ts = 120, oom_total_vm = 0, oom_anon_rss = 0\<rparr>
   \<and> (9 :: u32) \<notin> {current_pid 0x700000000}
   \<and> bpf_map_lookup_elem
       (snd (handle_swap_readpage 0x700000000 two_swap))
       (9 :: u32)
     = Some \<lparr>swap_read_pages = 5, swap_write_pages = 5\<rparr>
   \<and> (9 :: u32) \<notin> {current_pid 0x700000000}
   \<and> bpf_map_lookup_elem
       (snd (handle_swap_writepage 0x700000000 two_swap))
       (9 :: u32)
     = Some \<lparr>swap_read_pages = 5, swap_write_pages = 5\<rparr>
   \<and> (9 :: u32) \<notin> {current_pid 0x700000000}
   \<and> bpf_map_lookup_elem
       (snd (handle_tcp_send_reset web_sock 0x700000000 two_reset))
       (9 :: u32)
     = Some \<lparr>reset_count = 5, reset_last_daddr = 0x0100007F, reset_last_dport =
         0x5000\<rparr>
   \<and> (9 :: u32) \<notin> {current_pid 0x700000000}
   \<and> bpf_map_lookup_elem
       (snd (handle_tcp_retransmit retransmit_ctx 0x700000000 two_retrans))
       (9 :: u32)
     = Some \<lparr>retrans_count = 5, retrans_last_sport = 40001, retrans_last_dport = 80,
         retrans_last_daddr = 0x0100007F\<rparr>
   \<and> \<lparr>rtt_daddr = 0x0200007F, rtt_dport = 80, rtt_pad = 0\<rparr> \<notin>
       {\<lparr>rtt_daddr = skc_daddr web_sock, rtt_dport = bswap16 (skc_dport web_sock),
       rtt_pad = 0\<rparr>}
   \<and> bpf_map_lookup_elem
       (snd (handle_tcp_rcv_established web_sock 800 0x700000000 two_rtt))
       \<lparr>rtt_daddr = 0x0200007F, rtt_dport = 80, rtt_pad = 0\<rparr>
     = Some \<lparr>rtt_sum_us = 900, rtt_count = 5, rtt_min_us = 100, rtt_max_us = 300,
         rtt_last_pid = 9\<rparr>
   \<and> (9 :: u32) \<notin> {current_pid 0x700000000}
   \<and> bpf_map_lookup_elem
       (snd (handle_writeback_wait 16 0x700000000 two_wb))
       (9 :: u32)
     = Some \<lparr>wb_count = 5, wb_total_pages = 80\<rparr>
   \<and> bswap16 0x5000 \<noteq> bswap16 0x1F90
   \<and> bswap16 (bswap16 0x5000) = 0x5000
   \<and> current_pid 0x700000000 = current_pid 0x700000001
   \<and> mod_key (mod_name_buf name_nf_tables) = 0x656C6261745F666E
   \<and> mod_key (mod_name_buf name_nf_conntrack) = 0x746E6E6F635F666E
   \<and> take 8 (mod_name_buf name_nf_tables) \<noteq> take 8 (mod_name_buf name_nf_conntrack)
   \<and> (1 :: u32) \<noteq> 0
   \<and> bpf_map_lookup_elem (inflight two_iolat)
         \<lparr>rq_dev = ctx_dev request_ctx, rq_pad = 1,
            rq_sector = ctx_sector request_ctx\<rparr> = None
   \<and> handle_block_rq_complete request_ctx 1 350
       (snd (handle_block_rq_issue request_ctx 0 0x700000000 300 two_iolat))
     = (0, snd (handle_block_rq_issue request_ctx 0 0x700000000 300 two_iolat))"
proof -
  note r0 = C8_keys_of_events
    [where bctx = request_ctx and bm = two_wb and bs = two_iolat and cgid = 42 and
           comm = comm_bash and copied = 512 and cs = two_tcpconnlat and
           ctx_op = "0x80" and dm = two_drop and ds = two_reclaim and em = two_exec and
           fname = fname_bin_ls and fs = two_lockwait and k = 7 and ks = two_sockio and
           mm = two_mod and modname = name_nf_tables and next_pid = 7 and
           nm = two_net and now = 350 and nr = 1 and nr_pages = 16 and om = two_oom and
           os = two_offcpu and other_name = name_nf_conntrack and other_pad = 1 and
           other_port = "0x1F90" and other_pt = "0x700000001" and pad = 0 and
           pctx = attach_ctx and pm = two_ptrace and port = "0x5000" and ppid = 1 and
           prev_pid = 3 and prev_st = 0 and ps = two_pgfault and pt = "0x700000000" and
           rctx = retransmit_ctx and reason = 2 and ret = 4 and rs = two_rqlat and
           sctx = established_ctx and sk = "0xFFFF888000001000" and sm = two_state and
           sock = web_sock and srtt_us = 800 and ss = two_syscall and sz = 1448 and
           tm = two_throttle and ts = 300 and ug = "0x3E8000003E8" and
           wm = two_swap and xm = two_reset and ym = two_retrans and zm = two_rtt]
  have km: "mod_key (mod_name_buf name_nf_tables) = 0x656C6261745F666E"
    by (simp add: mod_key_def mod_name_buf_def probe_read_kernel_str_def
          name_nf_tables_def Let_def)
  have kn: "mod_key (mod_name_buf name_nf_conntrack) = 0x746E6E6F635F666E"
    by (simp add: mod_key_def mod_name_buf_def probe_read_kernel_str_def
          name_nf_conntrack_def Let_def)
  note t1 = r0 [THEN conjunct1] and r1 = r0 [THEN conjunct2]
  have m1: "(9 :: u32) \<notin> {7}"
    by (simp add: two_rqlat_def map_eval established_ctx_def attach_ctx_def
          request_ctx_def web_sock_def retransmit_ctx_def km)
  have l1: "bpf_map_lookup_elem (rq_start two_rqlat)
       (9 :: u32)
     = Some 120"
    by (simp add: two_rqlat_def map_eval request_ctx_def)
  from touches_onlyD [OF t1 m1] l1
  have w1: "bpf_map_lookup_elem
       (rq_start (snd (handle_sched_wakeup 7 300 two_rqlat)))
       (9 :: u32)
     = Some 120"
    by (rule trans)
  note t2 = r1 [THEN conjunct1] and r2 = r1 [THEN conjunct2]
  have m2: "(7 :: u32) \<notin> {}"
    by (simp add: two_rqlat_def map_eval established_ctx_def attach_ctx_def
          request_ctx_def web_sock_def retransmit_ctx_def km)
  have l2: "bpf_map_lookup_elem (rqlat_accum two_rqlat)
       (7 :: u32)
     = Some \<lparr>rqlat_total_ns = 10, rqlat_count = 1, rqlat_max_ns = 10\<rparr>"
    by (simp add: two_rqlat_def map_eval request_ctx_def)
  from touches_onlyD [OF t2 m2] l2
  have w2: "bpf_map_lookup_elem
       (rqlat_accum (snd (handle_sched_wakeup 7 300 two_rqlat)))
       (7 :: u32)
     = Some \<lparr>rqlat_total_ns = 10, rqlat_count = 1, rqlat_max_ns = 10\<rparr>"
    by (rule trans)
  note t3 = r2 [THEN conjunct1] and r3 = r2 [THEN conjunct2]
  have m3: "(9 :: u32) \<notin> {7}"
    by (simp add: two_rqlat_def map_eval established_ctx_def attach_ctx_def
          request_ctx_def web_sock_def retransmit_ctx_def km)
  have l3: "bpf_map_lookup_elem (rq_start two_rqlat)
       (9 :: u32)
     = Some 120"
    by (simp add: two_rqlat_def map_eval request_ctx_def)
  from touches_onlyD [OF t3 m3] l3
  have w3: "bpf_map_lookup_elem
       (rq_start (snd (handle_sched_switch_rqlat 7 350 two_rqlat)))
       (9 :: u32)
     = Some 120"
    by (rule trans)
  note t4 = r3 [THEN conjunct1] and r4 = r3 [THEN conjunct2]
  have m4: "(9 :: u32) \<notin> {7}"
    by (simp add: two_rqlat_def map_eval established_ctx_def attach_ctx_def
          request_ctx_def web_sock_def retransmit_ctx_def km)
  have l4: "bpf_map_lookup_elem (rqlat_accum two_rqlat)
       (9 :: u32)
     = Some \<lparr>rqlat_total_ns = 50, rqlat_count = 5, rqlat_max_ns = 20\<rparr>"
    by (simp add: two_rqlat_def map_eval request_ctx_def)
  from touches_onlyD [OF t4 m4] l4
  have w4: "bpf_map_lookup_elem
       (rqlat_accum (snd (handle_sched_switch_rqlat 7 350 two_rqlat)))
       (9 :: u32)
     = Some \<lparr>rqlat_total_ns = 50, rqlat_count = 5, rqlat_max_ns = 20\<rparr>"
    by (rule trans)
  note t5 = r4 [THEN conjunct1] and r5 = r4 [THEN conjunct2]
  have m5: "(9 :: u32) \<notin> {current_pid 0x700000000}"
    by (simp add: two_lockwait_def map_eval established_ctx_def attach_ctx_def
          request_ctx_def web_sock_def retransmit_ctx_def km)
  have l5: "bpf_map_lookup_elem (futex_start two_lockwait)
       (9 :: u32)
     = Some 120"
    by (simp add: two_lockwait_def map_eval request_ctx_def)
  from touches_onlyD [OF t5 m5] l5
  have w5: "bpf_map_lookup_elem
       (futex_start (snd (handle_futex_enter 0x80 0x700000000 300 two_lockwait)))
       (9 :: u32)
     = Some 120"
    by (rule trans)
  note t6 = r5 [THEN conjunct1] and r6 = r5 [THEN conjunct2]
  have m6: "(7 :: u32) \<notin> {}"
    by (simp add: two_lockwait_def map_eval established_ctx_def attach_ctx_def
          request_ctx_def web_sock_def retransmit_ctx_def km)
  have l6: "bpf_map_lookup_elem (futex_accum two_lockwait)
       (7 :: u32)
     = Some \<lparr>lock_total_wait_ns = 10, lock_count = 1\<rparr>"
    by (simp add: two_lockwait_def map_eval request_ctx_def)
  from touches_onlyD [OF t6 m6] l6
  have w6: "bpf_map_lookup_elem
       (futex_accum (snd (handle_futex_enter 0x80 0x700000000 300 two_lockwait)))
       (7 :: u32)
     = Some \<lparr>lock_total_wait_ns = 10, lock_count = 1\<rparr>"
    by (rule trans)
  note t7 = r6 [THEN conjunct1] and r7 = r6 [THEN conjunct2]
  have m7: "(9 :: u32) \<notin> {current_pid 0x700000000}"
    by (simp add: two_lockwait_def map_eval established_ctx_def attach_ctx_def
          request_ctx_def web_sock_def retransmit_ctx_def km)
  have l7: "bpf_map_lookup_elem (futex_start two_lockwait)
       (9 :: u32)
     = Some 120"
    by (simp add: two_lockwait_def map_eval request_ctx_def)
  from touches_onlyD [OF t7 m7] l7
  have w7: "bpf_map_lookup_elem
       (futex_start (snd (handle_futex_exit 0x700000000 350 two_lockwait)))
       (9 :: u32)
     = Some 120"
    by (rule trans)
  note t8 = r7 [THEN conjunct1] and r8 = r7 [THEN conjunct2]
  have m8: "(9 :: u32) \<notin> {current_pid 0x700000000}"
    by (simp add: two_lockwait_def map_eval established_ctx_def attach_ctx_def
          request_ctx_def web_sock_def retransmit_ctx_def km)
  have l8: "bpf_map_lookup_elem (futex_accum two_lockwait)
       (9 :: u32)
     = Some \<lparr>lock_total_wait_ns = 50, lock_count = 5\<rparr>"
    by (simp add: two_lockwait_def map_eval request_ctx_def)
  from touches_onlyD [OF t8 m8] l8
  have w8: "bpf_map_lookup_elem
       (futex_accum (snd (handle_futex_exit 0x700000000 350 two_lockwait)))
       (9 :: u32)
     = Some \<lparr>lock_total_wait_ns = 50, lock_count = 5\<rparr>"
    by (rule trans)
  note t9 = r8 [THEN conjunct1] and r9 = r8 [THEN conjunct2]
  have m9: "(9 :: u32) \<notin> {current_pid 0x700000000}"
    by (simp add: two_pgfault_def map_eval established_ctx_def attach_ctx_def
          request_ctx_def web_sock_def retransmit_ctx_def km)
  have l9: "bpf_map_lookup_elem (pgfault_start two_pgfault)
       (9 :: u32)
     = Some 120"
    by (simp add: two_pgfault_def map_eval request_ctx_def)
  from touches_onlyD [OF t9 m9] l9
  have w9: "bpf_map_lookup_elem
       (pgfault_start (snd (handle_fault_enter 0x700000000 300 two_pgfault)))
       (9 :: u32)
     = Some 120"
    by (rule trans)
  note t10 = r9 [THEN conjunct1] and r10 = r9 [THEN conjunct2]
  have m10: "(7 :: u32) \<notin> {}"
    by (simp add: two_pgfault_def map_eval established_ctx_def attach_ctx_def
          request_ctx_def web_sock_def retransmit_ctx_def km)
  have l10: "bpf_map_lookup_elem (pgfault_accum two_pgfault)
       (7 :: u32)
     = Some \<lparr>pgfault_total_ns = 10, pgfault_count = 1, pgfault_major_count = 1\<rparr>"
    by (simp add: two_pgfault_def map_eval request_ctx_def)
  from touches_onlyD [OF t10 m10] l10
  have w10: "bpf_map_lookup_elem
       (pgfault_accum (snd (handle_fault_enter 0x700000000 300 two_pgfault)))
       (7 :: u32)
     = Some \<lparr>pgfault_total_ns = 10, pgfault_count = 1, pgfault_major_count = 1\<rparr>"
    by (rule trans)
  note t11 = r10 [THEN conjunct1] and r11 = r10 [THEN conjunct2]
  have m11: "(9 :: u32) \<notin> {current_pid 0x700000000}"
    by (simp add: two_pgfault_def map_eval established_ctx_def attach_ctx_def
          request_ctx_def web_sock_def retransmit_ctx_def km)
  have l11: "bpf_map_lookup_elem (pgfault_start two_pgfault)
       (9 :: u32)
     = Some 120"
    by (simp add: two_pgfault_def map_eval request_ctx_def)
  from touches_onlyD [OF t11 m11] l11
  have w11: "bpf_map_lookup_elem
       (pgfault_start (snd (handle_fault_exit 4 0x700000000 350 two_pgfault)))
       (9 :: u32)
     = Some 120"
    by (rule trans)
  note t12 = r11 [THEN conjunct1] and r12 = r11 [THEN conjunct2]
  have m12: "(9 :: u32) \<notin> {current_pid 0x700000000}"
    by (simp add: two_pgfault_def map_eval established_ctx_def attach_ctx_def
          request_ctx_def web_sock_def retransmit_ctx_def km)
  have l12: "bpf_map_lookup_elem (pgfault_accum two_pgfault)
       (9 :: u32)
     = Some \<lparr>pgfault_total_ns = 50, pgfault_count = 5, pgfault_major_count = 5\<rparr>"
    by (simp add: two_pgfault_def map_eval request_ctx_def)
  from touches_onlyD [OF t12 m12] l12
  have w12: "bpf_map_lookup_elem
       (pgfault_accum (snd (handle_fault_exit 4 0x700000000 350 two_pgfault)))
       (9 :: u32)
     = Some \<lparr>pgfault_total_ns = 50, pgfault_count = 5, pgfault_major_count = 5\<rparr>"
    by (rule trans)
  note t13 = r12 [THEN conjunct1] and r13 = r12 [THEN conjunct2]
  have m13: "(9 :: u32) \<notin> {current_pid 0x700000000}"
    by (simp add: two_syscall_def map_eval established_ctx_def attach_ctx_def
          request_ctx_def web_sock_def retransmit_ctx_def km)
  have l13: "bpf_map_lookup_elem (sc_start two_syscall)
       (9 :: u32)
     = Some 120"
    by (simp add: two_syscall_def map_eval request_ctx_def)
  from touches_onlyD [OF t13 m13] l13
  have w13: "bpf_map_lookup_elem
       (sc_start (snd (handle_sys_enter 0x700000000 300 two_syscall)))
       (9 :: u32)
     = Some 120"
    by (rule trans)
  note t14 = r13 [THEN conjunct1] and r14 = r13 [THEN conjunct2]
  have m14: "\<lparr>sc_pid = 7, sc_syscall_nr = 1\<rparr> \<notin> {}"
    by (simp add: two_syscall_def map_eval established_ctx_def attach_ctx_def
          request_ctx_def web_sock_def retransmit_ctx_def km)
  have l14: "bpf_map_lookup_elem (sc_accum two_syscall)
       \<lparr>sc_pid = 7, sc_syscall_nr = 1\<rparr>
     = Some \<lparr>sc_total_ns = 10, sc_count = 1, sc_max_ns = 10\<rparr>"
    by (simp add: two_syscall_def map_eval request_ctx_def)
  from touches_onlyD [OF t14 m14] l14
  have w14: "bpf_map_lookup_elem
       (sc_accum (snd (handle_sys_enter 0x700000000 300 two_syscall)))
       \<lparr>sc_pid = 7, sc_syscall_nr = 1\<rparr>
     = Some \<lparr>sc_total_ns = 10, sc_count = 1, sc_max_ns = 10\<rparr>"
    by (rule trans)
  note t15 = r14 [THEN conjunct1] and r15 = r14 [THEN conjunct2]
  have m15: "(9 :: u32) \<notin> {current_pid 0x700000000}"
    by (simp add: two_syscall_def map_eval established_ctx_def attach_ctx_def
          request_ctx_def web_sock_def retransmit_ctx_def km)
  have l15: "bpf_map_lookup_elem (sc_start two_syscall)
       (9 :: u32)
     = Some 120"
    by (simp add: two_syscall_def map_eval request_ctx_def)
  from touches_onlyD [OF t15 m15] l15
  have w15: "bpf_map_lookup_elem
       (sc_start (snd (handle_sys_exit 1 0x700000000 350 two_syscall)))
       (9 :: u32)
     = Some 120"
    by (rule trans)
  note t16 = r15 [THEN conjunct1] and r16 = r15 [THEN conjunct2]
  have m16: "\<lparr>sc_pid = 9, sc_syscall_nr = 1\<rparr> \<notin> {\<lparr>sc_pid =
      current_pid 0x700000000, sc_syscall_nr = ucast 1\<rparr>}"
    by (simp add: two_syscall_def map_eval established_ctx_def attach_ctx_def
          request_ctx_def web_sock_def retransmit_ctx_def km)
  have l16: "bpf_map_lookup_elem (sc_accum two_syscall)
       \<lparr>sc_pid = 9, sc_syscall_nr = 1\<rparr>
     = Some \<lparr>sc_total_ns = 50, sc_count = 5, sc_max_ns = 20\<rparr>"
    by (simp add: two_syscall_def map_eval request_ctx_def)
  from touches_onlyD [OF t16 m16] l16
  have w16: "bpf_map_lookup_elem
       (sc_accum (snd (handle_sys_exit 1 0x700000000 350 two_syscall)))
       \<lparr>sc_pid = 9, sc_syscall_nr = 1\<rparr>
     = Some \<lparr>sc_total_ns = 50, sc_count = 5, sc_max_ns = 20\<rparr>"
    by (rule trans)
  note t17 = r16 [THEN conjunct1] and r17 = r16 [THEN conjunct2]
  have m17: "(9 :: u32) \<notin> {current_pid 0x700000000}"
    by (simp add: two_reclaim_def map_eval established_ctx_def attach_ctx_def
          request_ctx_def web_sock_def retransmit_ctx_def km)
  have l17: "bpf_map_lookup_elem (reclaim_start two_reclaim)
       (9 :: u32)
     = Some 120"
    by (simp add: two_reclaim_def map_eval request_ctx_def)
  from touches_onlyD [OF t17 m17] l17
  have w17: "bpf_map_lookup_elem
       (reclaim_start (snd (handle_reclaim_begin 0x700000000 300 two_reclaim)))
       (9 :: u32)
     = Some 120"
    by (rule trans)
  note t18 = r17 [THEN conjunct1] and r18 = r17 [THEN conjunct2]
  have m18: "(7 :: u32) \<notin> {}"
    by (simp add: two_reclaim_def map_eval established_ctx_def attach_ctx_def
          request_ctx_def web_sock_def retransmit_ctx_def km)
  have l18: "bpf_map_lookup_elem (reclaim_accum two_reclaim)
       (7 :: u32)
     = Some \<lparr>reclaim_stall_ns = 10, reclaim_count = 1\<rparr>"
    by (simp add: two_reclaim_def map_eval request_ctx_def)
  from touches_onlyD [OF t18 m18] l18
  have w18: "bpf_map_lookup_elem
       (reclaim_accum (snd (handle_reclaim_begin 0x700000000 300 two_reclaim)))
       (7 :: u32)
     = Some \<lparr>reclaim_stall_ns = 10, reclaim_count = 1\<rparr>"
    by (rule trans)
  note t19 = r18 [THEN conjunct1] and r19 = r18 [THEN conjunct2]
  have m19: "(9 :: u32) \<notin> {current_pid 0x700000000}"
    by (simp add: two_reclaim_def map_eval established_ctx_def attach_ctx_def
          request_ctx_def web_sock_def retransmit_ctx_def km)
  have l19: "bpf_map_lookup_elem (reclaim_start two_reclaim)
       (9 :: u32)
     = Some 120"
    by (simp add: two_reclaim_def map_eval request_ctx_def)
  from touches_onlyD [OF t19 m19] l19
  have w19: "bpf_map_lookup_elem
       (reclaim_start (snd (handle_reclaim_end 0x700000000 350 two_reclaim)))
       (9 :: u32)
     = Some 120"
    by (rule trans)
  note t20 = r19 [THEN conjunct1] and r20 = r19 [THEN conjunct2]
  have m20: "(9 :: u32) \<notin> {current_pid 0x700000000}"
    by (simp add: two_reclaim_def map_eval established_ctx_def attach_ctx_def
          request_ctx_def web_sock_def retransmit_ctx_def km)
  have l20: "bpf_map_lookup_elem (reclaim_accum two_reclaim)
       (9 :: u32)
     = Some \<lparr>reclaim_stall_ns = 50, reclaim_count = 5\<rparr>"
    by (simp add: two_reclaim_def map_eval request_ctx_def)
  from touches_onlyD [OF t20 m20] l20
  have w20: "bpf_map_lookup_elem
       (reclaim_accum (snd (handle_reclaim_end 0x700000000 350 two_reclaim)))
       (9 :: u32)
     = Some \<lparr>reclaim_stall_ns = 50, reclaim_count = 5\<rparr>"
    by (rule trans)
  note t21 = r20 [THEN conjunct1] and r21 = r20 [THEN conjunct2]
  have m21: "(9 :: u32) \<notin> {3, 7}"
    by (simp add: two_offcpu_def map_eval established_ctx_def attach_ctx_def
          request_ctx_def web_sock_def retransmit_ctx_def km)
  have l21: "bpf_map_lookup_elem (offcpu_start two_offcpu)
       (9 :: u32)
     = Some 120"
    by (simp add: two_offcpu_def map_eval request_ctx_def)
  from touches_onlyD [OF t21 m21] l21
  have w21: "bpf_map_lookup_elem
       (offcpu_start (snd (handle_sched_switch 3 0 7 350 two_offcpu)))
       (9 :: u32)
     = Some 120"
    by (rule trans)
  note t22 = r21 [THEN conjunct1] and r22 = r21 [THEN conjunct2]
  have m22: "(9 :: u32) \<notin> {7}"
    by (simp add: two_offcpu_def map_eval established_ctx_def attach_ctx_def
          request_ctx_def web_sock_def retransmit_ctx_def km)
  have l22: "bpf_map_lookup_elem (offcpu_accum two_offcpu)
       (9 :: u32)
     = Some \<lparr>offcpu_total_ns = 50, offcpu_count = 5\<rparr>"
    by (simp add: two_offcpu_def map_eval request_ctx_def)
  from touches_onlyD [OF t22 m22] l22
  have w22: "bpf_map_lookup_elem
       (offcpu_accum (snd (handle_sched_switch 3 0 7 350 two_offcpu)))
       (9 :: u32)
     = Some \<lparr>offcpu_total_ns = 50, offcpu_count = 5\<rparr>"
    by (rule trans)
  note t23 = r22 [THEN conjunct1] and r23 = r22 [THEN conjunct2]
  have m23: "(0xFFFF888000002000 :: u64) \<notin> {0xFFFF888000001000}"
    by (simp add: two_tcpconnlat_def map_eval established_ctx_def attach_ctx_def
          request_ctx_def web_sock_def retransmit_ctx_def km)
  have l23: "bpf_map_lookup_elem (conn_inflight two_tcpconnlat)
       (0xFFFF888000002000 :: u64)
     = Some \<lparr>conn_ts = 120, conn_pid = 9\<rparr>"
    by (simp add: two_tcpconnlat_def map_eval request_ctx_def)
  from touches_onlyD [OF t23 m23] l23
  have w23: "bpf_map_lookup_elem
       (conn_inflight (snd (handle_tcp_v4_connect 0xFFFF888000001000 0x700000000 300
           two_tcpconnlat)))
       (0xFFFF888000002000 :: u64)
     = Some \<lparr>conn_ts = 120, conn_pid = 9\<rparr>"
    by (rule trans)
  note t24 = r23 [THEN conjunct1] and r24 = r23 [THEN conjunct2]
  have m24: "(7 :: u32) \<notin> {}"
    by (simp add: two_tcpconnlat_def map_eval established_ctx_def attach_ctx_def
          request_ctx_def web_sock_def retransmit_ctx_def km)
  have l24: "bpf_map_lookup_elem (connlat_accum two_tcpconnlat)
       (7 :: u32)
     = Some \<lparr>connlat_total_ns = 10, connlat_count = 1, connlat_max_ns = 10,
         connlat_last_pid = 7, connlat_daddr = 0x0100007F\<rparr>"
    by (simp add: two_tcpconnlat_def map_eval request_ctx_def)
  from touches_onlyD [OF t24 m24] l24
  have w24: "bpf_map_lookup_elem
       (connlat_accum (snd (handle_tcp_v4_connect 0xFFFF888000001000 0x700000000 300
           two_tcpconnlat)))
       (7 :: u32)
     = Some \<lparr>connlat_total_ns = 10, connlat_count = 1, connlat_max_ns = 10,
         connlat_last_pid = 7, connlat_daddr = 0x0100007F\<rparr>"
    by (rule trans)
  note t25 = r24 [THEN conjunct1] and r25 = r24 [THEN conjunct2]
  have m25: "(0xFFFF888000002000 :: u64) \<notin> {ctx_skaddr established_ctx}"
    by (simp add: two_tcpconnlat_def map_eval established_ctx_def attach_ctx_def
          request_ctx_def web_sock_def retransmit_ctx_def km)
  have l25: "bpf_map_lookup_elem (conn_inflight two_tcpconnlat)
       (0xFFFF888000002000 :: u64)
     = Some \<lparr>conn_ts = 120, conn_pid = 9\<rparr>"
    by (simp add: two_tcpconnlat_def map_eval request_ctx_def)
  from touches_onlyD [OF t25 m25] l25
  have w25: "bpf_map_lookup_elem
       (conn_inflight (snd (handle_set_state established_ctx 350 two_tcpconnlat)))
       (0xFFFF888000002000 :: u64)
     = Some \<lparr>conn_ts = 120, conn_pid = 9\<rparr>"
    by (rule trans)
  note t26 = r25 [THEN conjunct1] and r26 = r25 [THEN conjunct2]
  have m26: "(9 :: u32) \<notin> (case bpf_map_lookup_elem (conn_inflight two_tcpconnlat)
      (ctx_skaddr established_ctx) of
            None \<Rightarrow> {} | Some start \<Rightarrow> {conn_pid start})"
    by (simp add: two_tcpconnlat_def map_eval established_ctx_def attach_ctx_def
          request_ctx_def web_sock_def retransmit_ctx_def km)
  have l26: "bpf_map_lookup_elem (connlat_accum two_tcpconnlat)
       (9 :: u32)
     = Some \<lparr>connlat_total_ns = 50, connlat_count = 5, connlat_max_ns = 20,
         connlat_last_pid = 9, connlat_daddr = 0x0100007F\<rparr>"
    by (simp add: two_tcpconnlat_def map_eval request_ctx_def)
  from touches_onlyD [OF t26 m26] l26
  have w26: "bpf_map_lookup_elem
       (connlat_accum (snd (handle_set_state established_ctx 350 two_tcpconnlat)))
       (9 :: u32)
     = Some \<lparr>connlat_total_ns = 50, connlat_count = 5, connlat_max_ns = 20,
         connlat_last_pid = 9, connlat_daddr = 0x0100007F\<rparr>"
    by (rule trans)
  note t27 = r26 [THEN conjunct1] and r27 = r26 [THEN conjunct2]
  have m27: "\<lparr>rq_dev = 0x800010, rq_pad = 0, rq_sector = 4096\<rparr> \<notin>
      {\<lparr>rq_dev = ctx_dev request_ctx, rq_pad = 0, rq_sector = ctx_sector
      request_ctx\<rparr>}"
    by (simp add: two_iolat_def map_eval established_ctx_def attach_ctx_def
          request_ctx_def web_sock_def retransmit_ctx_def km)
  have l27: "bpf_map_lookup_elem (inflight two_iolat)
       \<lparr>rq_dev = 0x800010, rq_pad = 0, rq_sector = 4096\<rparr>
     = Some \<lparr>rq_pid = 9, rq_start_ns = 120\<rparr>"
    by (simp add: two_iolat_def map_eval request_ctx_def)
  from touches_onlyD [OF t27 m27] l27
  have w27: "bpf_map_lookup_elem
       (inflight (snd (handle_block_rq_issue request_ctx 0 0x700000000 350 two_iolat)))
       \<lparr>rq_dev = 0x800010, rq_pad = 0, rq_sector = 4096\<rparr>
     = Some \<lparr>rq_pid = 9, rq_start_ns = 120\<rparr>"
    by (rule trans)
  note t28 = r27 [THEN conjunct1] and r28 = r27 [THEN conjunct2]
  have m28: "(7 :: u32) \<notin> {}"
    by (simp add: two_iolat_def map_eval established_ctx_def attach_ctx_def
          request_ctx_def web_sock_def retransmit_ctx_def km)
  have l28: "bpf_map_lookup_elem (iolat_hist two_iolat)
       (7 :: u32)
     = Some \<lparr>iolat_total_ns = 10, iolat_max_ns = 10, iolat_count = 1, iolat_slots = 1 #
         replicate 15 0, iolat_dev = 0x800010\<rparr>"
    by (simp add: two_iolat_def map_eval request_ctx_def)
  from touches_onlyD [OF t28 m28] l28
  have w28: "bpf_map_lookup_elem
       (iolat_hist (snd (handle_block_rq_issue request_ctx 0 0x700000000 350 two_iolat)))
       (7 :: u32)
     = Some \<lparr>iolat_total_ns = 10, iolat_max_ns = 10, iolat_count = 1, iolat_slots = 1 #
         replicate 15 0, iolat_dev = 0x800010\<rparr>"
    by (rule trans)
  note t29 = r28 [THEN conjunct1] and r29 = r28 [THEN conjunct2]
  have m29: "\<lparr>rq_dev = 0x800010, rq_pad = 0, rq_sector = 4096\<rparr> \<notin>
      {\<lparr>rq_dev = ctx_dev request_ctx, rq_pad = 0, rq_sector = ctx_sector
      request_ctx\<rparr>}"
    by (simp add: two_iolat_def map_eval established_ctx_def attach_ctx_def
          request_ctx_def web_sock_def retransmit_ctx_def km)
  have l29: "bpf_map_lookup_elem (inflight two_iolat)
       \<lparr>rq_dev = 0x800010, rq_pad = 0, rq_sector = 4096\<rparr>
     = Some \<lparr>rq_pid = 9, rq_start_ns = 120\<rparr>"
    by (simp add: two_iolat_def map_eval request_ctx_def)
  from touches_onlyD [OF t29 m29] l29
  have w29: "bpf_map_lookup_elem
       (inflight (snd (handle_block_rq_complete request_ctx 0 350 two_iolat)))
       \<lparr>rq_dev = 0x800010, rq_pad = 0, rq_sector = 4096\<rparr>
     = Some \<lparr>rq_pid = 9, rq_start_ns = 120\<rparr>"
    by (rule trans)
  note t30 = r29 [THEN conjunct1] and r30 = r29 [THEN conjunct2]
  have m30: "(9 :: u32) \<notin> (case bpf_map_lookup_elem (inflight two_iolat) \<lparr>rq_dev
      = ctx_dev request_ctx, rq_pad = 0, rq_sector = ctx_sector request_ctx\<rparr> of
            None \<Rightarrow> {} | Some start \<Rightarrow> {rq_pid start})"
    by (simp add: two_iolat_def map_eval established_ctx_def attach_ctx_def
          request_ctx_def web_sock_def retransmit_ctx_def km)
  have l30: "bpf_map_lookup_elem (iolat_hist two_iolat)
       (9 :: u32)
     = Some \<lparr>iolat_total_ns = 50, iolat_max_ns = 20, iolat_count = 5, iolat_slots = 5 #
         replicate 15 0, iolat_dev = 0x800010\<rparr>"
    by (simp add: two_iolat_def map_eval request_ctx_def)
  from touches_onlyD [OF t30 m30] l30
  have w30: "bpf_map_lookup_elem
       (iolat_hist (snd (handle_block_rq_complete request_ctx 0 350 two_iolat)))
       (9 :: u32)
     = Some \<lparr>iolat_total_ns = 50, iolat_max_ns = 20, iolat_count = 5, iolat_slots = 5 #
         replicate 15 0, iolat_dev = 0x800010\<rparr>"
    by (rule trans)
  note t31 = r30 [THEN conjunct1] and r31 = r30 [THEN conjunct2]
  have m31: "(7 :: u32) \<notin> {}"
    by (simp add: two_sockio_def map_eval established_ctx_def attach_ctx_def
          request_ctx_def web_sock_def retransmit_ctx_def km)
  have l31: "bpf_map_lookup_elem (recv_inflight two_sockio)
       (7 :: u32)
     = Some \<lparr>recv_ts = 100, recv_daddr = 0x0100007F, recv_dport = 80, recv_pad =
         0\<rparr>"
    by (simp add: two_sockio_def map_eval request_ctx_def)
  from touches_onlyD [OF t31 m31] l31
  have w31: "bpf_map_lookup_elem
       (recv_inflight (snd (handle_tcp_sendmsg web_sock 1448 0x700000000 two_sockio)))
       (7 :: u32)
     = Some \<lparr>recv_ts = 100, recv_daddr = 0x0100007F, recv_dport = 80, recv_pad =
         0\<rparr>"
    by (rule trans)
  note t32 = r31 [THEN conjunct1] and r32 = r31 [THEN conjunct2]
  have m32: "\<lparr>sockio_pid = 9, sockio_daddr = 0x0100007F, sockio_dport = 80, sockio_pad =
      0\<rparr> \<notin> {\<lparr>sockio_pid = current_pid 0x700000000, sockio_daddr =
      skc_daddr web_sock, sockio_dport = bswap16 (skc_dport web_sock), sockio_pad = 0\<rparr>}"
    by (simp add: two_sockio_def map_eval established_ctx_def attach_ctx_def
          request_ctx_def web_sock_def retransmit_ctx_def km)
  have l32: "bpf_map_lookup_elem (sockio_accum two_sockio)
       \<lparr>sockio_pid = 9, sockio_daddr = 0x0100007F, sockio_dport = 80, sockio_pad =
           0\<rparr>
     = Some \<lparr>sockio_tx_bytes = 7240, sockio_rx_bytes = 0, sockio_recv_wait_ns = 50,
         sockio_recv_count = 5, sockio_max_recv_ns = 20\<rparr>"
    by (simp add: two_sockio_def map_eval request_ctx_def)
  from touches_onlyD [OF t32 m32] l32
  have w32: "bpf_map_lookup_elem
       (sockio_accum (snd (handle_tcp_sendmsg web_sock 1448 0x700000000 two_sockio)))
       \<lparr>sockio_pid = 9, sockio_daddr = 0x0100007F, sockio_dport = 80, sockio_pad =
           0\<rparr>
     = Some \<lparr>sockio_tx_bytes = 7240, sockio_rx_bytes = 0, sockio_recv_wait_ns = 50,
         sockio_recv_count = 5, sockio_max_recv_ns = 20\<rparr>"
    by (rule trans)
  note t33 = r32 [THEN conjunct1] and r33 = r32 [THEN conjunct2]
  have m33: "(7 :: u32) \<notin> {}"
    by (simp add: two_sockio_def map_eval established_ctx_def attach_ctx_def
          request_ctx_def web_sock_def retransmit_ctx_def km)
  have l33: "bpf_map_lookup_elem (recv_inflight two_sockio)
       (7 :: u32)
     = Some \<lparr>recv_ts = 100, recv_daddr = 0x0100007F, recv_dport = 80, recv_pad =
         0\<rparr>"
    by (simp add: two_sockio_def map_eval request_ctx_def)
  from touches_onlyD [OF t33 m33] l33
  have w33: "bpf_map_lookup_elem
       (recv_inflight (snd (handle_tcp_cleanup_rbuf web_sock 512 0x700000000 two_sockio)))
       (7 :: u32)
     = Some \<lparr>recv_ts = 100, recv_daddr = 0x0100007F, recv_dport = 80, recv_pad =
         0\<rparr>"
    by (rule trans)
  note t34 = r33 [THEN conjunct1] and r34 = r33 [THEN conjunct2]
  have m34: "\<lparr>sockio_pid = 9, sockio_daddr = 0x0100007F, sockio_dport = 80, sockio_pad =
      0\<rparr> \<notin> {\<lparr>sockio_pid = current_pid 0x700000000, sockio_daddr =
      skc_daddr web_sock, sockio_dport = bswap16 (skc_dport web_sock), sockio_pad = 0\<rparr>}"
    by (simp add: two_sockio_def map_eval established_ctx_def attach_ctx_def
          request_ctx_def web_sock_def retransmit_ctx_def km)
  have l34: "bpf_map_lookup_elem (sockio_accum two_sockio)
       \<lparr>sockio_pid = 9, sockio_daddr = 0x0100007F, sockio_dport = 80, sockio_pad =
           0\<rparr>
     = Some \<lparr>sockio_tx_bytes = 7240, sockio_rx_bytes = 0, sockio_recv_wait_ns = 50,
         sockio_recv_count = 5, sockio_max_recv_ns = 20\<rparr>"
    by (simp add: two_sockio_def map_eval request_ctx_def)
  from touches_onlyD [OF t34 m34] l34
  have w34: "bpf_map_lookup_elem
       (sockio_accum (snd (handle_tcp_cleanup_rbuf web_sock 512 0x700000000 two_sockio)))
       \<lparr>sockio_pid = 9, sockio_daddr = 0x0100007F, sockio_dport = 80, sockio_pad =
           0\<rparr>
     = Some \<lparr>sockio_tx_bytes = 7240, sockio_rx_bytes = 0, sockio_recv_wait_ns = 50,
         sockio_recv_count = 5, sockio_max_recv_ns = 20\<rparr>"
    by (rule trans)
  note t35 = r34 [THEN conjunct1] and r35 = r34 [THEN conjunct2]
  have m35: "(9 :: u32) \<notin> {current_pid 0x700000000}"
    by (simp add: two_sockio_def map_eval established_ctx_def attach_ctx_def
          request_ctx_def web_sock_def retransmit_ctx_def km)
  have l35: "bpf_map_lookup_elem (recv_inflight two_sockio)
       (9 :: u32)
     = Some \<lparr>recv_ts = 120, recv_daddr = 0x0100007F, recv_dport = 80, recv_pad =
         0\<rparr>"
    by (simp add: two_sockio_def map_eval request_ctx_def)
  from touches_onlyD [OF t35 m35] l35
  have w35: "bpf_map_lookup_elem
       (recv_inflight (snd (handle_tcp_recvmsg_enter web_sock 0x700000000 350 two_sockio)))
       (9 :: u32)
     = Some \<lparr>recv_ts = 120, recv_daddr = 0x0100007F, recv_dport = 80, recv_pad =
         0\<rparr>"
    by (rule trans)
  note t36 = r35 [THEN conjunct1] and r36 = r35 [THEN conjunct2]
  have m36: "\<lparr>sockio_pid = 7, sockio_daddr = 0x0100007F, sockio_dport = 80, sockio_pad =
      0\<rparr> \<notin> {}"
    by (simp add: two_sockio_def map_eval established_ctx_def attach_ctx_def
          request_ctx_def web_sock_def retransmit_ctx_def km)
  have l36: "bpf_map_lookup_elem (sockio_accum two_sockio)
       \<lparr>sockio_pid = 7, sockio_daddr = 0x0100007F, sockio_dport = 80, sockio_pad =
           0\<rparr>
     = Some \<lparr>sockio_tx_bytes = 1448, sockio_rx_bytes = 0, sockio_recv_wait_ns = 10,
         sockio_recv_count = 1, sockio_max_recv_ns = 10\<rparr>"
    by (simp add: two_sockio_def map_eval request_ctx_def)
  from touches_onlyD [OF t36 m36] l36
  have w36: "bpf_map_lookup_elem
       (sockio_accum (snd (handle_tcp_recvmsg_enter web_sock 0x700000000 350 two_sockio)))
       \<lparr>sockio_pid = 7, sockio_daddr = 0x0100007F, sockio_dport = 80, sockio_pad =
           0\<rparr>
     = Some \<lparr>sockio_tx_bytes = 1448, sockio_rx_bytes = 0, sockio_recv_wait_ns = 10,
         sockio_recv_count = 1, sockio_max_recv_ns = 10\<rparr>"
    by (rule trans)
  note t37 = r36 [THEN conjunct1] and r37 = r36 [THEN conjunct2]
  have m37: "(9 :: u32) \<notin> {current_pid 0x700000000}"
    by (simp add: two_sockio_def map_eval established_ctx_def attach_ctx_def
          request_ctx_def web_sock_def retransmit_ctx_def km)
  have l37: "bpf_map_lookup_elem (recv_inflight two_sockio)
       (9 :: u32)
     = Some \<lparr>recv_ts = 120, recv_daddr = 0x0100007F, recv_dport = 80, recv_pad =
         0\<rparr>"
    by (simp add: two_sockio_def map_eval request_ctx_def)
  from touches_onlyD [OF t37 m37] l37
  have w37: "bpf_map_lookup_elem
       (recv_inflight (snd (handle_tcp_recvmsg_exit 0x700000000 350 two_sockio)))
       (9 :: u32)
     = Some \<lparr>recv_ts = 120, recv_daddr = 0x0100007F, recv_dport = 80, recv_pad =
         0\<rparr>"
    by (rule trans)
  note t38 = r37 [THEN conjunct1] and r38 = r37 [THEN conjunct2]
  have m38: "\<lparr>sockio_pid = 9, sockio_daddr = 0x0100007F, sockio_dport = 80, sockio_pad =
      0\<rparr> \<notin> (case bpf_map_lookup_elem (recv_inflight two_sockio) (current_pid
      0x700000000) of
            None \<Rightarrow> {}
          | Some r \<Rightarrow> {\<lparr>sockio_pid = current_pid 0x700000000, sockio_daddr =
              recv_daddr r, sockio_dport = recv_dport r, sockio_pad = 0\<rparr>})"
    by (simp add: two_sockio_def map_eval established_ctx_def attach_ctx_def
          request_ctx_def web_sock_def retransmit_ctx_def km)
  have l38: "bpf_map_lookup_elem (sockio_accum two_sockio)
       \<lparr>sockio_pid = 9, sockio_daddr = 0x0100007F, sockio_dport = 80, sockio_pad =
           0\<rparr>
     = Some \<lparr>sockio_tx_bytes = 7240, sockio_rx_bytes = 0, sockio_recv_wait_ns = 50,
         sockio_recv_count = 5, sockio_max_recv_ns = 20\<rparr>"
    by (simp add: two_sockio_def map_eval request_ctx_def)
  from touches_onlyD [OF t38 m38] l38
  have w38: "bpf_map_lookup_elem
       (sockio_accum (snd (handle_tcp_recvmsg_exit 0x700000000 350 two_sockio)))
       \<lparr>sockio_pid = 9, sockio_daddr = 0x0100007F, sockio_dport = 80, sockio_pad =
           0\<rparr>
     = Some \<lparr>sockio_tx_bytes = 7240, sockio_rx_bytes = 0, sockio_recv_wait_ns = 50,
         sockio_recv_count = 5, sockio_max_recv_ns = 20\<rparr>"
    by (rule trans)
  note t39 = r38 [THEN conjunct1] and r39 = r38 [THEN conjunct2]
  have m39: "(0x746E6E6F635F666E :: u64) \<notin> {mod_key (mod_name_buf name_nf_tables)}"
    by (simp add: two_mod_def map_eval established_ctx_def attach_ctx_def
          request_ctx_def web_sock_def retransmit_ctx_def km)
  have l39: "bpf_map_lookup_elem two_mod
       (0x746E6E6F635F666E :: u64)
     = Some \<lparr>mod_count = 5, mod_ts = 120, mod_name = mod_name_buf
         name_nf_conntrack\<rparr>"
    by (simp add: two_mod_def map_eval request_ctx_def)
  from touches_onlyD [OF t39 m39] l39
  have w39: "bpf_map_lookup_elem
       (snd (handle_do_init_module name_nf_tables 350 two_mod))
       (0x746E6E6F635F666E :: u64)
     = Some \<lparr>mod_count = 5, mod_ts = 120, mod_name = mod_name_buf
         name_nf_conntrack\<rparr>"
    by (rule trans)
  note t40 = r39 [THEN conjunct1] and r40 = r39 [THEN conjunct2]
  have m40: "\<lparr>tracer_pid = 9, target_pid = 42\<rparr> \<notin> {\<lparr>tracer_pid =
      current_pid 0x700000000, target_pid = ucast (ctx_pid attach_ctx)\<rparr>}"
    by (simp add: two_ptrace_def map_eval established_ctx_def attach_ctx_def
          request_ctx_def web_sock_def retransmit_ctx_def km)
  have l40: "bpf_map_lookup_elem two_ptrace
       \<lparr>tracer_pid = 9, target_pid = 42\<rparr>
     = Some \<lparr>ptrace_count = 5, ptrace_ts = 120, ptrace_request = 16, ptrace_tracer_comm
         = comm_bash\<rparr>"
    by (simp add: two_ptrace_def map_eval request_ctx_def)
  from touches_onlyD [OF t40 m40] l40
  have w40: "bpf_map_lookup_elem
       (snd (handle_sys_enter_ptrace attach_ctx 0x700000000 comm_bash 350 two_ptrace))
       \<lparr>tracer_pid = 9, target_pid = 42\<rparr>
     = Some \<lparr>ptrace_count = 5, ptrace_ts = 120, ptrace_request = 16, ptrace_tracer_comm
         = comm_bash\<rparr>"
    by (rule trans)
  note t41 = r40 [THEN conjunct1] and r41 = r40 [THEN conjunct2]
  have m41: "(9 :: u32) \<notin> {current_pid 0x700000000}"
    by (simp add: two_exec_def map_eval established_ctx_def attach_ctx_def
          request_ctx_def web_sock_def retransmit_ctx_def km)
  have l41: "bpf_map_lookup_elem two_exec
       (9 :: u32)
     = Some \<lparr>exec_count = 5, exec_ts = 120, exec_ppid = 1, exec_uid = 1000, exec_comm =
         comm_bash, exec_filename = fname_bin_ls\<rparr>"
    by (simp add: two_exec_def map_eval request_ctx_def)
  from touches_onlyD [OF t41 m41] l41
  have w41: "bpf_map_lookup_elem
       (snd (handle_sched_process_exec 0x700000000 0x3E8000003E8 1 comm_bash fname_bin_ls 350
           two_exec))
       (9 :: u32)
     = Some \<lparr>exec_count = 5, exec_ts = 120, exec_ppid = 1, exec_uid = 1000, exec_comm =
         comm_bash, exec_filename = fname_bin_ls\<rparr>"
    by (rule trans)
  note t42 = r41 [THEN conjunct1] and r42 = r41 [THEN conjunct2]
  have m42: "\<lparr>key_oldstate = 1, key_newstate = 4\<rparr> \<notin> {\<lparr>key_oldstate
      = ucast (ctx_oldstate established_ctx), key_newstate = ucast (ctx_newstate
      established_ctx)\<rparr>}"
    by (simp add: two_state_def map_eval established_ctx_def attach_ctx_def
          request_ctx_def web_sock_def retransmit_ctx_def km)
  have l42: "bpf_map_lookup_elem two_state
       \<lparr>key_oldstate = 1, key_newstate = 4\<rparr>
     = Some \<lparr>state_count = 5\<rparr>"
    by (simp add: two_state_def map_eval request_ctx_def)
  from touches_onlyD [OF t42 m42] l42
  have w42: "bpf_map_lookup_elem
       (snd (handle_sock_set_state established_ctx two_state))
       \<lparr>key_oldstate = 1, key_newstate = 4\<rparr>
     = Some \<lparr>state_count = 5\<rparr>"
    by (rule trans)
  note t43 = r42 [THEN conjunct1] and r43 = r42 [THEN conjunct2]
  have m43: "(43 :: u64) \<notin> {42}"
    by (simp add: two_throttle_def map_eval established_ctx_def attach_ctx_def
          request_ctx_def web_sock_def retransmit_ctx_def km)
  have l43: "bpf_map_lookup_elem two_throttle
       (43 :: u64)
     = Some \<lparr>throttle_count = 5\<rparr>"
    by (simp add: two_throttle_def map_eval request_ctx_def)
  from touches_onlyD [OF t43 m43] l43
  have w43: "bpf_map_lookup_elem
       (snd (handle_throttle_cfs_rq 42 two_throttle))
       (43 :: u64)
     = Some \<lparr>throttle_count = 5\<rparr>"
    by (rule trans)
  note t44 = r43 [THEN conjunct1] and r44 = r43 [THEN conjunct2]
  have m44: "(3 :: u32) \<notin> {2}"
    by (simp add: two_drop_def map_eval established_ctx_def attach_ctx_def
          request_ctx_def web_sock_def retransmit_ctx_def km)
  have l44: "bpf_map_lookup_elem two_drop
       (3 :: u32)
     = Some \<lparr>drop_count = 5\<rparr>"
    by (simp add: two_drop_def map_eval request_ctx_def)
  from touches_onlyD [OF t44 m44] l44
  have w44: "bpf_map_lookup_elem
       (snd (handle_kfree_skb 2 two_drop))
       (3 :: u32)
     = Some \<lparr>drop_count = 5\<rparr>"
    by (rule trans)
  note t45 = r44 [THEN conjunct1] and r45 = r44 [THEN conjunct2]
  have m45: "(9 :: u32) \<notin> {current_pid 0x700000000}"
    by (simp add: two_net_def map_eval established_ctx_def attach_ctx_def
          request_ctx_def web_sock_def retransmit_ctx_def km)
  have l45: "bpf_map_lookup_elem two_net
       (9 :: u32)
     = Some \<lparr>net_tx_bytes = 7240, net_rx_bytes = 512\<rparr>"
    by (simp add: two_net_def map_eval request_ctx_def)
  from touches_onlyD [OF t45 m45] l45
  have w45: "bpf_map_lookup_elem
       (snd (net_handle_tcp_sendmsg 1448 0x700000000 two_net))
       (9 :: u32)
     = Some \<lparr>net_tx_bytes = 7240, net_rx_bytes = 512\<rparr>"
    by (rule trans)
  note t46 = r45 [THEN conjunct1] and r46 = r45 [THEN conjunct2]
  have m46: "(9 :: u32) \<notin> {current_pid 0x700000000}"
    by (simp add: two_net_def map_eval established_ctx_def attach_ctx_def
          request_ctx_def web_sock_def retransmit_ctx_def km)
  have l46: "bpf_map_lookup_elem two_net
       (9 :: u32)
     = Some \<lparr>net_tx_bytes = 7240, net_rx_bytes = 512\<rparr>"
    by (simp add: two_net_def map_eval request_ctx_def)
  from touches_onlyD [OF t46 m46] l46
  have w46: "bpf_map_lookup_elem
       (snd (net_handle_tcp_cleanup_rbuf 512 0x700000000 two_net))
       (9 :: u32)
     = Some \<lparr>net_tx_bytes = 7240, net_rx_bytes = 512\<rparr>"
    by (rule trans)
  note t47 = r46 [THEN conjunct1] and r47 = r46 [THEN conjunct2]
  have m47: "(9 :: u32) \<notin> {7}"
    by (simp add: two_oom_def map_eval established_ctx_def attach_ctx_def
          request_ctx_def web_sock_def retransmit_ctx_def km)
  have l47: "bpf_map_lookup_elem two_oom
       (9 :: u32)
     = Some \<lparr>oom_ts = 120, oom_total_vm = 0, oom_anon_rss = 0\<rparr>"
    by (simp add: two_oom_def map_eval request_ctx_def)
  from touches_onlyD [OF t47 m47] l47
  have w47: "bpf_map_lookup_elem
       (snd (handle_mark_victim 7 350 two_oom))
       (9 :: u32)
     = Some \<lparr>oom_ts = 120, oom_total_vm = 0, oom_anon_rss = 0\<rparr>"
    by (rule trans)
  note t48 = r47 [THEN conjunct1] and r48 = r47 [THEN conjunct2]
  have m48: "(9 :: u32) \<notin> {current_pid 0x700000000}"
    by (simp add: two_swap_def map_eval established_ctx_def attach_ctx_def
          request_ctx_def web_sock_def retransmit_ctx_def km)
  have l48: "bpf_map_lookup_elem two_swap
       (9 :: u32)
     = Some \<lparr>swap_read_pages = 5, swap_write_pages = 5\<rparr>"
    by (simp add: two_swap_def map_eval request_ctx_def)
  from touches_onlyD [OF t48 m48] l48
  have w48: "bpf_map_lookup_elem
       (snd (handle_swap_readpage 0x700000000 two_swap))
       (9 :: u32)
     = Some \<lparr>swap_read_pages = 5, swap_write_pages = 5\<rparr>"
    by (rule trans)
  note t49 = r48 [THEN conjunct1] and r49 = r48 [THEN conjunct2]
  have m49: "(9 :: u32) \<notin> {current_pid 0x700000000}"
    by (simp add: two_swap_def map_eval established_ctx_def attach_ctx_def
          request_ctx_def web_sock_def retransmit_ctx_def km)
  have l49: "bpf_map_lookup_elem two_swap
       (9 :: u32)
     = Some \<lparr>swap_read_pages = 5, swap_write_pages = 5\<rparr>"
    by (simp add: two_swap_def map_eval request_ctx_def)
  from touches_onlyD [OF t49 m49] l49
  have w49: "bpf_map_lookup_elem
       (snd (handle_swap_writepage 0x700000000 two_swap))
       (9 :: u32)
     = Some \<lparr>swap_read_pages = 5, swap_write_pages = 5\<rparr>"
    by (rule trans)
  note t50 = r49 [THEN conjunct1] and r50 = r49 [THEN conjunct2]
  have m50: "(9 :: u32) \<notin> {current_pid 0x700000000}"
    by (simp add: two_reset_def map_eval established_ctx_def attach_ctx_def
          request_ctx_def web_sock_def retransmit_ctx_def km)
  have l50: "bpf_map_lookup_elem two_reset
       (9 :: u32)
     = Some \<lparr>reset_count = 5, reset_last_daddr = 0x0100007F, reset_last_dport =
         0x5000\<rparr>"
    by (simp add: two_reset_def map_eval request_ctx_def)
  from touches_onlyD [OF t50 m50] l50
  have w50: "bpf_map_lookup_elem
       (snd (handle_tcp_send_reset web_sock 0x700000000 two_reset))
       (9 :: u32)
     = Some \<lparr>reset_count = 5, reset_last_daddr = 0x0100007F, reset_last_dport =
         0x5000\<rparr>"
    by (rule trans)
  note t51 = r50 [THEN conjunct1] and r51 = r50 [THEN conjunct2]
  have m51: "(9 :: u32) \<notin> {current_pid 0x700000000}"
    by (simp add: two_retrans_def map_eval established_ctx_def attach_ctx_def
          request_ctx_def web_sock_def retransmit_ctx_def km)
  have l51: "bpf_map_lookup_elem two_retrans
       (9 :: u32)
     = Some \<lparr>retrans_count = 5, retrans_last_sport = 40001, retrans_last_dport = 80,
         retrans_last_daddr = 0x0100007F\<rparr>"
    by (simp add: two_retrans_def map_eval request_ctx_def)
  from touches_onlyD [OF t51 m51] l51
  have w51: "bpf_map_lookup_elem
       (snd (handle_tcp_retransmit retransmit_ctx 0x700000000 two_retrans))
       (9 :: u32)
     = Some \<lparr>retrans_count = 5, retrans_last_sport = 40001, retrans_last_dport = 80,
         retrans_last_daddr = 0x0100007F\<rparr>"
    by (rule trans)
  note t52 = r51 [THEN conjunct1] and r52 = r51 [THEN conjunct2]
  have m52: "\<lparr>rtt_daddr = 0x0200007F, rtt_dport = 80, rtt_pad = 0\<rparr> \<notin>
      {\<lparr>rtt_daddr = skc_daddr web_sock, rtt_dport = bswap16 (skc_dport web_sock),
      rtt_pad = 0\<rparr>}"
    by (simp add: two_rtt_def map_eval established_ctx_def attach_ctx_def
          request_ctx_def web_sock_def retransmit_ctx_def km)
  have l52: "bpf_map_lookup_elem two_rtt
       \<lparr>rtt_daddr = 0x0200007F, rtt_dport = 80, rtt_pad = 0\<rparr>
     = Some \<lparr>rtt_sum_us = 900, rtt_count = 5, rtt_min_us = 100, rtt_max_us = 300,
         rtt_last_pid = 9\<rparr>"
    by (simp add: two_rtt_def map_eval request_ctx_def)
  from touches_onlyD [OF t52 m52] l52
  have w52: "bpf_map_lookup_elem
       (snd (handle_tcp_rcv_established web_sock 800 0x700000000 two_rtt))
       \<lparr>rtt_daddr = 0x0200007F, rtt_dport = 80, rtt_pad = 0\<rparr>
     = Some \<lparr>rtt_sum_us = 900, rtt_count = 5, rtt_min_us = 100, rtt_max_us = 300,
         rtt_last_pid = 9\<rparr>"
    by (rule trans)
  note t53 = r52 [THEN conjunct1] and r53 = r52 [THEN conjunct2]
  have m53: "(9 :: u32) \<notin> {current_pid 0x700000000}"
    by (simp add: two_wb_def map_eval established_ctx_def attach_ctx_def
          request_ctx_def web_sock_def retransmit_ctx_def km)
  have l53: "bpf_map_lookup_elem two_wb
       (9 :: u32)
     = Some \<lparr>wb_count = 5, wb_total_pages = 80\<rparr>"
    by (simp add: two_wb_def map_eval request_ctx_def)
  from touches_onlyD [OF t53 m53] l53
  have w53: "bpf_map_lookup_elem
       (snd (handle_writeback_wait 16 0x700000000 two_wb))
       (9 :: u32)
     = Some \<lparr>wb_count = 5, wb_total_pages = 80\<rparr>"
    by (rule trans)
  note t54 = r53 [THEN conjunct1] and r54 = r53 [THEN conjunct2]
  from t54 have w54: "bswap16 0x5000 \<noteq> bswap16 0x1F90"
    by simp
  note t55 = r54 [THEN conjunct1] and r55 = r54 [THEN conjunct2]
  note t56 = r55 [THEN conjunct1] and r56 = r55 [THEN conjunct2]
  from t56 have w56: "current_pid 0x700000000 = current_pid 0x700000001"
    by simp
  note t57 = r56 [THEN conjunct1] and r57 = r56 [THEN conjunct2]
  have "mod_key (mod_name_buf name_nf_tables) \<noteq> mod_key (mod_name_buf name_nf_conntrack)"
    by (simp add: km kn)
  with t57 have w57: "take 8 (mod_name_buf name_nf_tables) \<noteq> take 8 (mod_name_buf
      name_nf_conntrack)"
    by simp
  note t58 = r57
  have h58: "(1 :: u32) \<noteq> 0
      \<and> bpf_map_lookup_elem (inflight two_iolat)
            \<lparr>rq_dev = ctx_dev request_ctx, rq_pad = 1,
               rq_sector = ctx_sector request_ctx\<rparr> = None"
    by (simp add: two_iolat_def map_eval request_ctx_def)
  note w58 = t58 [THEN mp, OF h58]
  from m1 w1 m2 w2 m3 w3 m4 w4 m5 w5 m6 w6 m7 w7 m8 w8 m9 w9 m10 w10 m11 w11 m12 w12
    m13 w13 m14 w14 m15 w15 m16 w16 m17 w17 m18 w18 m19 w19 m20 w20 m21 w21 m22 w22 m23
    w23 m24 w24 m25 w25 m26 w26 m27 w27 m28 w28 m29 w29 m30 w30 m31 w31 m32 w32 m33 w33
    m34 w34 m35 w35 m36 w36 m37 w37 m38 w38 m39 w39 m40 w40 m41 w41 m42 w42 m43 w43 m44
    w44 m45 w45 m46 w46 m47 w47 m48 w48 m49 w49 m50 w50 m51 w51 m52 w52 m53 w53 w54 t55
    w56 km kn w57 h58 [THEN conjunct1] h58 [THEN conjunct2] w58
  show ?thesis
    by (intro conjI)
qed

text \<open>
  The claim as the specification states it fails in modload.c: the modules
  \<^verbatim>\<open>nf_conntrack\<close> and \<^verbatim>\<open>nf_conntrack_netlink\<close> are distinct and have the same key,
  the bytes \<^verbatim>\<open>nf_connt\<close>; loading both counts two events under that one key.
\<close>

theorem C8_module_prefix_counterexample:
  "name_nf_conntrack \<noteq> name_nf_conntrack_netlink
   \<and> mod_name_buf name_nf_conntrack \<noteq> mod_name_buf name_nf_conntrack_netlink
   \<and> mod_key (mod_name_buf name_nf_conntrack) = 0x746E6E6F635F666E
   \<and> mod_key (mod_name_buf name_nf_conntrack_netlink) = 0x746E6E6F635F666E
   \<and> entries (snd (handle_do_init_module name_nf_conntrack_netlink 200
                     (snd (handle_do_init_module name_nf_conntrack 100 mod_init))))
      = [(0x746E6E6F635F666E,
          \<lparr>mod_count = 2, mod_ts = 200, mod_name = mod_name_buf
              name_nf_conntrack\<rparr>)]"
proof -
  have k1: "mod_key (mod_name_buf name_nf_conntrack) = 0x746E6E6F635F666E"
    by (simp add: mod_key_def mod_name_buf_def probe_read_kernel_str_def
          name_nf_conntrack_def Let_def)
  have k2: "mod_key (mod_name_buf name_nf_conntrack_netlink) = 0x746E6E6F635F666E"
    by (simp add: mod_key_def mod_name_buf_def probe_read_kernel_str_def
          name_nf_conntrack_netlink_def Let_def)
  have n: "name_nf_conntrack \<noteq> name_nf_conntrack_netlink"
    by (simp add: name_nf_conntrack_def name_nf_conntrack_netlink_def)
  have b: "mod_name_buf name_nf_conntrack \<noteq> mod_name_buf name_nf_conntrack_netlink"
    by (simp add: mod_name_buf_def probe_read_kernel_str_def name_nf_conntrack_def
          name_nf_conntrack_netlink_def Let_def)
  have e: "entries (snd (handle_do_init_module name_nf_conntrack_netlink 200
                     (snd (handle_do_init_module name_nf_conntrack 100 mod_init))))
      = [(0x746E6E6F635F666E,
          \<lparr>mod_count = 2, mod_ts = 200, mod_name = mod_name_buf
              name_nf_conntrack\<rparr>)]"
    by (simp add: handle_do_init_module_def mod_init_def k1 k2 bpf_map_lookup_elem_def
          bpf_map_update_elem_def store_elem_def empty_map_def)
  from n b k1 k2 e show ?thesis
    by simp
qed

section \<open>Claim C9: counts grow until they wrap\<close>

text \<open>
  Claim C9, as the probes have it. Every handler of every probe keeps every record of its
  accumulation table, and leaves each count of each record either as it was or larger by
  one modulo the width of the field: a count does not decrease unless it was at the
  largest value of its width, where the increment wraps to 0. This is \<open>count_kept\<close>,
  stated below for each handler and each count: the sample counts of the nine pairing
  probes (for their begin handlers too, and for the byte counters of sockio.c), the event
  counts of modload.c, ptracedetect.c, execsnoop.c, sockstate.c, cgthrottle.c, kfreeskb.c,
  tcpreset.c, tcpretrans.c, tcprtt.c and wbstall.c, the two major-fault and page counts of
  pgfault.c and the two page counts of swapevict.c. The records of netthroughput.c (byte
  totals) and of oomkill.c (the time of the last kill, overwritten by the next) have no
  count.
\<close>

theorem C9_count_never_decreases_below_wrap:
  "count_kept rqlat_count (rqlat_accum rs)
       (rqlat_accum (snd (handle_sched_wakeup k ts rs)))
   \<and> count_kept rqlat_count (rqlat_accum rs)
       (rqlat_accum (snd (handle_sched_switch_rqlat k now rs)))
   \<and> count_kept lock_count (futex_accum fs)
       (futex_accum (snd (handle_futex_enter ctx_op pt ts fs)))
   \<and> count_kept lock_count (futex_accum fs)
       (futex_accum (snd (handle_futex_exit pt now fs)))
   \<and> count_kept pgfault_count (pgfault_accum ps)
       (pgfault_accum (snd (handle_fault_enter pt ts ps)))
   \<and> count_kept pgfault_major_count (pgfault_accum ps)
       (pgfault_accum (snd (handle_fault_enter pt ts ps)))
   \<and> count_kept pgfault_count (pgfault_accum ps)
       (pgfault_accum (snd (handle_fault_exit ret pt now ps)))
   \<and> count_kept pgfault_major_count (pgfault_accum ps)
       (pgfault_accum (snd (handle_fault_exit ret pt now ps)))
   \<and> count_kept sc_count (sc_accum ss)
       (sc_accum (snd (handle_sys_enter pt ts ss)))
   \<and> count_kept sc_count (sc_accum ss)
       (sc_accum (snd (handle_sys_exit nr pt now ss)))
   \<and> count_kept reclaim_count (reclaim_accum ds)
       (reclaim_accum (snd (handle_reclaim_begin pt ts ds)))
   \<and> count_kept reclaim_count (reclaim_accum ds)
       (reclaim_accum (snd (handle_reclaim_end pt now ds)))
   \<and> count_kept offcpu_count (offcpu_accum os)
       (offcpu_accum (snd (handle_sched_switch prev_pid prev_st next_pid now os)))
   \<and> count_kept connlat_count (connlat_accum cs)
       (connlat_accum (snd (handle_tcp_v4_connect sk pt ts cs)))
   \<and> count_kept connlat_count (connlat_accum cs)
       (connlat_accum (snd (handle_set_state sctx now cs)))
   \<and> count_kept iolat_count (iolat_hist bs)
       (iolat_hist (snd (handle_block_rq_issue bctx pad pt now bs)))
   \<and> count_kept iolat_count (iolat_hist bs)
       (iolat_hist (snd (handle_block_rq_complete bctx pad now bs)))
   \<and> count_kept sockio_recv_count (sockio_accum ks)
       (sockio_accum (snd (handle_tcp_sendmsg sock sz pt ks)))
   \<and> count_kept sockio_recv_count (sockio_accum ks)
       (sockio_accum (snd (handle_tcp_cleanup_rbuf sock copied pt ks)))
   \<and> count_kept sockio_recv_count (sockio_accum ks)
       (sockio_accum (snd (handle_tcp_recvmsg_enter sock pt now ks)))
   \<and> count_kept sockio_recv_count (sockio_accum ks)
       (sockio_accum (snd (handle_tcp_recvmsg_exit pt now ks)))
   \<and> count_kept mod_count mm
       (snd (handle_do_init_module modname now mm))
   \<and> count_kept ptrace_count pm
       (snd (handle_sys_enter_ptrace pctx pt comm now pm))
   \<and> count_kept exec_count em
       (snd (handle_sched_process_exec pt ug ppid comm fname now em))
   \<and> count_kept state_count sm
       (snd (handle_sock_set_state sctx sm))
   \<and> count_kept throttle_count tm
       (snd (handle_throttle_cfs_rq cgid tm))
   \<and> count_kept drop_count dm
       (snd (handle_kfree_skb reason dm))
   \<and> count_kept swap_read_pages wm
       (snd (handle_swap_readpage pt wm))
   \<and> count_kept swap_write_pages wm
       (snd (handle_swap_readpage pt wm))
   \<and> count_kept swap_read_pages wm
       (snd (handle_swap_writepage pt wm))
   \<and> count_kept swap_write_pages wm
       (snd (handle_swap_writepage pt wm))
   \<and> count_kept reset_count xm
       (snd (handle_tcp_send_reset sock pt xm))
   \<and> count_kept retrans_count ym
       (snd (handle_tcp_retransmit rctx pt ym))
   \<and> count_kept rtt_count zm
       (snd (handle_tcp_rcv_established sock srtt_us pt zm))
   \<and> count_kept wb_count bm
       (snd (handle_writeback_wait nr_pages pt bm))"
  by (intro conjI)
     (rule wakeup_keeps_rqlat_count, rule switch_rqlat_keeps_rqlat_count,
      rule futex_enter_keeps_lock_count, rule futex_exit_keeps_lock_count,
      rule fault_enter_keeps_pgfault_count, rule fault_enter_keeps_pgfault_major_count,
      rule fault_exit_keeps_pgfault_count, rule fault_exit_keeps_pgfault_major_count,
      rule sys_enter_keeps_sc_count, rule sys_exit_keeps_sc_count,
      rule reclaim_begin_keeps_reclaim_count, rule reclaim_end_keeps_reclaim_count,
      rule sched_switch_keeps_offcpu_count, rule connect_keeps_connlat_count,
      rule set_state_keeps_connlat_count, rule rq_issue_keeps_iolat_count,
      rule rq_complete_keeps_iolat_count, rule sendmsg_keeps_sockio_recv_count,
      rule cleanup_rbuf_keeps_sockio_recv_count, rule recvmsg_enter_keeps_sockio_recv_count,
      rule recvmsg_exit_keeps_sockio_recv_count, rule init_module_keeps_mod_count,
      rule ptrace_keeps_ptrace_count, rule exec_keeps_exec_count,
      rule sock_set_state_keeps_state_count, rule throttle_keeps_throttle_count,
      rule kfree_skb_keeps_drop_count, rule swap_readpage_keeps_swap_read_pages,
      rule swap_readpage_keeps_swap_write_pages, rule swap_writepage_keeps_swap_read_pages,
      rule swap_writepage_keeps_swap_write_pages, rule send_reset_keeps_reset_count,
      rule retransmit_keeps_retrans_count, rule rcv_established_keeps_rtt_count,
      rule writeback_wait_keeps_wb_count)

text \<open>
  The theorem on the tables with two entries: the record of the event has every count at
  1 before the handler, and a record with that count at 1 or 2 after it.
\<close>

theorem C9_count_never_decreases_below_wrap_witness:
  "bpf_map_lookup_elem (rqlat_accum two_rqlat) (7 :: u32)
     = Some \<lparr>rqlat_total_ns = 10, rqlat_count = 1, rqlat_max_ns = 10\<rparr>
   \<and> (\<exists>v'. bpf_map_lookup_elem
          (rqlat_accum (snd (handle_sched_wakeup 7 300 two_rqlat)))
          (7 :: u32) = Some v'
        \<and> (rqlat_count v' = 1 \<or> rqlat_count v' = 2) \<and> 1 \<le> rqlat_count v')
   \<and> (\<exists>v'. bpf_map_lookup_elem
          (rqlat_accum (snd (handle_sched_switch_rqlat 7 350 two_rqlat)))
          (7 :: u32) = Some v'
        \<and> (rqlat_count v' = 1 \<or> rqlat_count v' = 2) \<and> 1 \<le> rqlat_count v')
   \<and> bpf_map_lookup_elem (futex_accum two_lockwait) (7 :: u32)
     = Some \<lparr>lock_total_wait_ns = 10, lock_count = 1\<rparr>
   \<and> (\<exists>v'. bpf_map_lookup_elem
          (futex_accum (snd (handle_futex_enter 0x80 0x700000000 300 two_lockwait)))
          (7 :: u32) = Some v'
        \<and> (lock_count v' = 1 \<or> lock_count v' = 2) \<and> 1 \<le> lock_count v')
   \<and> (\<exists>v'. bpf_map_lookup_elem
          (futex_accum (snd (handle_futex_exit 0x700000000 350 two_lockwait)))
          (7 :: u32) = Some v'
        \<and> (lock_count v' = 1 \<or> lock_count v' = 2) \<and> 1 \<le> lock_count v')
   \<and> bpf_map_lookup_elem (pgfault_accum two_pgfault) (7 :: u32)
     = Some \<lparr>pgfault_total_ns = 10, pgfault_count = 1, pgfault_major_count = 1\<rparr>
   \<and> (\<exists>v'. bpf_map_lookup_elem
          (pgfault_accum (snd (handle_fault_enter 0x700000000 300 two_pgfault)))
          (7 :: u32) = Some v'
        \<and> (pgfault_count v' = 1 \<or> pgfault_count v' = 2) \<and> 1 \<le> pgfault_count
            v')
   \<and> (\<exists>v'. bpf_map_lookup_elem
          (pgfault_accum (snd (handle_fault_enter 0x700000000 300 two_pgfault)))
          (7 :: u32) = Some v'
        \<and> (pgfault_major_count v' = 1 \<or> pgfault_major_count v' = 2) \<and> 1 \<le>
            pgfault_major_count v')
   \<and> (\<exists>v'. bpf_map_lookup_elem
          (pgfault_accum (snd (handle_fault_exit 4 0x700000000 350 two_pgfault)))
          (7 :: u32) = Some v'
        \<and> (pgfault_count v' = 1 \<or> pgfault_count v' = 2) \<and> 1 \<le> pgfault_count
            v')
   \<and> (\<exists>v'. bpf_map_lookup_elem
          (pgfault_accum (snd (handle_fault_exit 4 0x700000000 350 two_pgfault)))
          (7 :: u32) = Some v'
        \<and> (pgfault_major_count v' = 1 \<or> pgfault_major_count v' = 2) \<and> 1 \<le>
            pgfault_major_count v')
   \<and> bpf_map_lookup_elem (sc_accum two_syscall) \<lparr>sc_pid = 7, sc_syscall_nr =
       1\<rparr>
     = Some \<lparr>sc_total_ns = 10, sc_count = 1, sc_max_ns = 10\<rparr>
   \<and> (\<exists>v'. bpf_map_lookup_elem
          (sc_accum (snd (handle_sys_enter 0x700000000 300 two_syscall)))
          \<lparr>sc_pid = 7, sc_syscall_nr = 1\<rparr> = Some v'
        \<and> (sc_count v' = 1 \<or> sc_count v' = 2) \<and> 1 \<le> sc_count v')
   \<and> (\<exists>v'. bpf_map_lookup_elem
          (sc_accum (snd (handle_sys_exit 1 0x700000000 350 two_syscall)))
          \<lparr>sc_pid = 7, sc_syscall_nr = 1\<rparr> = Some v'
        \<and> (sc_count v' = 1 \<or> sc_count v' = 2) \<and> 1 \<le> sc_count v')
   \<and> bpf_map_lookup_elem (reclaim_accum two_reclaim) (7 :: u32)
     = Some \<lparr>reclaim_stall_ns = 10, reclaim_count = 1\<rparr>
   \<and> (\<exists>v'. bpf_map_lookup_elem
          (reclaim_accum (snd (handle_reclaim_begin 0x700000000 300 two_reclaim)))
          (7 :: u32) = Some v'
        \<and> (reclaim_count v' = 1 \<or> reclaim_count v' = 2) \<and> 1 \<le> reclaim_count
            v')
   \<and> (\<exists>v'. bpf_map_lookup_elem
          (reclaim_accum (snd (handle_reclaim_end 0x700000000 350 two_reclaim)))
          (7 :: u32) = Some v'
        \<and> (reclaim_count v' = 1 \<or> reclaim_count v' = 2) \<and> 1 \<le> reclaim_count
            v')
   \<and> bpf_map_lookup_elem (offcpu_accum two_offcpu) (7 :: u32)
     = Some \<lparr>offcpu_total_ns = 10, offcpu_count = 1\<rparr>
   \<and> (\<exists>v'. bpf_map_lookup_elem
          (offcpu_accum (snd (handle_sched_switch 3 0 7 350 two_offcpu)))
          (7 :: u32) = Some v'
        \<and> (offcpu_count v' = 1 \<or> offcpu_count v' = 2) \<and> 1 \<le> offcpu_count v')
   \<and> bpf_map_lookup_elem (connlat_accum two_tcpconnlat) (7 :: u32)
     = Some \<lparr>connlat_total_ns = 10, connlat_count = 1, connlat_max_ns = 10,
         connlat_last_pid = 7, connlat_daddr = 0x0100007F\<rparr>
   \<and> (\<exists>v'. bpf_map_lookup_elem
          (connlat_accum (snd (handle_tcp_v4_connect 0xFFFF888000001000 0x700000000 300
              two_tcpconnlat)))
          (7 :: u32) = Some v'
        \<and> (connlat_count v' = 1 \<or> connlat_count v' = 2) \<and> 1 \<le> connlat_count
            v')
   \<and> (\<exists>v'. bpf_map_lookup_elem
          (connlat_accum (snd (handle_set_state established_ctx 350 two_tcpconnlat)))
          (7 :: u32) = Some v'
        \<and> (connlat_count v' = 1 \<or> connlat_count v' = 2) \<and> 1 \<le> connlat_count
            v')
   \<and> bpf_map_lookup_elem (iolat_hist two_iolat) (7 :: u32)
     = Some \<lparr>iolat_total_ns = 10, iolat_max_ns = 10, iolat_count = 1, iolat_slots = 1 #
         replicate 15 0, iolat_dev = 0x800010\<rparr>
   \<and> (\<exists>v'. bpf_map_lookup_elem
          (iolat_hist (snd (handle_block_rq_issue request_ctx 0 0x700000000 350 two_iolat)))
          (7 :: u32) = Some v'
        \<and> (iolat_count v' = 1 \<or> iolat_count v' = 2) \<and> 1 \<le> iolat_count v')
   \<and> (\<exists>v'. bpf_map_lookup_elem
          (iolat_hist (snd (handle_block_rq_complete request_ctx 0 350 two_iolat)))
          (7 :: u32) = Some v'
        \<and> (iolat_count v' = 1 \<or> iolat_count v' = 2) \<and> 1 \<le> iolat_count v')
   \<and> bpf_map_lookup_elem (sockio_accum two_sockio) \<lparr>sockio_pid = 7, sockio_daddr =
       0x0100007F, sockio_dport = 80, sockio_pad = 0\<rparr>
     = Some \<lparr>sockio_tx_bytes = 1448, sockio_rx_bytes = 0, sockio_recv_wait_ns = 10,
         sockio_recv_count = 1, sockio_max_recv_ns = 10\<rparr>
   \<and> (\<exists>v'. bpf_map_lookup_elem
          (sockio_accum (snd (handle_tcp_sendmsg web_sock 1448 0x700000000 two_sockio)))
          \<lparr>sockio_pid = 7, sockio_daddr = 0x0100007F, sockio_dport = 80, sockio_pad =
              0\<rparr> = Some v'
        \<and> (sockio_recv_count v' = 1 \<or> sockio_recv_count v' = 2) \<and> 1 \<le>
            sockio_recv_count v')
   \<and> (\<exists>v'. bpf_map_lookup_elem
          (sockio_accum (snd (handle_tcp_cleanup_rbuf web_sock 512 0x700000000 two_sockio)))
          \<lparr>sockio_pid = 7, sockio_daddr = 0x0100007F, sockio_dport = 80, sockio_pad =
              0\<rparr> = Some v'
        \<and> (sockio_recv_count v' = 1 \<or> sockio_recv_count v' = 2) \<and> 1 \<le>
            sockio_recv_count v')
   \<and> (\<exists>v'. bpf_map_lookup_elem
          (sockio_accum (snd (handle_tcp_recvmsg_enter web_sock 0x700000000 350 two_sockio)))
          \<lparr>sockio_pid = 7, sockio_daddr = 0x0100007F, sockio_dport = 80, sockio_pad =
              0\<rparr> = Some v'
        \<and> (sockio_recv_count v' = 1 \<or> sockio_recv_count v' = 2) \<and> 1 \<le>
            sockio_recv_count v')
   \<and> (\<exists>v'. bpf_map_lookup_elem
          (sockio_accum (snd (handle_tcp_recvmsg_exit 0x700000000 350 two_sockio)))
          \<lparr>sockio_pid = 7, sockio_daddr = 0x0100007F, sockio_dport = 80, sockio_pad =
              0\<rparr> = Some v'
        \<and> (sockio_recv_count v' = 1 \<or> sockio_recv_count v' = 2) \<and> 1 \<le>
            sockio_recv_count v')
   \<and> bpf_map_lookup_elem two_mod (0x656C6261745F666E :: u64)
     = Some \<lparr>mod_count = 1, mod_ts = 100, mod_name = mod_name_buf name_nf_tables\<rparr>
   \<and> (\<exists>v'. bpf_map_lookup_elem
          (snd (handle_do_init_module name_nf_tables 350 two_mod))
          (0x656C6261745F666E :: u64) = Some v'
        \<and> (mod_count v' = 1 \<or> mod_count v' = 2) \<and> 1 \<le> mod_count v')
   \<and> bpf_map_lookup_elem two_ptrace \<lparr>tracer_pid = 7, target_pid = 42\<rparr>
     = Some \<lparr>ptrace_count = 1, ptrace_ts = 100, ptrace_request = 16, ptrace_tracer_comm
         = comm_bash\<rparr>
   \<and> (\<exists>v'. bpf_map_lookup_elem
          (snd (handle_sys_enter_ptrace attach_ctx 0x700000000 comm_bash 350 two_ptrace))
          \<lparr>tracer_pid = 7, target_pid = 42\<rparr> = Some v'
        \<and> (ptrace_count v' = 1 \<or> ptrace_count v' = 2) \<and> 1 \<le> ptrace_count v')
   \<and> bpf_map_lookup_elem two_exec (7 :: u32)
     = Some \<lparr>exec_count = 1, exec_ts = 100, exec_ppid = 1, exec_uid = 1000, exec_comm =
         comm_bash, exec_filename = fname_bin_ls\<rparr>
   \<and> (\<exists>v'. bpf_map_lookup_elem
          (snd (handle_sched_process_exec 0x700000000 0x3E8000003E8 1 comm_bash fname_bin_ls
              350 two_exec))
          (7 :: u32) = Some v'
        \<and> (exec_count v' = 1 \<or> exec_count v' = 2) \<and> 1 \<le> exec_count v')
   \<and> bpf_map_lookup_elem two_state \<lparr>key_oldstate = 2, key_newstate = 1\<rparr>
     = Some \<lparr>state_count = 1\<rparr>
   \<and> (\<exists>v'. bpf_map_lookup_elem
          (snd (handle_sock_set_state established_ctx two_state))
          \<lparr>key_oldstate = 2, key_newstate = 1\<rparr> = Some v'
        \<and> (state_count v' = 1 \<or> state_count v' = 2) \<and> 1 \<le> state_count v')
   \<and> bpf_map_lookup_elem two_throttle (42 :: u64)
     = Some \<lparr>throttle_count = 1\<rparr>
   \<and> (\<exists>v'. bpf_map_lookup_elem
          (snd (handle_throttle_cfs_rq 42 two_throttle))
          (42 :: u64) = Some v'
        \<and> (throttle_count v' = 1 \<or> throttle_count v' = 2) \<and> 1 \<le>
            throttle_count v')
   \<and> bpf_map_lookup_elem two_drop (2 :: u32)
     = Some \<lparr>drop_count = 1\<rparr>
   \<and> (\<exists>v'. bpf_map_lookup_elem
          (snd (handle_kfree_skb 2 two_drop))
          (2 :: u32) = Some v'
        \<and> (drop_count v' = 1 \<or> drop_count v' = 2) \<and> 1 \<le> drop_count v')
   \<and> bpf_map_lookup_elem two_swap (7 :: u32)
     = Some \<lparr>swap_read_pages = 1, swap_write_pages = 1\<rparr>
   \<and> (\<exists>v'. bpf_map_lookup_elem
          (snd (handle_swap_readpage 0x700000000 two_swap))
          (7 :: u32) = Some v'
        \<and> (swap_read_pages v' = 1 \<or> swap_read_pages v' = 2) \<and> 1 \<le>
            swap_read_pages v')
   \<and> (\<exists>v'. bpf_map_lookup_elem
          (snd (handle_swap_readpage 0x700000000 two_swap))
          (7 :: u32) = Some v'
        \<and> (swap_write_pages v' = 1 \<or> swap_write_pages v' = 2) \<and> 1 \<le>
            swap_write_pages v')
   \<and> (\<exists>v'. bpf_map_lookup_elem
          (snd (handle_swap_writepage 0x700000000 two_swap))
          (7 :: u32) = Some v'
        \<and> (swap_read_pages v' = 1 \<or> swap_read_pages v' = 2) \<and> 1 \<le>
            swap_read_pages v')
   \<and> (\<exists>v'. bpf_map_lookup_elem
          (snd (handle_swap_writepage 0x700000000 two_swap))
          (7 :: u32) = Some v'
        \<and> (swap_write_pages v' = 1 \<or> swap_write_pages v' = 2) \<and> 1 \<le>
            swap_write_pages v')
   \<and> bpf_map_lookup_elem two_reset (7 :: u32)
     = Some \<lparr>reset_count = 1, reset_last_daddr = 0x0100007F, reset_last_dport =
         0x5000\<rparr>
   \<and> (\<exists>v'. bpf_map_lookup_elem
          (snd (handle_tcp_send_reset web_sock 0x700000000 two_reset))
          (7 :: u32) = Some v'
        \<and> (reset_count v' = 1 \<or> reset_count v' = 2) \<and> 1 \<le> reset_count v')
   \<and> bpf_map_lookup_elem two_retrans (7 :: u32)
     = Some \<lparr>retrans_count = 1, retrans_last_sport = 40000, retrans_last_dport = 80,
         retrans_last_daddr = 0x0100007F\<rparr>
   \<and> (\<exists>v'. bpf_map_lookup_elem
          (snd (handle_tcp_retransmit retransmit_ctx 0x700000000 two_retrans))
          (7 :: u32) = Some v'
        \<and> (retrans_count v' = 1 \<or> retrans_count v' = 2) \<and> 1 \<le> retrans_count
            v')
   \<and> bpf_map_lookup_elem two_rtt \<lparr>rtt_daddr = 0x0100007F, rtt_dport = 80, rtt_pad =
       0\<rparr>
     = Some \<lparr>rtt_sum_us = 100, rtt_count = 1, rtt_min_us = 100, rtt_max_us = 100,
         rtt_last_pid = 7\<rparr>
   \<and> (\<exists>v'. bpf_map_lookup_elem
          (snd (handle_tcp_rcv_established web_sock 800 0x700000000 two_rtt))
          \<lparr>rtt_daddr = 0x0100007F, rtt_dport = 80, rtt_pad = 0\<rparr> = Some v'
        \<and> (rtt_count v' = 1 \<or> rtt_count v' = 2) \<and> 1 \<le> rtt_count v')
   \<and> bpf_map_lookup_elem two_wb (7 :: u32)
     = Some \<lparr>wb_count = 1, wb_total_pages = 16\<rparr>
   \<and> (\<exists>v'. bpf_map_lookup_elem
          (snd (handle_writeback_wait 16 0x700000000 two_wb))
          (7 :: u32) = Some v'
        \<and> (wb_count v' = 1 \<or> wb_count v' = 2) \<and> 1 \<le> wb_count v')"
proof -
  note r0 = C9_count_never_decreases_below_wrap
    [where bctx = request_ctx and bm = two_wb and bs = two_iolat and cgid = 42 and
           comm = comm_bash and copied = 512 and cs = two_tcpconnlat and
           ctx_op = "0x80" and dm = two_drop and ds = two_reclaim and em = two_exec and
           fname = fname_bin_ls and fs = two_lockwait and k = 7 and ks = two_sockio and
           mm = two_mod and modname = name_nf_tables and next_pid = 7 and now = 350 and
           nr = 1 and nr_pages = 16 and os = two_offcpu and pad = 0 and
           pctx = attach_ctx and pm = two_ptrace and ppid = 1 and prev_pid = 3 and
           prev_st = 0 and ps = two_pgfault and pt = "0x700000000" and
           rctx = retransmit_ctx and reason = 2 and ret = 4 and rs = two_rqlat and
           sctx = established_ctx and sk = "0xFFFF888000001000" and sm = two_state and
           sock = web_sock and srtt_us = 800 and ss = two_syscall and sz = 1448 and
           tm = two_throttle and ts = 300 and ug = "0x3E8000003E8" and wm = two_swap and
           xm = two_reset and ym = two_retrans and zm = two_rtt]
  note t1 = r0 [THEN conjunct1] and r1 = r0 [THEN conjunct2]
  have l1: "bpf_map_lookup_elem (rqlat_accum two_rqlat) (7 :: u32)
     = Some \<lparr>rqlat_total_ns = 10, rqlat_count = 1, rqlat_max_ns = 10\<rparr>"
    by (simp add: two_rqlat_def map_eval request_ctx_def)
  from count_keptD [OF t1 l1]
  have c1: "(\<exists>v'. bpf_map_lookup_elem
        (rqlat_accum (snd (handle_sched_wakeup 7 300 two_rqlat)))
        (7 :: u32) = Some v'
      \<and> (rqlat_count v' = 1 \<or> rqlat_count v' = 2) \<and> 1 \<le> rqlat_count v')"
    by simp
  note t2 = r1 [THEN conjunct1] and r2 = r1 [THEN conjunct2]
  have l2: "bpf_map_lookup_elem (rqlat_accum two_rqlat) (7 :: u32)
     = Some \<lparr>rqlat_total_ns = 10, rqlat_count = 1, rqlat_max_ns = 10\<rparr>"
    by (simp add: two_rqlat_def map_eval request_ctx_def)
  from count_keptD [OF t2 l2]
  have c2: "(\<exists>v'. bpf_map_lookup_elem
        (rqlat_accum (snd (handle_sched_switch_rqlat 7 350 two_rqlat)))
        (7 :: u32) = Some v'
      \<and> (rqlat_count v' = 1 \<or> rqlat_count v' = 2) \<and> 1 \<le> rqlat_count v')"
    by simp
  note t3 = r2 [THEN conjunct1] and r3 = r2 [THEN conjunct2]
  have l3: "bpf_map_lookup_elem (futex_accum two_lockwait) (7 :: u32)
     = Some \<lparr>lock_total_wait_ns = 10, lock_count = 1\<rparr>"
    by (simp add: two_lockwait_def map_eval request_ctx_def)
  from count_keptD [OF t3 l3]
  have c3: "(\<exists>v'. bpf_map_lookup_elem
        (futex_accum (snd (handle_futex_enter 0x80 0x700000000 300 two_lockwait)))
        (7 :: u32) = Some v'
      \<and> (lock_count v' = 1 \<or> lock_count v' = 2) \<and> 1 \<le> lock_count v')"
    by simp
  note t4 = r3 [THEN conjunct1] and r4 = r3 [THEN conjunct2]
  have l4: "bpf_map_lookup_elem (futex_accum two_lockwait) (7 :: u32)
     = Some \<lparr>lock_total_wait_ns = 10, lock_count = 1\<rparr>"
    by (simp add: two_lockwait_def map_eval request_ctx_def)
  from count_keptD [OF t4 l4]
  have c4: "(\<exists>v'. bpf_map_lookup_elem
        (futex_accum (snd (handle_futex_exit 0x700000000 350 two_lockwait)))
        (7 :: u32) = Some v'
      \<and> (lock_count v' = 1 \<or> lock_count v' = 2) \<and> 1 \<le> lock_count v')"
    by simp
  note t5 = r4 [THEN conjunct1] and r5 = r4 [THEN conjunct2]
  have l5: "bpf_map_lookup_elem (pgfault_accum two_pgfault) (7 :: u32)
     = Some \<lparr>pgfault_total_ns = 10, pgfault_count = 1, pgfault_major_count = 1\<rparr>"
    by (simp add: two_pgfault_def map_eval request_ctx_def)
  from count_keptD [OF t5 l5]
  have c5: "(\<exists>v'. bpf_map_lookup_elem
        (pgfault_accum (snd (handle_fault_enter 0x700000000 300 two_pgfault)))
        (7 :: u32) = Some v'
      \<and> (pgfault_count v' = 1 \<or> pgfault_count v' = 2) \<and> 1 \<le> pgfault_count v')"
    by simp
  note t6 = r5 [THEN conjunct1] and r6 = r5 [THEN conjunct2]
  have l6: "bpf_map_lookup_elem (pgfault_accum two_pgfault) (7 :: u32)
     = Some \<lparr>pgfault_total_ns = 10, pgfault_count = 1, pgfault_major_count = 1\<rparr>"
    by (simp add: two_pgfault_def map_eval request_ctx_def)
  from count_keptD [OF t6 l6]
  have c6: "(\<exists>v'. bpf_map_lookup_elem
        (pgfault_accum (snd (handle_fault_enter 0x700000000 300 two_pgfault)))
        (7 :: u32) = Some v'
      \<and> (pgfault_major_count v' = 1 \<or> pgfault_major_count v' = 2) \<and> 1 \<le>
          pgfault_major_count v')"
    by simp
  note t7 = r6 [THEN conjunct1] and r7 = r6 [THEN conjunct2]
  have l7: "bpf_map_lookup_elem (pgfault_accum two_pgfault) (7 :: u32)
     = Some \<lparr>pgfault_total_ns = 10, pgfault_count = 1, pgfault_major_count = 1\<rparr>"
    by (simp add: two_pgfault_def map_eval request_ctx_def)
  from count_keptD [OF t7 l7]
  have c7: "(\<exists>v'. bpf_map_lookup_elem
        (pgfault_accum (snd (handle_fault_exit 4 0x700000000 350 two_pgfault)))
        (7 :: u32) = Some v'
      \<and> (pgfault_count v' = 1 \<or> pgfault_count v' = 2) \<and> 1 \<le> pgfault_count v')"
    by simp
  note t8 = r7 [THEN conjunct1] and r8 = r7 [THEN conjunct2]
  have l8: "bpf_map_lookup_elem (pgfault_accum two_pgfault) (7 :: u32)
     = Some \<lparr>pgfault_total_ns = 10, pgfault_count = 1, pgfault_major_count = 1\<rparr>"
    by (simp add: two_pgfault_def map_eval request_ctx_def)
  from count_keptD [OF t8 l8]
  have c8: "(\<exists>v'. bpf_map_lookup_elem
        (pgfault_accum (snd (handle_fault_exit 4 0x700000000 350 two_pgfault)))
        (7 :: u32) = Some v'
      \<and> (pgfault_major_count v' = 1 \<or> pgfault_major_count v' = 2) \<and> 1 \<le>
          pgfault_major_count v')"
    by simp
  note t9 = r8 [THEN conjunct1] and r9 = r8 [THEN conjunct2]
  have l9: "bpf_map_lookup_elem (sc_accum two_syscall) \<lparr>sc_pid = 7, sc_syscall_nr =
      1\<rparr>
     = Some \<lparr>sc_total_ns = 10, sc_count = 1, sc_max_ns = 10\<rparr>"
    by (simp add: two_syscall_def map_eval request_ctx_def)
  from count_keptD [OF t9 l9]
  have c9: "(\<exists>v'. bpf_map_lookup_elem
        (sc_accum (snd (handle_sys_enter 0x700000000 300 two_syscall)))
        \<lparr>sc_pid = 7, sc_syscall_nr = 1\<rparr> = Some v'
      \<and> (sc_count v' = 1 \<or> sc_count v' = 2) \<and> 1 \<le> sc_count v')"
    by simp
  note t10 = r9 [THEN conjunct1] and r10 = r9 [THEN conjunct2]
  have l10: "bpf_map_lookup_elem (sc_accum two_syscall) \<lparr>sc_pid = 7, sc_syscall_nr =
      1\<rparr>
     = Some \<lparr>sc_total_ns = 10, sc_count = 1, sc_max_ns = 10\<rparr>"
    by (simp add: two_syscall_def map_eval request_ctx_def)
  from count_keptD [OF t10 l10]
  have c10: "(\<exists>v'. bpf_map_lookup_elem
        (sc_accum (snd (handle_sys_exit 1 0x700000000 350 two_syscall)))
        \<lparr>sc_pid = 7, sc_syscall_nr = 1\<rparr> = Some v'
      \<and> (sc_count v' = 1 \<or> sc_count v' = 2) \<and> 1 \<le> sc_count v')"
    by simp
  note t11 = r10 [THEN conjunct1] and r11 = r10 [THEN conjunct2]
  have l11: "bpf_map_lookup_elem (reclaim_accum two_reclaim) (7 :: u32)
     = Some \<lparr>reclaim_stall_ns = 10, reclaim_count = 1\<rparr>"
    by (simp add: two_reclaim_def map_eval request_ctx_def)
  from count_keptD [OF t11 l11]
  have c11: "(\<exists>v'. bpf_map_lookup_elem
        (reclaim_accum (snd (handle_reclaim_begin 0x700000000 300 two_reclaim)))
        (7 :: u32) = Some v'
      \<and> (reclaim_count v' = 1 \<or> reclaim_count v' = 2) \<and> 1 \<le> reclaim_count v')"
    by simp
  note t12 = r11 [THEN conjunct1] and r12 = r11 [THEN conjunct2]
  have l12: "bpf_map_lookup_elem (reclaim_accum two_reclaim) (7 :: u32)
     = Some \<lparr>reclaim_stall_ns = 10, reclaim_count = 1\<rparr>"
    by (simp add: two_reclaim_def map_eval request_ctx_def)
  from count_keptD [OF t12 l12]
  have c12: "(\<exists>v'. bpf_map_lookup_elem
        (reclaim_accum (snd (handle_reclaim_end 0x700000000 350 two_reclaim)))
        (7 :: u32) = Some v'
      \<and> (reclaim_count v' = 1 \<or> reclaim_count v' = 2) \<and> 1 \<le> reclaim_count v')"
    by simp
  note t13 = r12 [THEN conjunct1] and r13 = r12 [THEN conjunct2]
  have l13: "bpf_map_lookup_elem (offcpu_accum two_offcpu) (7 :: u32)
     = Some \<lparr>offcpu_total_ns = 10, offcpu_count = 1\<rparr>"
    by (simp add: two_offcpu_def map_eval request_ctx_def)
  from count_keptD [OF t13 l13]
  have c13: "(\<exists>v'. bpf_map_lookup_elem
        (offcpu_accum (snd (handle_sched_switch 3 0 7 350 two_offcpu)))
        (7 :: u32) = Some v'
      \<and> (offcpu_count v' = 1 \<or> offcpu_count v' = 2) \<and> 1 \<le> offcpu_count v')"
    by simp
  note t14 = r13 [THEN conjunct1] and r14 = r13 [THEN conjunct2]
  have l14: "bpf_map_lookup_elem (connlat_accum two_tcpconnlat) (7 :: u32)
     = Some \<lparr>connlat_total_ns = 10, connlat_count = 1, connlat_max_ns = 10,
         connlat_last_pid = 7, connlat_daddr = 0x0100007F\<rparr>"
    by (simp add: two_tcpconnlat_def map_eval request_ctx_def)
  from count_keptD [OF t14 l14]
  have c14: "(\<exists>v'. bpf_map_lookup_elem
        (connlat_accum (snd (handle_tcp_v4_connect 0xFFFF888000001000 0x700000000 300
            two_tcpconnlat)))
        (7 :: u32) = Some v'
      \<and> (connlat_count v' = 1 \<or> connlat_count v' = 2) \<and> 1 \<le> connlat_count v')"
    by simp
  note t15 = r14 [THEN conjunct1] and r15 = r14 [THEN conjunct2]
  have l15: "bpf_map_lookup_elem (connlat_accum two_tcpconnlat) (7 :: u32)
     = Some \<lparr>connlat_total_ns = 10, connlat_count = 1, connlat_max_ns = 10,
         connlat_last_pid = 7, connlat_daddr = 0x0100007F\<rparr>"
    by (simp add: two_tcpconnlat_def map_eval request_ctx_def)
  from count_keptD [OF t15 l15]
  have c15: "(\<exists>v'. bpf_map_lookup_elem
        (connlat_accum (snd (handle_set_state established_ctx 350 two_tcpconnlat)))
        (7 :: u32) = Some v'
      \<and> (connlat_count v' = 1 \<or> connlat_count v' = 2) \<and> 1 \<le> connlat_count v')"
    by simp
  note t16 = r15 [THEN conjunct1] and r16 = r15 [THEN conjunct2]
  have l16: "bpf_map_lookup_elem (iolat_hist two_iolat) (7 :: u32)
     = Some \<lparr>iolat_total_ns = 10, iolat_max_ns = 10, iolat_count = 1, iolat_slots = 1 #
         replicate 15 0, iolat_dev = 0x800010\<rparr>"
    by (simp add: two_iolat_def map_eval request_ctx_def)
  from count_keptD [OF t16 l16]
  have c16: "(\<exists>v'. bpf_map_lookup_elem
        (iolat_hist (snd (handle_block_rq_issue request_ctx 0 0x700000000 350 two_iolat)))
        (7 :: u32) = Some v'
      \<and> (iolat_count v' = 1 \<or> iolat_count v' = 2) \<and> 1 \<le> iolat_count v')"
    by simp
  note t17 = r16 [THEN conjunct1] and r17 = r16 [THEN conjunct2]
  have l17: "bpf_map_lookup_elem (iolat_hist two_iolat) (7 :: u32)
     = Some \<lparr>iolat_total_ns = 10, iolat_max_ns = 10, iolat_count = 1, iolat_slots = 1 #
         replicate 15 0, iolat_dev = 0x800010\<rparr>"
    by (simp add: two_iolat_def map_eval request_ctx_def)
  from count_keptD [OF t17 l17]
  have c17: "(\<exists>v'. bpf_map_lookup_elem
        (iolat_hist (snd (handle_block_rq_complete request_ctx 0 350 two_iolat)))
        (7 :: u32) = Some v'
      \<and> (iolat_count v' = 1 \<or> iolat_count v' = 2) \<and> 1 \<le> iolat_count v')"
    by simp
  note t18 = r17 [THEN conjunct1] and r18 = r17 [THEN conjunct2]
  have l18: "bpf_map_lookup_elem (sockio_accum two_sockio) \<lparr>sockio_pid = 7, sockio_daddr
      = 0x0100007F, sockio_dport = 80, sockio_pad = 0\<rparr>
     = Some \<lparr>sockio_tx_bytes = 1448, sockio_rx_bytes = 0, sockio_recv_wait_ns = 10,
         sockio_recv_count = 1, sockio_max_recv_ns = 10\<rparr>"
    by (simp add: two_sockio_def map_eval request_ctx_def)
  from count_keptD [OF t18 l18]
  have c18: "(\<exists>v'. bpf_map_lookup_elem
        (sockio_accum (snd (handle_tcp_sendmsg web_sock 1448 0x700000000 two_sockio)))
        \<lparr>sockio_pid = 7, sockio_daddr = 0x0100007F, sockio_dport = 80, sockio_pad =
            0\<rparr> = Some v'
      \<and> (sockio_recv_count v' = 1 \<or> sockio_recv_count v' = 2) \<and> 1 \<le>
          sockio_recv_count v')"
    by simp
  note t19 = r18 [THEN conjunct1] and r19 = r18 [THEN conjunct2]
  have l19: "bpf_map_lookup_elem (sockio_accum two_sockio) \<lparr>sockio_pid = 7, sockio_daddr
      = 0x0100007F, sockio_dport = 80, sockio_pad = 0\<rparr>
     = Some \<lparr>sockio_tx_bytes = 1448, sockio_rx_bytes = 0, sockio_recv_wait_ns = 10,
         sockio_recv_count = 1, sockio_max_recv_ns = 10\<rparr>"
    by (simp add: two_sockio_def map_eval request_ctx_def)
  from count_keptD [OF t19 l19]
  have c19: "(\<exists>v'. bpf_map_lookup_elem
        (sockio_accum (snd (handle_tcp_cleanup_rbuf web_sock 512 0x700000000 two_sockio)))
        \<lparr>sockio_pid = 7, sockio_daddr = 0x0100007F, sockio_dport = 80, sockio_pad =
            0\<rparr> = Some v'
      \<and> (sockio_recv_count v' = 1 \<or> sockio_recv_count v' = 2) \<and> 1 \<le>
          sockio_recv_count v')"
    by simp
  note t20 = r19 [THEN conjunct1] and r20 = r19 [THEN conjunct2]
  have l20: "bpf_map_lookup_elem (sockio_accum two_sockio) \<lparr>sockio_pid = 7, sockio_daddr
      = 0x0100007F, sockio_dport = 80, sockio_pad = 0\<rparr>
     = Some \<lparr>sockio_tx_bytes = 1448, sockio_rx_bytes = 0, sockio_recv_wait_ns = 10,
         sockio_recv_count = 1, sockio_max_recv_ns = 10\<rparr>"
    by (simp add: two_sockio_def map_eval request_ctx_def)
  from count_keptD [OF t20 l20]
  have c20: "(\<exists>v'. bpf_map_lookup_elem
        (sockio_accum (snd (handle_tcp_recvmsg_enter web_sock 0x700000000 350 two_sockio)))
        \<lparr>sockio_pid = 7, sockio_daddr = 0x0100007F, sockio_dport = 80, sockio_pad =
            0\<rparr> = Some v'
      \<and> (sockio_recv_count v' = 1 \<or> sockio_recv_count v' = 2) \<and> 1 \<le>
          sockio_recv_count v')"
    by simp
  note t21 = r20 [THEN conjunct1] and r21 = r20 [THEN conjunct2]
  have l21: "bpf_map_lookup_elem (sockio_accum two_sockio) \<lparr>sockio_pid = 7, sockio_daddr
      = 0x0100007F, sockio_dport = 80, sockio_pad = 0\<rparr>
     = Some \<lparr>sockio_tx_bytes = 1448, sockio_rx_bytes = 0, sockio_recv_wait_ns = 10,
         sockio_recv_count = 1, sockio_max_recv_ns = 10\<rparr>"
    by (simp add: two_sockio_def map_eval request_ctx_def)
  from count_keptD [OF t21 l21]
  have c21: "(\<exists>v'. bpf_map_lookup_elem
        (sockio_accum (snd (handle_tcp_recvmsg_exit 0x700000000 350 two_sockio)))
        \<lparr>sockio_pid = 7, sockio_daddr = 0x0100007F, sockio_dport = 80, sockio_pad =
            0\<rparr> = Some v'
      \<and> (sockio_recv_count v' = 1 \<or> sockio_recv_count v' = 2) \<and> 1 \<le>
          sockio_recv_count v')"
    by simp
  note t22 = r21 [THEN conjunct1] and r22 = r21 [THEN conjunct2]
  have l22: "bpf_map_lookup_elem two_mod (0x656C6261745F666E :: u64)
     = Some \<lparr>mod_count = 1, mod_ts = 100, mod_name = mod_name_buf name_nf_tables\<rparr>"
    by (simp add: two_mod_def map_eval request_ctx_def)
  from count_keptD [OF t22 l22]
  have c22: "(\<exists>v'. bpf_map_lookup_elem
        (snd (handle_do_init_module name_nf_tables 350 two_mod))
        (0x656C6261745F666E :: u64) = Some v'
      \<and> (mod_count v' = 1 \<or> mod_count v' = 2) \<and> 1 \<le> mod_count v')"
    by simp
  note t23 = r22 [THEN conjunct1] and r23 = r22 [THEN conjunct2]
  have l23: "bpf_map_lookup_elem two_ptrace \<lparr>tracer_pid = 7, target_pid = 42\<rparr>
     = Some \<lparr>ptrace_count = 1, ptrace_ts = 100, ptrace_request = 16, ptrace_tracer_comm
         = comm_bash\<rparr>"
    by (simp add: two_ptrace_def map_eval request_ctx_def)
  from count_keptD [OF t23 l23]
  have c23: "(\<exists>v'. bpf_map_lookup_elem
        (snd (handle_sys_enter_ptrace attach_ctx 0x700000000 comm_bash 350 two_ptrace))
        \<lparr>tracer_pid = 7, target_pid = 42\<rparr> = Some v'
      \<and> (ptrace_count v' = 1 \<or> ptrace_count v' = 2) \<and> 1 \<le> ptrace_count v')"
    by simp
  note t24 = r23 [THEN conjunct1] and r24 = r23 [THEN conjunct2]
  have l24: "bpf_map_lookup_elem two_exec (7 :: u32)
     = Some \<lparr>exec_count = 1, exec_ts = 100, exec_ppid = 1, exec_uid = 1000, exec_comm =
         comm_bash, exec_filename = fname_bin_ls\<rparr>"
    by (simp add: two_exec_def map_eval request_ctx_def)
  from count_keptD [OF t24 l24]
  have c24: "(\<exists>v'. bpf_map_lookup_elem
        (snd (handle_sched_process_exec 0x700000000 0x3E8000003E8 1 comm_bash fname_bin_ls 350
            two_exec))
        (7 :: u32) = Some v'
      \<and> (exec_count v' = 1 \<or> exec_count v' = 2) \<and> 1 \<le> exec_count v')"
    by simp
  note t25 = r24 [THEN conjunct1] and r25 = r24 [THEN conjunct2]
  have l25: "bpf_map_lookup_elem two_state \<lparr>key_oldstate = 2, key_newstate = 1\<rparr>
     = Some \<lparr>state_count = 1\<rparr>"
    by (simp add: two_state_def map_eval request_ctx_def)
  from count_keptD [OF t25 l25]
  have c25: "(\<exists>v'. bpf_map_lookup_elem
        (snd (handle_sock_set_state established_ctx two_state))
        \<lparr>key_oldstate = 2, key_newstate = 1\<rparr> = Some v'
      \<and> (state_count v' = 1 \<or> state_count v' = 2) \<and> 1 \<le> state_count v')"
    by simp
  note t26 = r25 [THEN conjunct1] and r26 = r25 [THEN conjunct2]
  have l26: "bpf_map_lookup_elem two_throttle (42 :: u64)
     = Some \<lparr>throttle_count = 1\<rparr>"
    by (simp add: two_throttle_def map_eval request_ctx_def)
  from count_keptD [OF t26 l26]
  have c26: "(\<exists>v'. bpf_map_lookup_elem
        (snd (handle_throttle_cfs_rq 42 two_throttle))
        (42 :: u64) = Some v'
      \<and> (throttle_count v' = 1 \<or> throttle_count v' = 2) \<and> 1 \<le> throttle_count
          v')"
    by simp
  note t27 = r26 [THEN conjunct1] and r27 = r26 [THEN conjunct2]
  have l27: "bpf_map_lookup_elem two_drop (2 :: u32)
     = Some \<lparr>drop_count = 1\<rparr>"
    by (simp add: two_drop_def map_eval request_ctx_def)
  from count_keptD [OF t27 l27]
  have c27: "(\<exists>v'. bpf_map_lookup_elem
        (snd (handle_kfree_skb 2 two_drop))
        (2 :: u32) = Some v'
      \<and> (drop_count v' = 1 \<or> drop_count v' = 2) \<and> 1 \<le> drop_count v')"
    by simp
  note t28 = r27 [THEN conjunct1] and r28 = r27 [THEN conjunct2]
  have l28: "bpf_map_lookup_elem two_swap (7 :: u32)
     = Some \<lparr>swap_read_pages = 1, swap_write_pages = 1\<rparr>"
    by (simp add: two_swap_def map_eval request_ctx_def)
  from count_keptD [OF t28 l28]
  have c28: "(\<exists>v'. bpf_map_lookup_elem
        (snd (handle_swap_readpage 0x700000000 two_swap))
        (7 :: u32) = Some v'
      \<and> (swap_read_pages v' = 1 \<or> swap_read_pages v' = 2) \<and> 1 \<le>
          swap_read_pages v')"
    by simp
  note t29 = r28 [THEN conjunct1] and r29 = r28 [THEN conjunct2]
  have l29: "bpf_map_lookup_elem two_swap (7 :: u32)
     = Some \<lparr>swap_read_pages = 1, swap_write_pages = 1\<rparr>"
    by (simp add: two_swap_def map_eval request_ctx_def)
  from count_keptD [OF t29 l29]
  have c29: "(\<exists>v'. bpf_map_lookup_elem
        (snd (handle_swap_readpage 0x700000000 two_swap))
        (7 :: u32) = Some v'
      \<and> (swap_write_pages v' = 1 \<or> swap_write_pages v' = 2) \<and> 1 \<le>
          swap_write_pages v')"
    by simp
  note t30 = r29 [THEN conjunct1] and r30 = r29 [THEN conjunct2]
  have l30: "bpf_map_lookup_elem two_swap (7 :: u32)
     = Some \<lparr>swap_read_pages = 1, swap_write_pages = 1\<rparr>"
    by (simp add: two_swap_def map_eval request_ctx_def)
  from count_keptD [OF t30 l30]
  have c30: "(\<exists>v'. bpf_map_lookup_elem
        (snd (handle_swap_writepage 0x700000000 two_swap))
        (7 :: u32) = Some v'
      \<and> (swap_read_pages v' = 1 \<or> swap_read_pages v' = 2) \<and> 1 \<le>
          swap_read_pages v')"
    by simp
  note t31 = r30 [THEN conjunct1] and r31 = r30 [THEN conjunct2]
  have l31: "bpf_map_lookup_elem two_swap (7 :: u32)
     = Some \<lparr>swap_read_pages = 1, swap_write_pages = 1\<rparr>"
    by (simp add: two_swap_def map_eval request_ctx_def)
  from count_keptD [OF t31 l31]
  have c31: "(\<exists>v'. bpf_map_lookup_elem
        (snd (handle_swap_writepage 0x700000000 two_swap))
        (7 :: u32) = Some v'
      \<and> (swap_write_pages v' = 1 \<or> swap_write_pages v' = 2) \<and> 1 \<le>
          swap_write_pages v')"
    by simp
  note t32 = r31 [THEN conjunct1] and r32 = r31 [THEN conjunct2]
  have l32: "bpf_map_lookup_elem two_reset (7 :: u32)
     = Some \<lparr>reset_count = 1, reset_last_daddr = 0x0100007F, reset_last_dport =
         0x5000\<rparr>"
    by (simp add: two_reset_def map_eval request_ctx_def)
  from count_keptD [OF t32 l32]
  have c32: "(\<exists>v'. bpf_map_lookup_elem
        (snd (handle_tcp_send_reset web_sock 0x700000000 two_reset))
        (7 :: u32) = Some v'
      \<and> (reset_count v' = 1 \<or> reset_count v' = 2) \<and> 1 \<le> reset_count v')"
    by simp
  note t33 = r32 [THEN conjunct1] and r33 = r32 [THEN conjunct2]
  have l33: "bpf_map_lookup_elem two_retrans (7 :: u32)
     = Some \<lparr>retrans_count = 1, retrans_last_sport = 40000, retrans_last_dport = 80,
         retrans_last_daddr = 0x0100007F\<rparr>"
    by (simp add: two_retrans_def map_eval request_ctx_def)
  from count_keptD [OF t33 l33]
  have c33: "(\<exists>v'. bpf_map_lookup_elem
        (snd (handle_tcp_retransmit retransmit_ctx 0x700000000 two_retrans))
        (7 :: u32) = Some v'
      \<and> (retrans_count v' = 1 \<or> retrans_count v' = 2) \<and> 1 \<le> retrans_count v')"
    by simp
  note t34 = r33 [THEN conjunct1] and r34 = r33 [THEN conjunct2]
  have l34: "bpf_map_lookup_elem two_rtt \<lparr>rtt_daddr = 0x0100007F, rtt_dport = 80,
      rtt_pad = 0\<rparr>
     = Some \<lparr>rtt_sum_us = 100, rtt_count = 1, rtt_min_us = 100, rtt_max_us = 100,
         rtt_last_pid = 7\<rparr>"
    by (simp add: two_rtt_def map_eval request_ctx_def)
  from count_keptD [OF t34 l34]
  have c34: "(\<exists>v'. bpf_map_lookup_elem
        (snd (handle_tcp_rcv_established web_sock 800 0x700000000 two_rtt))
        \<lparr>rtt_daddr = 0x0100007F, rtt_dport = 80, rtt_pad = 0\<rparr> = Some v'
      \<and> (rtt_count v' = 1 \<or> rtt_count v' = 2) \<and> 1 \<le> rtt_count v')"
    by simp
  note t35 = r34
  have l35: "bpf_map_lookup_elem two_wb (7 :: u32)
     = Some \<lparr>wb_count = 1, wb_total_pages = 16\<rparr>"
    by (simp add: two_wb_def map_eval request_ctx_def)
  from count_keptD [OF t35 l35]
  have c35: "(\<exists>v'. bpf_map_lookup_elem
        (snd (handle_writeback_wait 16 0x700000000 two_wb))
        (7 :: u32) = Some v'
      \<and> (wb_count v' = 1 \<or> wb_count v' = 2) \<and> 1 \<le> wb_count v')"
    by simp
  from l1 c1 c2 l3 c3 c4 l5 c5 c6 c7 c8 l9 c9 c10 l11 c11 c12 l13 c13 l14 c14 c15 l16
    c16 c17 l18 c18 c19 c20 c21 l22 c22 l23 c23 l24 c24 l25 c25 l26 c26 l27 c27 l28 c28
    c29 c30 c31 l32 c32 l33 c33 l34 c34 l35 c35
  show ?thesis
    by (intro conjI)
qed

text \<open>
  The claim as the specification states it fails at the largest value of a count: one
  more run-queue sample takes a 32-bit count from \<open>0xFFFFFFFF\<close> to 0, and one more
  transition takes a 64-bit count from \<open>0xFFFFFFFFFFFFFFFF\<close> to 0.
\<close>

theorem C9_count_wraps_counterexample:
  "bpf_map_lookup_elem (rqlat_accum wrap_rqlat) 7
     = Some \<lparr>rqlat_total_ns = 1000, rqlat_count = 0xFFFFFFFF, rqlat_max_ns = 400\<rparr>
   \<and> bpf_map_lookup_elem (rqlat_accum (snd (handle_sched_switch_rqlat 7 250 wrap_rqlat))) 7
     = Some \<lparr>rqlat_total_ns = 1250, rqlat_count = 0, rqlat_max_ns = 400\<rparr>
   \<and> bpf_map_lookup_elem wrap_state \<lparr>key_oldstate = 2, key_newstate = 1\<rparr>
     = Some \<lparr>state_count = 0xFFFFFFFFFFFFFFFF\<rparr>
   \<and> bpf_map_lookup_elem (snd (handle_sock_set_state established_ctx wrap_state))
        \<lparr>key_oldstate = 2, key_newstate = 1\<rparr>
     = Some \<lparr>state_count = 0\<rparr>"
  by (simp add: wrap_rqlat_def wrap_state_def established_ctx_def handle_sched_switch_rqlat_def
        handle_sock_set_state_def map_eval)

section \<open>Claim C10: a pair of duration zero\<close>

text \<open>
  Claim C10. In the block-IO completion handler and in the futex exit handler, a pair
  whose duration is exactly zero is discarded: the pairing entry is deleted, the handler
  returns 0, and the accumulation table is left as it was, with no record created or
  updated.
\<close>

theorem C10_zero_duration_discarded:
  "(bpf_map_lookup_elem (inflight bs) \<lparr>rq_dev = ctx_dev bctx, rq_pad = pad, rq_sector = ctx_sector bctx\<rparr>
        = Some start \<and> now - rq_start_ns start = 0 \<longrightarrow>
      handle_block_rq_complete bctx pad now bs =
        (0, bs\<lparr>inflight := snd (bpf_map_delete_elem (inflight bs)
                   \<lparr>rq_dev = ctx_dev bctx, rq_pad = pad, rq_sector = ctx_sector bctx\<rparr>)\<rparr>))
   \<and> (current_pid pt \<noteq> 0
        \<and> bpf_map_lookup_elem (futex_start fs) (current_pid pt) = Some ts \<and> now - ts = 0 \<longrightarrow>
      handle_futex_exit pt now fs =
        (0, fs\<lparr>futex_start :=
               snd (bpf_map_delete_elem (futex_start fs) (current_pid pt))\<rparr>))"
  by (simp add: rq_complete_zero futex_exit_zero)

text \<open>
  The theorem for a request of process 7 on device 8, sector 2048, issued and completed at
  100 ns, and a futex wait of process 7 that begins and ends at 100 ns.
\<close>

theorem C10_zero_duration_discarded_witness:
  "handle_block_rq_complete \<lparr>ctx_dev = 8, ctx_sector = 2048\<rparr> 0 100
     (snd (handle_block_rq_issue \<lparr>ctx_dev = 8, ctx_sector = 2048\<rparr> 0 0x700000000 100
             iolat_init)) = (0, iolat_init)
   \<and> handle_futex_exit 0x700000000 100
        (snd (handle_futex_enter 0x80 0x700000000 100 lockwait_init)) = (0, lockwait_init)"
proof -
  let ?bs = "snd (handle_block_rq_issue \<lparr>ctx_dev = 8, ctx_sector = 2048\<rparr> 0 0x700000000 100
             iolat_init)"
  let ?fs = "snd (handle_futex_enter 0x80 0x700000000 100 lockwait_init)"
  have h: "bpf_map_lookup_elem (inflight ?bs) \<lparr>rq_dev = 8, rq_pad = 0, rq_sector = 2048\<rparr>
        = Some \<lparr>rq_pid = 7, rq_start_ns = 100\<rparr>
      \<and> (100 :: u64) - 100 = 0 \<and> current_pid 0x700000000 \<noteq> 0
      \<and> bpf_map_lookup_elem (futex_start ?fs) (current_pid 0x700000000) = Some 100"
    by (simp add: handle_block_rq_issue_def handle_futex_enter_def iolat_init_def
          lockwait_init_def map_eval FUTEX_WAIT_def)
  from h C10_zero_duration_discarded
    [where bs = "?bs" and pad = 0 and bctx = "\<lparr>ctx_dev = 8, ctx_sector = 2048\<rparr>"
       and start = "\<lparr>rq_pid = 7, rq_start_ns = 100\<rparr>" and now = 100
       and pt = "0x700000000" and fs = "?fs" and ts = 100]
  show ?thesis
    by (simp add: handle_block_rq_issue_def handle_futex_enter_def iolat_init_def
          lockwait_init_def map_eval FUTEX_WAIT_def)
qed

end
